theory Spec2Isabelle
  imports Main
begin

section \<open>Strings and plain objects\<close>

text \<open>
  The compiler in \<^verbatim>\<open>packages/compiler/src/render3/view/compiler.ts\<close> works on
  JavaScript strings and on plain objects used as string-keyed dictionaries.  A string is
  modelled as a \<^typ>\<open>string\<close>, the list of its code units, which are taken below 256 (the
  Latin-1 range).  Every string operation of the source that is modelled here compares
  against ASCII characters only (\<^verbatim>\<open>.\<close>, \<^verbatim>\<open>[\<close>, \<^verbatim>\<open>]\<close>, \<^verbatim>\<open>(\<close>, \<^verbatim>\<open>)\<close>,
  \<^verbatim>\<open>@\<close>, \<^verbatim>\<open>-\<close>, \<^verbatim>\<open>\w\<close>, the letters of \<^verbatim>\<open>style\<close> and \<^verbatim>\<open>class\<close>) and cuts
  strings only next to such characters.
\<close>

definition code_unit :: "char \<Rightarrow> nat" where
  "code_unit c = of_char c"

text \<open>\<^verbatim>\<open>String.prototype.toLowerCase\<close>, on one code unit: the letters A to Z, and the
  capital letters of Latin-1 (\<open>0xC0\<close> to \<open>0xDE\<close>, without the multiplication sign
  \<open>0xD7\<close>), are lowered to the code unit 32 above; the other code units below 256 are kept.
  The letters A to Z are the only ones that are lowered to an ASCII letter.\<close>

definition toLowerCase_char :: "char \<Rightarrow> char" where
  "toLowerCase_char c =
     (if (65 \<le> code_unit c \<and> code_unit c \<le> 90)
         \<or> (192 \<le> code_unit c \<and> code_unit c \<le> 222 \<and> code_unit c \<noteq> 215)
      then char_of (code_unit c + 32) else c)"

definition toLowerCase :: "string \<Rightarrow> string" where
  "toLowerCase s = map toLowerCase_char s"

text \<open>\<^verbatim>\<open>s.substring(a, b)\<close>: both indices are clamped to the string, and swapped when
  the first is the larger one.\<close>

definition clamp_index :: "string \<Rightarrow> int \<Rightarrow> nat" where
  "clamp_index s i = (if i < 0 then 0 else min (nat i) (length s))"

definition substring :: "string \<Rightarrow> int \<Rightarrow> int \<Rightarrow> string" where
  "substring s a b =
     (let a' = clamp_index s a; b' = clamp_index s b;
          lo = min a' b'; hi = max a' b'
      in take (hi - lo) (drop lo s))"

text \<open>\<^verbatim>\<open>s.indexOf(c)\<close> and \<^verbatim>\<open>s.lastIndexOf(c)\<close> for a one-character needle;
  \<open>-1\<close> when the character does not occur.\<close>

fun indexOf :: "string \<Rightarrow> char \<Rightarrow> int" where
  "indexOf [] c = - 1"
| "indexOf (x # xs) c =
     (if x = c then 0 else (let i = indexOf xs c in if i < 0 then - 1 else i + 1))"

definition lastIndexOf :: "string \<Rightarrow> char \<Rightarrow> int" where
  "lastIndexOf s c =
     (let i = indexOf (rev s) c in if i < 0 then - 1 else int (length s) - 1 - i)"

text \<open>
  A plain object is the list of its own properties in the order in which
  \<^verbatim>\<open>Object.keys\<close> and \<^verbatim>\<open>Object.getOwnPropertyNames\<close> enumerate them: the keys that
  are array indices first, in ascending numeric order, then the other keys in the order of
  their creation.  \<open>array_index\<close> recognises an array index (the canonical decimal
  numeral of a number below \<open>2^32 - 1\<close>).
\<close>

type_synonym 'v obj = "(string \<times> 'v) list"

definition is_digit :: "char \<Rightarrow> bool" where
  "is_digit c = (48 \<le> code_unit c \<and> code_unit c \<le> 57)"

definition digits_value :: "string \<Rightarrow> nat" where
  "digits_value s = foldl (\<lambda>a c. 10 * a + (code_unit c - 48)) 0 s"

definition array_index :: "string \<Rightarrow> nat option" where
  "array_index s =
     (if s \<noteq> [] \<and> list_all is_digit s \<and> (s = ''0'' \<or> hd s \<noteq> CHR ''0'')
         \<and> digits_value s < 2 ^ 32 - 1
      then Some (digits_value s) else None)"

definition obj_keys :: "'v obj \<Rightarrow> string list" where
  "obj_keys ob = map fst ob"

definition obj_get :: "'v obj \<Rightarrow> string \<Rightarrow> 'v option" where
  "obj_get ob k = map_of ob k"

text \<open>The place of a new key: an array index goes before the first key that is not an
  array index or is a larger one; any other key goes to the end.\<close>

fun obj_insert :: "string \<Rightarrow> 'v \<Rightarrow> 'v obj \<Rightarrow> 'v obj" where
  "obj_insert k v [] = [(k, v)]"
| "obj_insert k v ((k', v') # rest) =
     (case array_index k of
        None \<Rightarrow> (k', v') # obj_insert k v rest
      | Some n \<Rightarrow>
          (case array_index k' of
             None \<Rightarrow> (k, v) # (k', v') # rest
           | Some n' \<Rightarrow> if n < n' then (k, v) # (k', v') # rest
                        else (k', v') # obj_insert k v rest))"

text \<open>\<^verbatim>\<open>ob[k] = v\<close> on an object created by \<^verbatim>\<open>{}\<close>, for a value that is a string, as
  in every assignment of this kind in the source.  An existing property keeps its place.
  The key \<^verbatim>\<open>__proto__\<close> is the accessor of \<^verbatim>\<open>Object.prototype\<close>: the assignment
  calls its setter, which ignores a string, and the object gets no property.\<close>

definition obj_set :: "'v obj \<Rightarrow> string \<Rightarrow> 'v \<Rightarrow> 'v obj" where
  "obj_set ob k v =
     (if k = ''__proto__'' then ob
      else if k \<in> set (obj_keys ob)
      then map (\<lambda>(k', v'). if k' = k then (k', v) else (k', v')) ob
      else obj_insert k v ob)"

text \<open>The enumeration order that an object can have: no key twice, the array indices
  first and ascending.  \<open>key_before k k'\<close> holds when \<open>k\<close> may come before \<open>k'\<close>.\<close>

definition key_before :: "string \<Rightarrow> string \<Rightarrow> bool" where
  "key_before k k' =
     (case array_index k' of
        None \<Rightarrow> True
      | Some n' \<Rightarrow> (case array_index k of None \<Rightarrow> False | Some n \<Rightarrow> n < n'))"

definition keys_ordered :: "string list \<Rightarrow> bool" where
  "keys_ordered ks = sorted_wrt key_before ks"

definition wf_obj :: "'v obj \<Rightarrow> bool" where
  "wf_obj ob = (distinct (obj_keys ob) \<and> keys_ordered (obj_keys ob))"


section \<open>Styling prefix and named properties\<close>

text \<open>\<^verbatim>\<open>getStylingPrefix\<close>: the first five characters, lowered.\<close>

definition getStylingPrefix :: "string \<Rightarrow> string" where
  "getStylingPrefix propName = toLowerCase (substring propName 0 5)"

text \<open>\<^verbatim>\<open>parseNamedProperty\<close> returns the pair \<open>(propertyName, unit)\<close>.\<close>

definition parseNamedProperty :: "string \<Rightarrow> string \<times> string" where
  "parseNamedProperty name =
     (let index = indexOf name CHR ''.''
      in if index > 0 then
           (let unitIndex = lastIndexOf name CHR ''.''
            in if unitIndex \<noteq> index
               then (substring name (index + 1) unitIndex,
                     substring name (unitIndex + 1) (int (length name)))
               else (substring name (index + 1) (int (length name)), ''''))
         else ('''', ''''))"


section \<open>The host binding syntax\<close>

text \<open>
  \<^verbatim>\<open>HOST_REG_EXP = /^(?:(?:\[([^\]]+)\])|(?:\(([^\)]+)\)))|(\@[-\w]+)$/\<close>.
  The pattern is an alternation of two branches.  The first is anchored at the start of
  the key only: a bracket or a parenthesis, at least one character other than the closing
  one, then the closing one.  The second is anchored at the end of the key only: an
  \<^verbatim>\<open>@\<close> followed by word characters and hyphens up to the end.  A match is the
  triple of the three capture groups.
\<close>

definition is_word_char :: "char \<Rightarrow> bool" where
  "is_word_char c =
     ((48 \<le> code_unit c \<and> code_unit c \<le> 57) \<or> (65 \<le> code_unit c \<and> code_unit c \<le> 90)
      \<or> code_unit c = 95 \<or> (97 \<le> code_unit c \<and> code_unit c \<le> 122))"

definition is_trigger_char :: "char \<Rightarrow> bool" where
  "is_trigger_char c = (c = CHR ''-'' \<or> is_word_char c)"

text \<open>A delimited group at the start of the key: \<^verbatim>\<open>\[([^\]]+)\]\<close> for the
  delimiters \<^verbatim>\<open>[\<close> and \<^verbatim>\<open>]\<close>.\<close>

definition match_delimited :: "char \<Rightarrow> char \<Rightarrow> string \<Rightarrow> string option" where
  "match_delimited l r key =
     (case key of
        [] \<Rightarrow> None
      | c # rest \<Rightarrow>
          if c = l \<and> takeWhile (\<lambda>x. x \<noteq> r) rest \<noteq> [] \<and> dropWhile (\<lambda>x. x \<noteq> r) rest \<noteq> []
          then Some (takeWhile (\<lambda>x. x \<noteq> r) rest) else None)"

text \<open>\<^verbatim>\<open>(\@[-\w]+)$\<close>, tried at every start position from the left.\<close>

fun match_trigger :: "string \<Rightarrow> string option" where
  "match_trigger [] = None"
| "match_trigger (c # cs) =
     (if c = CHR ''@'' \<and> cs \<noteq> [] \<and> list_all is_trigger_char cs then Some (c # cs)
      else match_trigger cs)"

type_synonym host_match = "string option \<times> string option \<times> string option"

definition HOST_REG_EXP :: "string \<Rightarrow> host_match option" where
  "HOST_REG_EXP key =
     (case match_delimited CHR ''['' CHR '']'' key of
        Some b \<Rightarrow> Some (Some b, None, None)
      | None \<Rightarrow>
          (case match_delimited CHR ''('' CHR '')'' key of
             Some e \<Rightarrow> Some (None, Some e, None)
           | None \<Rightarrow>
               (case match_trigger key of
                  Some t \<Rightarrow> Some (None, None, Some t)
                | None \<Rightarrow> None)))"

text \<open>The groups of \<^verbatim>\<open>HostBindingGroup\<close>.\<close>

definition Binding :: "host_match \<Rightarrow> string option" where
  "Binding m = fst m"

definition Event :: "host_match \<Rightarrow> string option" where
  "Event m = fst (snd m)"

definition Animation :: "host_match \<Rightarrow> string option" where
  "Animation m = snd (snd m)"

text \<open>The \<^verbatim>\<open>host\<close> part of the metadata, and the result of \<^verbatim>\<open>parseHostBindings\<close>, which
  has the animation triggers in addition.\<close>

record R3HostMetadata =
  attributes :: "string obj"
  listeners :: "string obj"
  properties :: "string obj"

record host_bindings = R3HostMetadata +
  animations :: "string obj"

text \<open>The body of the \<^verbatim>\<open>forEach\<close> of \<^verbatim>\<open>parseHostBindings\<close>, for one key and its
  value.\<close>

definition parseHostBindings_step :: "string \<times> string \<Rightarrow> host_bindings \<Rightarrow> host_bindings" where
  "parseHostBindings_step kv acc =
     (let key = fst kv; val = snd kv
      in case HOST_REG_EXP key of
           None \<Rightarrow> acc\<lparr>attributes := obj_set (attributes acc) key val\<rparr>
         | Some matches \<Rightarrow>
             (case Binding matches of
                Some b \<Rightarrow> acc\<lparr>properties := obj_set (properties acc) b val\<rparr>
              | None \<Rightarrow>
                  (case Event matches of
                     Some e \<Rightarrow> acc\<lparr>listeners := obj_set (listeners acc) e val\<rparr>
                   | None \<Rightarrow>
                       (case Animation matches of
                          Some a \<Rightarrow> acc\<lparr>animations := obj_set (animations acc) a val\<rparr>
                        | None \<Rightarrow> acc))))"

definition parseHostBindings :: "string obj \<Rightarrow> host_bindings" where
  "parseHostBindings host =
     fold parseHostBindings_step host
       \<lparr>attributes = [], listeners = [], properties = [], animations = []\<rparr>"

section \<open>The output expressions\<close>

text \<open>
  The compiler builds expressions and statements of the output AST (\<^verbatim>\<open>output_ast\<close>,
  imported as \<^verbatim>\<open>o\<close>).  The constructors below are the ones this file builds; the
  functions after them are the builder methods it calls.  \<^verbatim>\<open>core.ts\<close> and
  \<^verbatim>\<open>r3_identifiers.ts\<close> are not part of the sources at hand: an enumeration value is
  kept as the value of a datatype, and a literal of it carries that value.
\<close>

datatype ViewEncapsulation = Emulated | Native | None_ViewEncapsulation | ShadowDom

datatype ChangeDetectionStrategy = OnPush | Default

datatype RenderFlags = Create | Update

datatype R3 =
    R3_allocHostVars | R3_bind | R3_directiveInject | R3_elementAttribute
  | R3_elementProperty | R3_listener | R3_load | R3_loadQueryList | R3_queryRefresh
  | R3_query | R3_registerContentQuery | R3_namespaceHTML
  | R3_ProvidersFeature | R3_InheritDefinitionFeature | R3_NgOnChangesFeature
  | R3_defineDirective | R3_defineComponent | R3_defineBase
  | R3_DirectiveDefWithMeta | R3_ComponentDefWithMeta | R3_BaseDef
  | R3_elementStyling | R3_elementStyleProp | R3_elementClassProp

datatype literal =
    LNull | LUndefined | LBool bool | LNum int | LStr string
  | LViewEncapsulation ViewEncapsulation
  | LChangeDetection ChangeDetectionStrategy
  | LRenderFlags RenderFlags

datatype BuiltinType = Dynamic | Number | Inferred | None_BuiltinType

datatype BinaryOperator = And | Plus | BitwiseAnd

datatype StmtModifier = Final | Static

datatype expr =
    LiteralExpr literal
  | ReadVarExpr string
  | WrappedNodeExpr string
  | ExternalExpr R3 "otype list option"
  | InvokeFunctionExpr expr "expr list"
  | LiteralArrayExpr "expr list"
  | LiteralMapExpr "(string \<times> expr \<times> bool) list"
  | ReadPropExpr expr string
  | WriteVarExpr string expr
  | WritePropExpr expr string expr
  | BinaryOperatorExpr BinaryOperator expr expr
  | FunctionExpr "(string \<times> otype option) list" "stmt list" "otype option" "string option"
and stmt =
    ExpressionStatement expr
  | DeclareVarStmt string "expr option" "otype option" "StmtModifier list"
  | ReturnStatement expr
  | IfStmt expr "stmt list"
and otype =
    BuiltinTypeT BuiltinType
  | ExpressionType expr

definition DYNAMIC_TYPE :: otype where "DYNAMIC_TYPE = BuiltinTypeT Dynamic"
definition NUMBER_TYPE :: otype where "NUMBER_TYPE = BuiltinTypeT Number"
definition INFERRED_TYPE :: otype where "INFERRED_TYPE = BuiltinTypeT Inferred"
definition NONE_TYPE :: otype where "NONE_TYPE = BuiltinTypeT None_BuiltinType"

definition literal :: "literal \<Rightarrow> expr" where
  "literal v = LiteralExpr v"

definition variable :: "string \<Rightarrow> expr" where
  "variable n = ReadVarExpr n"

definition importExpr :: "R3 \<Rightarrow> expr" where
  "importExpr r = ExternalExpr r None"

definition literalArr :: "expr list \<Rightarrow> expr" where
  "literalArr es = LiteralArrayExpr es"

definition literalMap :: "(string \<times> expr \<times> bool) list \<Rightarrow> expr" where
  "literalMap es = LiteralMapExpr es"

definition callFn :: "expr \<Rightarrow> expr list \<Rightarrow> expr" where
  "callFn f args = InvokeFunctionExpr f args"

definition prop_expr :: "expr \<Rightarrow> string \<Rightarrow> expr" where
  "prop_expr e n = ReadPropExpr e n"

definition toStmt :: "expr \<Rightarrow> stmt" where
  "toStmt e = ExpressionStatement e"

text \<open>\<^verbatim>\<open>o.fn(params, body, type, sourceSpan, name)\<close>; the type and the name are absent
  in a call that does not give them.\<close>

definition fn ::
  "(string \<times> otype option) list \<Rightarrow> stmt list \<Rightarrow> otype option \<Rightarrow> string option \<Rightarrow> expr" where
  "fn params body ty nm = FunctionExpr params body ty nm"

text \<open>\<^verbatim>\<open>set\<close> is a method of a variable read and of a property read, the two receivers
  this file assigns to.\<close>

datatype lvalue = VarLhs string | PropLhs expr string

fun set_lhs :: "lvalue \<Rightarrow> expr \<Rightarrow> expr" where
  "set_lhs (VarLhs n) v = WriteVarExpr n v"
| "set_lhs (PropLhs e n) v = WritePropExpr e n v"

text \<open>The names of \<^verbatim>\<open>./util\<close>, which is not part of the sources at hand.\<close>

definition CONTEXT_NAME :: string where "CONTEXT_NAME = ''ctx''"
definition RENDER_FLAGS :: string where "RENDER_FLAGS = ''rf''"
definition TEMPORARY_NAME :: string where "TEMPORARY_NAME = ''_t''"

text \<open>Modelled from the spec: \<^verbatim>\<open>renderFlagCheckIfStmt\<close> of \<^verbatim>\<open>./template\<close> is not
  part of the sources at hand; a run-flag check gates the statements of a block.\<close>

definition renderFlagCheckIfStmt :: "RenderFlags \<Rightarrow> stmt list \<Rightarrow> stmt" where
  "renderFlagCheckIfStmt flags statements =
     IfStmt (BinaryOperatorExpr BitwiseAnd (variable RENDER_FLAGS) (literal (LRenderFlags flags)))
       statements"

text \<open>Modelled from the spec: \<^verbatim>\<open>temporaryAllocator\<close> of \<^verbatim>\<open>./util\<close> is not part of
  the sources at hand.  The allocator hands out one temporary variable and declares it
  (\<^verbatim>\<open>var $tmp$: any\<close>) in the statement list it was created for, once, before the
  first use.  The state is the statement list and whether the variable is declared.\<close>

definition temporary :: "stmt list \<times> bool \<Rightarrow> (stmt list \<times> bool) \<times> string" where
  "temporary st =
     (if snd st then (st, TEMPORARY_NAME)
      else ((fst st @ [DeclareVarStmt TEMPORARY_NAME None (Some DYNAMIC_TYPE) []], True),
            TEMPORARY_NAME))"

text \<open>Modelled from the spec: \<^verbatim>\<open>DefinitionMap\<close> of \<^verbatim>\<open>./util\<close> is not part of the
  sources at hand.  It is an ordered mapping from field names to expressions, serialized
  in insertion order, and a field whose value is absent is omitted.\<close>

type_synonym DefinitionMap = "(string \<times> expr) list"

definition dm_set :: "string \<Rightarrow> expr option \<Rightarrow> DefinitionMap \<Rightarrow> DefinitionMap" where
  "dm_set key v dm = (case v of None \<Rightarrow> dm | Some e \<Rightarrow> dm @ [(key, e)])"

definition toLiteralMap :: "DefinitionMap \<Rightarrow> expr" where
  "toLiteralMap dm = literalMap (map (\<lambda>(k, e). (k, e, False)) dm)"

definition dm_get :: "DefinitionMap \<Rightarrow> string \<Rightarrow> expr option" where
  "dm_get dm key = map_of dm key"

text \<open>\<^verbatim>\<open>error\<close> of \<^verbatim>\<open>../../util\<close> raises; a failed compilation is the value
  \<open>Inl\<close> of the message.\<close>

datatype error = Error string

section \<open>Metadata\<close>

record R3QueryMetadata =
  propertyName :: string
  first :: bool
  predicate :: "expr + string list"
  descendants :: bool
  read :: "expr option"

record lifecycle_flags =
  usesOnChanges :: bool

text \<open>\<^verbatim>\<open>R3DirectiveMetadata\<close>.  An input is a name or the pair of the public and the
  declared name.  The dependencies and the source span are data of collaborators.\<close>

record ('dep, 'span) R3DirectiveMetadata =
  name :: string
  type :: expr
  typeArgumentCount :: nat
  typeSourceSpan :: 'span
  deps :: "'dep list option"
  selector :: "string option"
  queries :: "R3QueryMetadata list"
  host :: R3HostMetadata
  lifecycle :: lifecycle_flags
  inputs :: "(string + string \<times> string) obj"
  outputs :: "string obj"
  usesInheritance :: bool
  exportAs :: "string option"
  providers :: "expr option"

text \<open>\<^verbatim>\<open>R3ComponentMetadata\<close>; \<open>encapsulation\<close> and \<open>changeDetection\<close> may be
  \<^verbatim>\<open>null\<close>.\<close>

record ('dep, 'span, 'node) R3ComponentMetadata = "('dep, 'span) R3DirectiveMetadata" +
  template :: "'node list"
  viewQueries :: "R3QueryMetadata list"
  directives :: "(string \<times> expr) list"
  pipes :: "(string \<times> expr) list"
  wrapDirectivesAndPipesInClosure :: bool
  styles :: "string list"
  encapsulation :: "ViewEncapsulation option"
  interpolation :: "string \<times> string"
  animations :: "expr option"
  viewProviders :: "expr option"
  relativeContextFilePath :: string
  i18nUseExternalIds :: bool
  changeDetection :: "ChangeDetectionStrategy option"

text \<open>\<^verbatim>\<open>R3DirectiveDef\<close> and \<^verbatim>\<open>R3ComponentDef\<close>.\<close>

record R3Def =
  expression :: expr
  type_R3Def :: otype
  statements :: "stmt list"


section \<open>Collaborators\<close>

text \<open>
  The binding parser, the expression converters, the constant pool, the factory compiler,
  the selector parser, the template compiler and the style shim are other modules.  They
  are parameters of the model: a record of functions over the types of their data (the
  parsed binding expressions \<open>'ast\<close>, the dependencies \<open>'dep\<close>, the source spans
  \<open>'span\<close>, the template nodes \<open>'node\<close> and the constant pool \<open>'p\<close>).  A collaborator
  that writes into the constant pool takes the pool and returns the new one.
\<close>

datatype ('ast, 'span) ParsedProperty =
  ParsedProperty (binding_name: string) (binding_expression: 'ast) (binding_sourceSpan: 'span)

datatype 'ast ParsedEvent =
  ParsedEvent (event_name: string) (event_handler: 'ast)

text \<open>A converter is given the callback \<^verbatim>\<open>() => error('Unexpected interpolation')\<close>;
  \<open>Interpolation\<close> is the outcome in which it calls it.\<close>

datatype 'a converted = Interpolation | Converted 'a

text \<open>The value converter is given three callbacks: two that raise
  (\<^verbatim>\<open>Unexpected node\<close>, \<^verbatim>\<open>Unexpected pipe\<close>) and \<^verbatim>\<open>hostVarsCountFn\<close>, which
  reserves a number of slots and returns the count before.  A visit is a function of the
  count at its start, and returns the converted expression with the slot numbers it has
  asked for, in the order of the calls.\<close>

datatype 'a visited = NewNode | Pipe | Visited 'a

record template_result =
  templateFunctionExpression :: expr
  constCount :: nat
  varCount :: nat
  directivesUsed :: "expr list"
  pipesUsed :: "expr list"

record ('ast, 'dep, 'span, 'node, 'p) externals =
  compileFactoryFunction :: "string \<Rightarrow> expr \<Rightarrow> 'dep list option \<Rightarrow> R3 \<Rightarrow> expr \<times> stmt list"
  parseSelectorToR3Selector :: "string option \<Rightarrow> expr"
  getQueryPredicate :: "R3QueryMetadata \<Rightarrow> 'p \<Rightarrow> expr \<times> 'p"
  createDirectiveHostEventAsts :: "R3HostMetadata \<Rightarrow> 'span \<Rightarrow> 'ast ParsedEvent list option"
  createBoundHostProperties ::
    "R3HostMetadata \<Rightarrow> 'span \<Rightarrow> ('ast, 'span) ParsedProperty list option"
  convertActionBinding :: "expr \<Rightarrow> 'ast \<Rightarrow> stmt list converted"
  convertPropertyBinding :: "expr \<Rightarrow> 'ast \<Rightarrow> (stmt list \<times> expr) converted"
  visit :: "'ast \<Rightarrow> nat \<Rightarrow> 'p \<Rightarrow> ('ast \<times> nat list \<times> 'p) visited"
  sanitizeIdentifier :: "string \<Rightarrow> string"
  getConstLiteral :: "expr \<Rightarrow> bool \<Rightarrow> 'p \<Rightarrow> expr \<times> 'p"
  CssSelector_parse :: "string \<Rightarrow> string option list list"
  buildTemplateFunction ::
    "string \<Rightarrow> string option \<Rightarrow> R3QueryMetadata list \<Rightarrow> (string \<times> expr) list option
       \<Rightarrow> (string \<times> expr) list \<Rightarrow> string \<Rightarrow> bool \<Rightarrow> 'node list \<Rightarrow> 'p \<Rightarrow> template_result \<times> 'p"
  shimCssText :: "string \<Rightarrow> string"
  typeWithParameters :: "expr \<Rightarrow> nat \<Rightarrow> otype"

text \<open>Sequencing: a list of fallible steps stops at the first failure; a list of steps
  on the pool hands the pool on.\<close>

fun mapM_err :: "('a \<Rightarrow> error + 'b) \<Rightarrow> 'a list \<Rightarrow> error + 'b list" where
  "mapM_err f [] = Inr []"
| "mapM_err f (x # xs) =
     (case f x of
        Inl e \<Rightarrow> Inl e
      | Inr y \<Rightarrow> (case mapM_err f xs of Inl e \<Rightarrow> Inl e | Inr ys \<Rightarrow> Inr (y # ys)))"

fun mapM_pool :: "('a \<Rightarrow> 'p \<Rightarrow> 'b \<times> 'p) \<Rightarrow> 'a list \<Rightarrow> 'p \<Rightarrow> 'b list \<times> 'p" where
  "mapM_pool f [] p = ([], p)"
| "mapM_pool f (x # xs) p =
     (let (y, p1) = f x p; (ys, p2) = mapM_pool f xs p1 in (y # ys, p2))"

text \<open>\<^verbatim>\<open>binding.expression.visit(valueConverter)\<close>, with the closure \<^verbatim>\<open>hostVarsCountFn\<close>
  over \<^verbatim>\<open>totalHostVarsCount\<close>: every call adds its number of slots to the total.\<close>

definition convertValue ::
  "('ast, 'dep, 'span, 'node, 'p) externals \<Rightarrow> 'ast \<Rightarrow> nat \<Rightarrow> 'p \<Rightarrow> error + ('ast \<times> nat \<times> 'p)" where
  "convertValue ext val totalHostVarsCount pool =
     (case visit ext val totalHostVarsCount pool of
        NewNode \<Rightarrow> Inl (Error ''Unexpected node'')
      | Pipe \<Rightarrow> Inl (Error ''Unexpected pipe'')
      | Visited (val', numSlots, pool') \<Rightarrow>
          Inr (val', totalHostVarsCount + sum_list numSlots, pool'))"

text \<open>\<^verbatim>\<open>bindingFn\<close>, the closure of \<^verbatim>\<open>createHostBindingsFunction\<close>.\<close>

definition bindingFn ::
  "('ast, 'dep, 'span, 'node, 'p) externals \<Rightarrow> expr \<Rightarrow> 'ast \<Rightarrow> error + (stmt list \<times> expr)" where
  "bindingFn ext implicit val =
     (case convertPropertyBinding ext implicit val of
        Interpolation \<Rightarrow> Inl (Error ''Unexpected interpolation'')
      | Converted r \<Rightarrow> Inr r)"


section \<open>The styling builder\<close>

text \<open>
  Modelled from the spec: \<^verbatim>\<open>StylingBuilder\<close> and \<^verbatim>\<open>StylingInstruction\<close> of
  \<^verbatim>\<open>./styling\<close> are not part of the sources at hand.  The builder accumulates the
  static style and class strings and the dynamic style and class bindings, in the order
  of their registration.  It reports whether any styling work exists; it emits one create
  instruction, or none, that registers the static class and style strings; it emits one
  update instruction per dynamic binding, in declaration order, each with its own
  expression, passed through the value converter, and for a style binding its unit when
  there is one.
\<close>

datatype ('ast, 'span) styling_input =
    StyleInput string 'ast string 'span
  | ClassInput string 'ast 'span

record ('ast, 'span) StylingBuilder =
  elementIndexExpr :: expr
  directiveExpr :: expr
  styleAttr :: "string option"
  classAttr :: "string option"
  stylingInputs :: "('ast, 'span) styling_input list"

datatype 'ast styling_param = PExpr expr | PBound 'ast

record ('ast, 'span) StylingInstruction =
  reference :: R3
  sourceSpan :: "'span option"
  params :: "'ast styling_param list"

definition new_StylingBuilder :: "expr \<Rightarrow> expr \<Rightarrow> ('ast, 'span) StylingBuilder" where
  "new_StylingBuilder elIndex ctx =
     \<lparr>elementIndexExpr = elIndex, directiveExpr = ctx, styleAttr = None, classAttr = None,
      stylingInputs = []\<rparr>"

definition registerStyleAttr ::
  "string \<Rightarrow> ('ast, 'span) StylingBuilder \<Rightarrow> ('ast, 'span) StylingBuilder" where
  "registerStyleAttr v sb = sb\<lparr>styleAttr := Some v\<rparr>"

definition registerClassAttr ::
  "string \<Rightarrow> ('ast, 'span) StylingBuilder \<Rightarrow> ('ast, 'span) StylingBuilder" where
  "registerClassAttr v sb = sb\<lparr>classAttr := Some v\<rparr>"

definition registerStyleInput ::
  "string \<Rightarrow> 'ast \<Rightarrow> string \<Rightarrow> 'span \<Rightarrow> ('ast, 'span) StylingBuilder
     \<Rightarrow> ('ast, 'span) StylingBuilder" where
  "registerStyleInput propName val unit span sb =
     sb\<lparr>stylingInputs := stylingInputs sb @ [StyleInput propName val unit span]\<rparr>"

definition registerClassInput ::
  "string \<Rightarrow> 'ast \<Rightarrow> 'span \<Rightarrow> ('ast, 'span) StylingBuilder \<Rightarrow> ('ast, 'span) StylingBuilder" where
  "registerClassInput className val span sb =
     sb\<lparr>stylingInputs := stylingInputs sb @ [ClassInput className val span]\<rparr>"

definition hasBindingsOrInitialValues :: "('ast, 'span) StylingBuilder \<Rightarrow> bool" where
  "hasBindingsOrInitialValues sb =
     (styleAttr sb \<noteq> None \<or> classAttr sb \<noteq> None \<or> stylingInputs sb \<noteq> [])"

definition string_or_null :: "string option \<Rightarrow> expr" where
  "string_or_null v = (case v of None \<Rightarrow> literal LNull | Some s \<Rightarrow> literal (LStr s))"

definition buildCreateLevelInstruction ::
  "('ast, 'span) StylingBuilder \<Rightarrow> ('ast, 'span) StylingInstruction option" where
  "buildCreateLevelInstruction sb =
     (if hasBindingsOrInitialValues sb
      then Some \<lparr>reference = R3_elementStyling, sourceSpan = None,
                 params = [PExpr (string_or_null (classAttr sb)),
                           PExpr (string_or_null (styleAttr sb))]\<rparr>
      else None)"

fun buildUpdateLevelInstruction ::
  "('ast, 'dep, 'span, 'node, 'p) externals \<Rightarrow> expr \<Rightarrow> ('ast, 'span) styling_input \<Rightarrow> nat \<Rightarrow> 'p
     \<Rightarrow> error + (('ast, 'span) StylingInstruction \<times> nat \<times> 'p)" where
  "buildUpdateLevelInstruction ext elIndex (StyleInput propName val unit span) totalVars pool =
     (case convertValue ext val totalVars pool of
        Inl e \<Rightarrow> Inl e
      | Inr (val', total', pool') \<Rightarrow>
          Inr (\<lparr>reference = R3_elementStyleProp, sourceSpan = Some span,
                params = [PExpr elIndex, PExpr (literal (LStr propName)), PBound val']
                         @ (if unit \<noteq> '''' then [PExpr (literal (LStr unit))] else [])\<rparr>,
               total', pool'))"
| "buildUpdateLevelInstruction ext elIndex (ClassInput className val span) totalVars pool =
     (case convertValue ext val totalVars pool of
        Inl e \<Rightarrow> Inl e
      | Inr (val', total', pool') \<Rightarrow>
          Inr (\<lparr>reference = R3_elementClassProp, sourceSpan = Some span,
                params = [PExpr elIndex, PExpr (literal (LStr className)), PBound val']\<rparr>,
               total', pool'))"

fun buildUpdateLevelInstructions_loop ::
  "('ast, 'dep, 'span, 'node, 'p) externals \<Rightarrow> expr \<Rightarrow> ('ast, 'span) styling_input list \<Rightarrow> nat \<Rightarrow> 'p
     \<Rightarrow> error + (('ast, 'span) StylingInstruction list \<times> nat \<times> 'p)" where
  "buildUpdateLevelInstructions_loop ext elIndex [] totalVars pool = Inr ([], totalVars, pool)"
| "buildUpdateLevelInstructions_loop ext elIndex (i # is) totalVars pool =
     (case buildUpdateLevelInstruction ext elIndex i totalVars pool of
        Inl e \<Rightarrow> Inl e
      | Inr (instruction, total1, pool1) \<Rightarrow>
          (case buildUpdateLevelInstructions_loop ext elIndex is total1 pool1 of
             Inl e \<Rightarrow> Inl e
           | Inr (instructions, total2, pool2) \<Rightarrow> Inr (instruction # instructions, total2, pool2)))"

definition buildUpdateLevelInstructions ::
  "('ast, 'dep, 'span, 'node, 'p) externals \<Rightarrow> ('ast, 'span) StylingBuilder \<Rightarrow> nat \<Rightarrow> 'p
     \<Rightarrow> error + (('ast, 'span) StylingInstruction list \<times> nat \<times> 'p)" where
  "buildUpdateLevelInstructions ext sb totalVars pool =
     buildUpdateLevelInstructions_loop ext (elementIndexExpr sb) (stylingInputs sb) totalVars pool"

text \<open>\<^verbatim>\<open>createStylingStmt\<close>: the parameters of the instruction, each bound expression
  converted by \<^verbatim>\<open>bindingFn\<close> to its current value, in a call of the instruction.\<close>

definition buildParam ::
  "('ast, 'dep, 'span, 'node, 'p) externals \<Rightarrow> expr \<Rightarrow> 'ast styling_param \<Rightarrow> error + expr" where
  "buildParam ext bindingContext p =
     (case p of
        PExpr e \<Rightarrow> Inr e
      | PBound val \<Rightarrow>
          (case bindingFn ext bindingContext val of
             Inl e \<Rightarrow> Inl e
           | Inr (stmts, currValExpr) \<Rightarrow> Inr currValExpr))"

definition createStylingStmt ::
  "('ast, 'dep, 'span, 'node, 'p) externals \<Rightarrow> ('ast, 'span) StylingInstruction \<Rightarrow> expr
     \<Rightarrow> error + stmt" where
  "createStylingStmt ext instruction bindingContext =
     (case mapM_err (buildParam ext bindingContext) (params instruction) of
        Inl e \<Rightarrow> Inl e
      | Inr ps \<Rightarrow> Inr (toStmt (callFn (importExpr (reference instruction)) ps)))"

section \<open>Queries\<close>

text \<open>In this model an expression node carries no source span and no type of its own;
  a function expression keeps its parameter and result types.\<close>

definition createQueryDefinition ::
  "('ast, 'dep, 'span, 'node, 'p) externals \<Rightarrow> R3QueryMetadata \<Rightarrow> int option \<Rightarrow> 'p \<Rightarrow> expr \<times> 'p" where
  "createQueryDefinition ext query idx pool =
     (let (pred, pool') = getQueryPredicate ext query pool;
          parameters =
            [literal (case idx of None \<Rightarrow> LNull | Some i \<Rightarrow> LNum i), pred,
             literal (LBool (descendants query))]
            @ (case read query of None \<Rightarrow> [] | Some r \<Rightarrow> [r])
      in (callFn (importExpr R3_query) parameters, pool'))"

text \<open>\<^verbatim>\<open>typeName ? `${typeName}_Suffix` : null\<close>.\<close>

definition named :: "string \<Rightarrow> string \<Rightarrow> string option" where
  "named typeName suffix = (if typeName \<noteq> '''' then Some (typeName @ suffix) else None)"

definition registerContentQuery_stmt ::
  "('ast, 'dep, 'span, 'node, 'p) externals \<Rightarrow> R3QueryMetadata \<Rightarrow> 'p \<Rightarrow> stmt \<times> 'p" where
  "registerContentQuery_stmt ext query pool =
     (let (queryDefinition, pool') = createQueryDefinition ext query None pool
      in (toStmt (callFn (importExpr R3_registerContentQuery)
                    [queryDefinition, variable ''dirIndex'']), pool'))"

definition createContentQueriesFunction ::
  "('ast, 'dep, 'span, 'node, 'p) externals \<Rightarrow> ('dep, 'span, 'more) R3DirectiveMetadata_scheme \<Rightarrow> 'p
     \<Rightarrow> expr option \<times> 'p" where
  "createContentQueriesFunction ext meta pool =
     (if queries meta \<noteq> [] then
        (let (stmts, pool') = mapM_pool (registerContentQuery_stmt ext) (queries meta) pool
         in (Some (fn [(''dirIndex'', Some NUMBER_TYPE)] stmts (Some INFERRED_TYPE)
                     (named (name meta) ''_ContentQueries'')), pool'))
      else (None, pool))"

text \<open>The body of the \<^verbatim>\<open>forEach\<close> of \<^verbatim>\<open>createContentQueriesRefreshFunction\<close>, for
  the query and its index; the state is the statement list with the allocator of the
  temporary.\<close>

definition contentQueryRefresh_step ::
  "R3QueryMetadata \<times> nat \<Rightarrow> stmt list \<times> bool \<Rightarrow> stmt list \<times> bool" where
  "contentQueryRefresh_step qi st =
     (let query = fst qi; idx = snd qi;
          loadQLArg = variable ''queryStartIndex'';
          getQueryList = callFn (importExpr R3_loadQueryList)
            [if idx > 0 then BinaryOperatorExpr Plus loadQLArg (literal (LNum (int idx)))
             else loadQLArg];
          (st1, t1) = temporary st;
          assignToTemporary = set_lhs (VarLhs t1) getQueryList;
          callQueryRefresh = callFn (importExpr R3_queryRefresh) [assignToTemporary];
          (st2, t2) = temporary st1;
          updateDirective = set_lhs (PropLhs (variable ''instance'') (propertyName query))
            (if first query then prop_expr (variable t2) ''first'' else variable t2);
          refreshQueryAndUpdateDirective = BinaryOperatorExpr And callQueryRefresh updateDirective
      in (fst st2 @ [toStmt refreshQueryAndUpdateDirective], snd st2))"

definition createContentQueriesRefreshFunction ::
  "('dep, 'span, 'more) R3DirectiveMetadata_scheme \<Rightarrow> expr option" where
  "createContentQueriesRefreshFunction meta =
     (if length (queries meta) > 0 then
        (let typeName = name meta;
             parameters = [(''dirIndex'', Some NUMBER_TYPE), (''queryStartIndex'', Some NUMBER_TYPE)];
             stmts0 = [DeclareVarStmt ''instance''
                         (Some (callFn (importExpr R3_load) [variable ''dirIndex'']))
                         (Some INFERRED_TYPE) [Final]];
             st = fold contentQueryRefresh_step
                    (zip (queries meta) [0 ..< length (queries meta)]) (stmts0, False)
         in Some (fn parameters (fst st) (Some INFERRED_TYPE)
                    (named typeName ''_ContentQueriesRefresh'')))
      else None)"

text \<open>The body of the loop of \<^verbatim>\<open>createViewQueriesFunction\<close>; the state is the create
  statements, the update statements with the allocator of the temporary, and the pool.\<close>

definition viewQuery_step ::
  "('ast, 'dep, 'span, 'node, 'p) externals \<Rightarrow> R3QueryMetadata \<times> nat
     \<Rightarrow> stmt list \<times> (stmt list \<times> bool) \<times> 'p \<Rightarrow> stmt list \<times> (stmt list \<times> bool) \<times> 'p" where
  "viewQuery_step ext qi st =
     (let query = fst qi; i = snd qi;
          (createStatements, upd, pool) = st;
          (queryDefinition, pool') = createQueryDefinition ext query (Some (int i)) pool;
          (upd1, t) = temporary upd;
          getQueryList = callFn (importExpr R3_load) [literal (LNum (int i))];
          refresh = callFn (importExpr R3_queryRefresh) [set_lhs (VarLhs t) getQueryList];
          updateDirective = set_lhs (PropLhs (variable CONTEXT_NAME) (propertyName query))
            (if first query then prop_expr (variable t) ''first'' else variable t)
      in (createStatements @ [toStmt queryDefinition],
          (fst upd1 @ [toStmt (BinaryOperatorExpr And refresh updateDirective)], snd upd1),
          pool'))"

definition createViewQueriesFunction ::
  "('ast, 'dep, 'span, 'node, 'p) externals \<Rightarrow> ('dep, 'span, 'node, 'more) R3ComponentMetadata_scheme
     \<Rightarrow> 'p \<Rightarrow> expr \<times> 'p" where
  "createViewQueriesFunction ext meta pool =
     (let (createStatements, upd, pool') =
            fold (viewQuery_step ext) (zip (viewQueries meta) [0 ..< length (viewQueries meta)])
              ([], ([], False), pool)
      in (fn [(RENDER_FLAGS, Some NUMBER_TYPE), (CONTEXT_NAME, None)]
            [renderFlagCheckIfStmt Create createStatements,
             renderFlagCheckIfStmt Update (fst upd)]
            (Some INFERRED_TYPE) (named (name meta) ''_Query''),
          pool'))"


section \<open>Host bindings\<close>

text \<open>\<^verbatim>\<open>ATTR_REGEX = /attr\.([^\]]+)/\<close>, not anchored: the first place where
  \<^verbatim>\<open>attr.\<close> is followed by a character other than \<^verbatim>\<open>]\<close>; the group is the run of
  such characters.\<close>

fun ATTR_REGEX :: "string \<Rightarrow> string option" where
  "ATTR_REGEX [] = None"
| "ATTR_REGEX (c # cs) =
     (if take 5 (c # cs) = ''attr.'' \<and> takeWhile (\<lambda>x. x \<noteq> CHR '']'') (drop 5 (c # cs)) \<noteq> []
      then Some (takeWhile (\<lambda>x. x \<noteq> CHR '']'') (drop 5 (c # cs)))
      else ATTR_REGEX cs)"

text \<open>\<^verbatim>\<open>getBindingNameAndInstruction\<close> returns the triple of the binding name, the
  instruction and the extra parameters.\<close>

definition getBindingNameAndInstruction :: "string \<Rightarrow> string \<times> R3 \<times> expr list" where
  "getBindingNameAndInstruction bindingName =
     (case ATTR_REGEX bindingName of
        Some attrName \<Rightarrow> (attrName, R3_elementAttribute, [])
      | None \<Rightarrow> (bindingName, R3_elementProperty, [literal LNull, literal (LBool True)]))"

definition createHostListener ::
  "('ast, 'dep, 'span, 'node, 'p) externals \<Rightarrow> expr \<Rightarrow> ('dep, 'span, 'more) R3DirectiveMetadata_scheme
     \<Rightarrow> 'ast ParsedEvent \<Rightarrow> error + stmt" where
  "createHostListener ext bindingContext meta binding =
     (case convertActionBinding ext bindingContext (event_handler binding) of
        Interpolation \<Rightarrow> Inl (Error ''Unexpected interpolation'')
      | Converted render3Stmts \<Rightarrow>
          (let bindingName = (if event_name binding \<noteq> ''''
                              then sanitizeIdentifier ext (event_name binding) else '''');
               typeName = name meta;
               functionName = (if typeName \<noteq> '''' \<and> bindingName \<noteq> ''''
                               then Some (typeName @ ''_'' @ bindingName @ ''_HostBindingHandler'')
                               else None);
               handler = fn [(''$event'', Some DYNAMIC_TYPE)] render3Stmts (Some INFERRED_TYPE)
                           functionName
           in Inr (toStmt (callFn (importExpr R3_listener)
                             [literal (LStr (event_name binding)), handler]))))"

definition createHostListeners ::
  "('ast, 'dep, 'span, 'node, 'p) externals \<Rightarrow> expr \<Rightarrow> 'ast ParsedEvent list
     \<Rightarrow> ('dep, 'span, 'more) R3DirectiveMetadata_scheme \<Rightarrow> error + stmt list" where
  "createHostListeners ext bindingContext eventBindings meta =
     mapM_err (createHostListener ext bindingContext meta) eventBindings"

text \<open>\<^verbatim>\<open>metadataAsSummary\<close>: the summary holds the three host objects of the
  metadata.\<close>

definition metadataAsSummary :: "('dep, 'span, 'more) R3DirectiveMetadata_scheme \<Rightarrow> R3HostMetadata" where
  "metadataAsSummary meta =
     \<lparr>attributes = attributes (host meta), listeners = listeners (host meta),
      properties = properties (host meta)\<rparr>"

text \<open>The body of the loop over the bound host properties.  The state is
  \<^verbatim>\<open>totalHostVarsCount\<close>, the update statements, the styling builder and the pool.
  The variable \<^verbatim>\<open>elVarExp\<close> is given by its name.\<close>

definition hostProperty_step ::
  "('ast, 'dep, 'span, 'node, 'p) externals \<Rightarrow> string \<Rightarrow> expr \<Rightarrow> ('ast, 'span) ParsedProperty
     \<Rightarrow> nat \<times> stmt list \<times> ('ast, 'span) StylingBuilder \<times> 'p
     \<Rightarrow> error + (nat \<times> stmt list \<times> ('ast, 'span) StylingBuilder \<times> 'p)" where
  "hostProperty_step ext elVarName bindingContext binding st =
     (let (totalHostVarsCount, updateStatements, styleBuilder, pool) = st;
          nm = binding_name binding;
          stylePrefix = getStylingPrefix nm
      in if stylePrefix = ''style'' then
           Inr (totalHostVarsCount, updateStatements,
                registerStyleInput (fst (parseNamedProperty nm)) (binding_expression binding)
                  (snd (parseNamedProperty nm)) (binding_sourceSpan binding) styleBuilder,
                pool)
         else if stylePrefix = ''class'' then
           Inr (totalHostVarsCount, updateStatements,
                registerClassInput (fst (parseNamedProperty nm)) (binding_expression binding)
                  (binding_sourceSpan binding) styleBuilder,
                pool)
         else
           (case convertValue ext (binding_expression binding) totalHostVarsCount pool of
              Inl e \<Rightarrow> Inl e
            | Inr (val, totalHostVarsCount', pool') \<Rightarrow>
                (case bindingFn ext bindingContext val of
                   Inl e \<Rightarrow> Inl e
                 | Inr (stmts, currValExpr) \<Rightarrow>
                     (let (bindingName, instruction, extraParams) = getBindingNameAndInstruction nm;
                          instructionParams =
                            [variable elVarName, literal (LStr bindingName),
                             callFn (importExpr R3_bind) [currValExpr]]
                      in Inr (totalHostVarsCount',
                              updateStatements @ stmts
                                @ [toStmt (callFn (importExpr instruction)
                                             (instructionParams @ extraParams))],
                              styleBuilder, pool')))))"

fun hostProperties_loop ::
  "('ast, 'dep, 'span, 'node, 'p) externals \<Rightarrow> string \<Rightarrow> expr \<Rightarrow> ('ast, 'span) ParsedProperty list
     \<Rightarrow> nat \<times> stmt list \<times> ('ast, 'span) StylingBuilder \<times> 'p
     \<Rightarrow> error + (nat \<times> stmt list \<times> ('ast, 'span) StylingBuilder \<times> 'p)" where
  "hostProperties_loop ext elVarName bindingContext [] st = Inr st"
| "hostProperties_loop ext elVarName bindingContext (binding # bindings) st =
     (case hostProperty_step ext elVarName bindingContext binding st of
        Inl e \<Rightarrow> Inl e
      | Inr st' \<Rightarrow> hostProperties_loop ext elVarName bindingContext bindings st')"

text \<open>The styling part of \<^verbatim>\<open>createHostBindingsFunction\<close>, entered when the builder
  has bindings or initial values: the create statement, if any, and the update
  statements.\<close>

definition hostStyling ::
  "('ast, 'dep, 'span, 'node, 'p) externals \<Rightarrow> expr \<Rightarrow> ('ast, 'span) StylingBuilder \<Rightarrow> nat \<Rightarrow> 'p
     \<Rightarrow> error + (stmt list \<times> stmt list \<times> nat \<times> 'p)" where
  "hostStyling ext bindingContext styleBuilder totalHostVarsCount pool =
     (case (case buildCreateLevelInstruction styleBuilder of
              None \<Rightarrow> Inr []
            | Some createInstruction \<Rightarrow>
                (case createStylingStmt ext createInstruction bindingContext of
                   Inl e \<Rightarrow> Inl e
                 | Inr createStmt \<Rightarrow> Inr [createStmt])) of
        Inl e \<Rightarrow> Inl e
      | Inr createStmts \<Rightarrow>
          (case buildUpdateLevelInstructions ext styleBuilder totalHostVarsCount pool of
             Inl e \<Rightarrow> Inl e
           | Inr (instructions, totalHostVarsCount', pool') \<Rightarrow>
               (case mapM_err (\<lambda>instruction. createStylingStmt ext instruction bindingContext)
                       instructions of
                  Inl e \<Rightarrow> Inl e
                | Inr updateStmts \<Rightarrow> Inr (createStmts, updateStmts, totalHostVarsCount', pool'))))"

text \<open>The end of \<^verbatim>\<open>createHostBindingsFunction\<close>, from the test of
  \<^verbatim>\<open>totalHostVarsCount\<close> on.\<close>

definition hostBindingsFn ::
  "string \<Rightarrow> string \<Rightarrow> nat \<Rightarrow> stmt list \<Rightarrow> stmt list \<Rightarrow> expr option" where
  "hostBindingsFn typeName elVarName totalHostVarsCount createStatements0 updateStatements =
     (let createStatements =
            (if totalHostVarsCount \<noteq> 0
             then toStmt (callFn (importExpr R3_allocHostVars)
                            [literal (LNum (int totalHostVarsCount))]) # createStatements0
             else createStatements0)
      in if length createStatements > 0 \<or> length updateStatements > 0 then
           Some (fn [(RENDER_FLAGS, Some NUMBER_TYPE), (CONTEXT_NAME, None),
                     (elVarName, Some NUMBER_TYPE)]
                   ((if length createStatements > 0
                     then [renderFlagCheckIfStmt Create createStatements] else [])
                    @ (if length updateStatements > 0
                       then [renderFlagCheckIfStmt Update updateStatements] else []))
                   (Some INFERRED_TYPE) (named typeName ''_HostBindings''))
         else None)"

definition createHostBindingsFunction ::
  "('ast, 'dep, 'span, 'node, 'p) externals \<Rightarrow> ('dep, 'span, 'more) R3DirectiveMetadata_scheme
     \<Rightarrow> string \<Rightarrow> expr \<Rightarrow> ('ast, 'span) StylingBuilder \<Rightarrow> 'p \<Rightarrow> nat \<Rightarrow> error + (expr option \<times> 'p)" where
  "createHostBindingsFunction ext meta elVarName bindingContext styleBuilder pool hostVarsCount =
     (let hostBindingSourceSpan = typeSourceSpan meta;
          directiveSummary = metadataAsSummary meta;
          eventBindings = createDirectiveHostEventAsts ext directiveSummary hostBindingSourceSpan
      in case (case eventBindings of
                 None \<Rightarrow> Inr []
               | Some evs \<Rightarrow> if evs \<noteq> [] then createHostListeners ext bindingContext evs meta
                             else Inr []) of
           Inl e \<Rightarrow> Inl e
         | Inr createStatements \<Rightarrow>
             (case createBoundHostProperties ext directiveSummary hostBindingSourceSpan of
                None \<Rightarrow>
                  Inr (hostBindingsFn (name meta) elVarName hostVarsCount createStatements [], pool)
              | Some bindings \<Rightarrow>
                  (case hostProperties_loop ext elVarName bindingContext bindings
                          (hostVarsCount, [], styleBuilder, pool) of
                     Inl e \<Rightarrow> Inl e
                   | Inr (total1, updateStatements, styleBuilder1, pool1) \<Rightarrow>
                       if hasBindingsOrInitialValues styleBuilder1 then
                         (case hostStyling ext bindingContext styleBuilder1 total1 pool1 of
                            Inl e \<Rightarrow> Inl e
                          | Inr (createStmts, updateStmts, total2, pool2) \<Rightarrow>
                              Inr (hostBindingsFn (name meta) elVarName total2
                                     (createStatements @ createStmts)
                                     (updateStatements @ updateStmts), pool2))
                       else
                         Inr (hostBindingsFn (name meta) elVarName total1 createStatements
                                updateStatements, pool1))))"

section \<open>The definition\<close>

text \<open>Modelled from the spec: \<^verbatim>\<open>conditionallyCreateMapObjectLiteral\<close> of \<^verbatim>\<open>./util\<close>
  is not part of the sources at hand.  The field is a literal object map, omitted if
  empty; with the second argument set, as for the inputs, the map is always emitted, and
  an entry may be the pair of two names.  An entry is written as
  \<^verbatim>\<open>compileBaseDefFromMetadata\<close> writes it.\<close>

definition input_literal :: "string + string \<times> string \<Rightarrow> expr" where
  "input_literal v =
     (case v of
        Inl s \<Rightarrow> literal (LStr s)
      | Inr (a, b) \<Rightarrow> literalArr [literal (LStr a), literal (LStr b)])"

definition mapToExpression :: "(string + string \<times> string) obj \<Rightarrow> expr" where
  "mapToExpression ob = literalMap (map (\<lambda>(key, v). (key, input_literal v, False)) ob)"

definition conditionallyCreateMapObjectLiteral ::
  "(string + string \<times> string) obj \<Rightarrow> bool \<Rightarrow> expr option" where
  "conditionallyCreateMapObjectLiteral ob always =
     (if always \<or> length (obj_keys ob) > 0 then Some (mapToExpression ob) else None)"

definition plain_names :: "string obj \<Rightarrow> (string + string \<times> string) obj" where
  "plain_names ob = map (\<lambda>(key, v). (key, Inl v)) ob"

text \<open>\<^verbatim>\<open>hostVarsCount\<close> of \<^verbatim>\<open>baseDirectiveFields\<close>.\<close>

definition is_styling_name :: "string \<Rightarrow> bool" where
  "is_styling_name nm = (getStylingPrefix nm = ''style'' \<or> getStylingPrefix nm = ''class'')"

definition initialHostVarsCount :: "('dep, 'span, 'more) R3DirectiveMetadata_scheme \<Rightarrow> nat" where
  "initialHostVarsCount meta =
     length (filter (\<lambda>nm. let prefix = getStylingPrefix nm
                           in prefix \<noteq> ''style'' \<and> prefix \<noteq> ''class'')
               (obj_keys (properties (host meta))))"

text \<open>The body of the loop of \<^verbatim>\<open>baseDirectiveFields\<close> over the names of the host
  attributes; the state is \<^verbatim>\<open>allOtherAttributes\<close> and the styling builder.\<close>

definition hostAttribute_step ::
  "string \<times> string \<Rightarrow> string obj \<times> ('ast, 'span) StylingBuilder
     \<Rightarrow> string obj \<times> ('ast, 'span) StylingBuilder" where
  "hostAttribute_step kv st =
     (let attr = fst kv; v = snd kv
      in if attr = ''style'' then (fst st, registerStyleAttr v (snd st))
         else if attr = ''class'' then (fst st, registerClassAttr v (snd st))
         else (obj_set (fst st) attr v, snd st))"

definition createHostAttributesArray :: "string obj \<Rightarrow> expr option" where
  "createHostAttributesArray attrs =
     (let vals = concat (map (\<lambda>(key, v). [literal (LStr key), literal (LStr v)]) attrs)
      in if length vals > 0 then Some (literalArr vals) else None)"

definition createDirectiveSelector ::
  "('ast, 'dep, 'span, 'node, 'p) externals \<Rightarrow> string option \<Rightarrow> expr" where
  "createDirectiveSelector ext sel = parseSelectorToR3Selector ext sel"

definition baseDirectiveFields ::
  "('ast, 'dep, 'span, 'node, 'p) externals \<Rightarrow> ('dep, 'span, 'more) R3DirectiveMetadata_scheme \<Rightarrow> 'p
     \<Rightarrow> error + ((DefinitionMap \<times> stmt list) \<times> 'p)" where
  "baseDirectiveFields ext meta pool =
     (let dm1 = dm_set ''type'' (Some (type meta)) [];
          dm2 = dm_set ''selectors'' (Some (createDirectiveSelector ext (selector meta))) dm1;
          result = compileFactoryFunction ext (name meta) (type meta) (deps meta) R3_directiveInject;
          dm3 = dm_set ''factory'' (Some (fst result)) dm2;
          (contentQueries, pool1) = createContentQueriesFunction ext meta pool;
          dm4 = dm_set ''contentQueries'' contentQueries dm3;
          dm5 = dm_set ''contentQueriesRefresh'' (createContentQueriesRefreshFunction meta) dm4;
          hostVarsCount = initialHostVarsCount meta;
          elVarName = ''elIndex'';
          contextVarExp = variable CONTEXT_NAME;
          styleBuilder0 = new_StylingBuilder (variable elVarName) contextVarExp;
          (allOtherAttributes, styleBuilder) =
            fold hostAttribute_step (attributes (host meta)) ([], styleBuilder0);
          dm6 = dm_set ''attributes'' (createHostAttributesArray allOtherAttributes) dm5
      in case createHostBindingsFunction ext meta elVarName contextVarExp styleBuilder pool1
                hostVarsCount of
           Inl e \<Rightarrow> Inl e
         | Inr (hostBindings, pool2) \<Rightarrow>
             (let dm7 = dm_set ''hostBindings'' hostBindings dm6;
                  dm8 = dm_set ''inputs'' (conditionallyCreateMapObjectLiteral (inputs meta) True) dm7;
                  dm9 = dm_set ''outputs''
                          (conditionallyCreateMapObjectLiteral (plain_names (outputs meta)) False) dm8;
                  dm10 = (case exportAs meta of
                            None \<Rightarrow> dm9
                          | Some e \<Rightarrow> dm_set ''exportAs'' (Some (literal (LStr e))) dm9)
              in Inr ((dm10, snd result), pool2)))"

text \<open>\<^verbatim>\<open>addFeatures\<close>.  The source reads \<^verbatim>\<open>viewProviders\<close> off the metadata, where
  a directive has none; here the caller passes it.\<close>

definition addFeatures ::
  "DefinitionMap \<Rightarrow> ('dep, 'span, 'more) R3DirectiveMetadata_scheme \<Rightarrow> expr option \<Rightarrow> DefinitionMap" where
  "addFeatures definitionMap meta viewProvs =
     (let features1 =
            (if providers meta \<noteq> None \<or> viewProvs \<noteq> None then
               (let args = [case providers meta of Some p \<Rightarrow> p | None \<Rightarrow> LiteralArrayExpr []]
                           @ (case viewProvs of Some vp \<Rightarrow> [vp] | None \<Rightarrow> [])
                in [callFn (importExpr R3_ProvidersFeature) args])
             else []);
          features2 = (if usesInheritance meta
                       then features1 @ [importExpr R3_InheritDefinitionFeature] else features1);
          features3 = (if usesOnChanges (lifecycle meta)
                       then features2 @ [importExpr R3_NgOnChangesFeature] else features2)
      in if length features3 \<noteq> 0 then dm_set ''features'' (Some (literalArr features3)) definitionMap
         else definitionMap)"

text \<open>The type side of a definition.\<close>

definition stringAsType :: "string \<Rightarrow> otype" where
  "stringAsType str = ExpressionType (literal (LStr str))"

definition stringMapAsType :: "(string + string \<times> string) obj \<Rightarrow> otype" where
  "stringMapAsType ob =
     ExpressionType (literalMap
       (map (\<lambda>(key, v). (key, literal (LStr (case v of Inl s \<Rightarrow> s | Inr (a, b) \<Rightarrow> a)), True)) ob))"

definition stringArrayAsType :: "string list \<Rightarrow> otype" where
  "stringArrayAsType arr =
     (if length arr > 0 then ExpressionType (literalArr (map (\<lambda>v. literal (LStr v)) arr))
      else NONE_TYPE)"

definition createTypeForDef ::
  "('ast, 'dep, 'span, 'node, 'p) externals \<Rightarrow> ('dep, 'span, 'more) R3DirectiveMetadata_scheme \<Rightarrow> R3
     \<Rightarrow> otype" where
  "createTypeForDef ext meta typeBase =
     (let selectorForType =
            filter (\<lambda>c. c \<noteq> CHR 0x0A) (case selector meta of None \<Rightarrow> '''' | Some s \<Rightarrow> s)
      in ExpressionType (ExternalExpr typeBase (Some
           [typeWithParameters ext (type meta) (typeArgumentCount meta),
            stringAsType selectorForType,
            (case exportAs meta of Some e \<Rightarrow> stringAsType e | None \<Rightarrow> NONE_TYPE),
            stringMapAsType (inputs meta),
            stringMapAsType (plain_names (outputs meta)),
            stringArrayAsType (map propertyName (queries meta))])))"

text \<open>\<^verbatim>\<open>compileDirectiveFromMetadata\<close>.  The caller's metadata object and constant pool
  are the state of a compilation: the result carries both as they are after the call.
  No statement of this function, or of a function that it calls, assigns to a field of the
  metadata; the pool is written by the collaborators that are given it.\<close>

definition compileDirectiveFromMetadata ::
  "('ast, 'dep, 'span, 'node, 'p) externals \<Rightarrow> ('dep, 'span, 'more) R3DirectiveMetadata_scheme \<Rightarrow> 'p
     \<Rightarrow> error + (R3Def \<times> ('dep, 'span, 'more) R3DirectiveMetadata_scheme \<times> 'p)" where
  "compileDirectiveFromMetadata ext meta pool =
     (case baseDirectiveFields ext meta pool of
        Inl e \<Rightarrow> Inl e
      | Inr ((definitionMap0, stmts), pool') \<Rightarrow>
          (let definitionMap = addFeatures definitionMap0 meta None;
               e = callFn (importExpr R3_defineDirective) [toLiteralMap definitionMap];
               t = createTypeForDef ext meta R3_DirectiveDefWithMeta
           in Inr (\<lparr>expression = e, type_R3Def = t, statements = stmts\<rparr>, meta, pool')))"

text \<open>\<^verbatim>\<open>compileBaseDefFromMetadata\<close>; both fields of its metadata are optional.\<close>

definition compileBaseDefFromMetadata ::
  "(string + string \<times> string) obj option \<Rightarrow> string obj option \<Rightarrow> expr \<times> otype" where
  "compileBaseDefFromMetadata ins outs =
     (let dm1 = (case ins of
                   None \<Rightarrow> []
                 | Some i \<Rightarrow>
                     dm_set ''inputs''
                       (Some (literalMap (map (\<lambda>(key, v). (key, input_literal v, False)) i))) []);
          dm2 = (case outs of
                   None \<Rightarrow> dm1
                 | Some ou \<Rightarrow>
                     dm_set ''outputs''
                       (Some (literalMap (map (\<lambda>(key, v). (key, literal (LStr v), False)) ou))) dm1)
      in (callFn (importExpr R3_defineBase) [toLiteralMap dm2],
          ExpressionType (importExpr R3_BaseDef)))"

text \<open>\<^verbatim>\<open>compileStyles\<close>, with the two attribute selectors of the style compiler.\<close>

definition compileStyles :: "('ast, 'dep, 'span, 'node, 'p) externals \<Rightarrow> string list \<Rightarrow> string list" where
  "compileStyles ext sts = map (shimCssText ext) sts"

text \<open>\<^verbatim>\<open>compileComponentFromMetadata\<close>, in three definitions that follow its body: the
  fields from the features to the pipes; the fields from the styles to the change
  detection, with the two assignments to \<^verbatim>\<open>meta.encapsulation\<close>; and the function
  itself.  \<^verbatim>\<open>CssSelector.parse\<close> is given by the attribute lists (\<^verbatim>\<open>getAttrs\<close>) of the
  selectors it returns, and the selector matcher by the directives it is built from.  The
  source assigns to \<^verbatim>\<open>meta.encapsulation\<close>, in two statements: each is an update of the
  metadata here, and the metadata after the call is part of the result.\<close>

definition componentTemplateFields ::
  "('ast, 'dep, 'span, 'node, 'p) externals \<Rightarrow> ('dep, 'span, 'node, 'more) R3ComponentMetadata_scheme
     \<Rightarrow> DefinitionMap \<Rightarrow> 'p \<Rightarrow> DefinitionMap \<times> 'p" where
  "componentTemplateFields ext meta definitionMap0 pool1 =
     (let dm1 = addFeatures definitionMap0 meta (viewProviders meta);
          selectorAttributes =
            (case selector meta of
               None \<Rightarrow> []
             | Some s \<Rightarrow>
                 if s = '''' then []
                 else (case CssSelector_parse ext s of
                         [] \<Rightarrow> []
                       | firstSelector # _ \<Rightarrow> firstSelector));
          (dm2, pool2) =
            (if length selectorAttributes \<noteq> 0 then
               (let (attrs, p) =
                      getConstLiteral ext
                        (literalArr (map (\<lambda>v. case v of Some s \<Rightarrow> literal (LStr s)
                                                       | None \<Rightarrow> literal LUndefined)
                                       selectorAttributes))
                        True pool1
                in (dm_set ''attrs'' (Some attrs) dm1, p))
             else (dm1, pool1));
          directiveMatcher =
            (if length (directives meta) > 0 then Some (directives meta) else None);
          (dm3, pool3) =
            (if length (viewQueries meta) \<noteq> 0 then
               (let (viewQuery, p) = createViewQueriesFunction ext meta pool2
                in (dm_set ''viewQuery'' (Some viewQuery) dm2, p))
             else (dm2, pool2));
          templateTypeName = name meta;
          templateName = named templateTypeName ''_Template'';
          (tmpl, pool4) =
            buildTemplateFunction ext templateTypeName templateName (viewQueries meta)
              directiveMatcher (pipes meta) (relativeContextFilePath meta)
              (i18nUseExternalIds meta) (template meta) pool3;
          dm4 = dm_set ''consts'' (Some (literal (LNum (int (constCount tmpl))))) dm3;
          dm5 = dm_set ''vars'' (Some (literal (LNum (int (varCount tmpl))))) dm4;
          dm6 = dm_set ''template'' (Some (templateFunctionExpression tmpl)) dm5;
          dm7 = (if length (directivesUsed tmpl) \<noteq> 0 then
                   dm_set ''directives''
                     (Some (if wrapDirectivesAndPipesInClosure meta
                            then fn [] [ReturnStatement (literalArr (directivesUsed tmpl))] None None
                            else literalArr (directivesUsed tmpl))) dm6
                 else dm6);
          dm8 = (if length (pipesUsed tmpl) \<noteq> 0 then
                   dm_set ''pipes''
                     (Some (if wrapDirectivesAndPipesInClosure meta
                            then fn [] [ReturnStatement (literalArr (pipesUsed tmpl))] None None
                            else literalArr (pipesUsed tmpl))) dm7
                 else dm7)
      in (dm8, pool4))"

definition componentStyleFields ::
  "('ast, 'dep, 'span, 'node, 'p) externals \<Rightarrow> ('dep, 'span, 'node, 'more) R3ComponentMetadata_scheme
     \<Rightarrow> DefinitionMap
     \<Rightarrow> DefinitionMap \<times> ('dep, 'span, 'node, 'more) R3ComponentMetadata_scheme" where
  "componentStyleFields ext meta dm8 =
     (let meta1 = (if encapsulation meta = None then meta\<lparr>encapsulation := Some Emulated\<rparr>
                   else meta);
          (dm9, meta2) =
            (if length (styles meta1) \<noteq> 0 then
               (let styleValues = (if encapsulation meta1 = Some Emulated
                                   then compileStyles ext (styles meta1)
                                   else styles meta1)
                in (dm_set ''styles''
                      (Some (literalArr (map (\<lambda>str. literal (LStr str)) styleValues))) dm8,
                    meta1))
             else if encapsulation meta1 = Some Emulated
             then (dm8, meta1\<lparr>encapsulation := Some None_ViewEncapsulation\<rparr>)
             else (dm8, meta1));
          dm10 = (if encapsulation meta2 \<noteq> Some Emulated
                  then dm_set ''encapsulation''
                         (Some (literal (case encapsulation meta2 of
                                           None \<Rightarrow> LNull
                                         | Some enc \<Rightarrow> LViewEncapsulation enc))) dm9
                  else dm9);
          dm11 = (case animations meta2 of
                    None \<Rightarrow> dm10
                  | Some a \<Rightarrow>
                      dm_set ''data'' (Some (literalMap [(''animation'', a, False)])) dm10);
          dm12 = (case changeDetection meta2 of
                    None \<Rightarrow> dm11
                  | Some cd \<Rightarrow>
                      if cd \<noteq> Default
                      then dm_set ''changeDetection'' (Some (literal (LChangeDetection cd))) dm11
                      else dm11)
      in (dm12, meta2))"

definition compileComponentFromMetadata ::
  "('ast, 'dep, 'span, 'node, 'p) externals \<Rightarrow> ('dep, 'span, 'node, 'more) R3ComponentMetadata_scheme
     \<Rightarrow> 'p \<Rightarrow> error + (R3Def \<times> ('dep, 'span, 'node, 'more) R3ComponentMetadata_scheme \<times> 'p)" where
  "compileComponentFromMetadata ext meta pool =
     (case baseDirectiveFields ext meta pool of
        Inl e \<Rightarrow> Inl e
      | Inr ((definitionMap0, stmts), pool1) \<Rightarrow>
          (let (dm8, pool4) = componentTemplateFields ext meta definitionMap0 pool1;
               (dm12, meta') = componentStyleFields ext meta dm8;
               e = callFn (importExpr R3_defineComponent) [toLiteralMap dm12];
               t = createTypeForDef ext meta R3_ComponentDefWithMeta
           in Inr (\<lparr>expression = e, type_R3Def = t, statements = stmts\<rparr>, meta', pool4)))"


section \<open>Query selectors of the older metadata\<close>

text \<open>A \<^verbatim>\<open>CompileTokenMetadata\<close> has an optional value, read as a string, and an optional
  identifier with a reference, which \<^verbatim>\<open>outputCtx.importExpr\<close> turns into an
  expression.  The output context is given by that function and by the interning function
  of its constant pool.\<close>

datatype 'ref CompileTokenMetadata =
  CompileTokenMetadata (token_value: "string option") (token_identifier: "'ref option")

definition truthy :: "string option \<Rightarrow> bool" where
  "truthy v = (case v of None \<Rightarrow> False | Some s \<Rightarrow> s \<noteq> '''')"

definition selectorsFromGlobalMetadata ::
  "('ref \<Rightarrow> expr) \<Rightarrow> (expr \<Rightarrow> bool \<Rightarrow> 'p \<Rightarrow> expr \<times> 'p) \<Rightarrow> 'ref CompileTokenMetadata list \<Rightarrow> 'p
     \<Rightarrow> error + (expr \<times> 'p)" where
  "selectorsFromGlobalMetadata ctx_importExpr ctx_getConstLiteral selectors pool =
     (if length selectors > 1 \<or> (length selectors = 1 \<and> truthy (token_value (hd selectors))) then
        (let selectorStrings = map token_value selectors
         in if list_ex (\<lambda>v. \<not> truthy v) selectorStrings
            then Inl (Error ''Found a type among the string selectors expected'')
            else Inr (ctx_getConstLiteral
                        (literalArr (map (\<lambda>v. literal (case v of Some s \<Rightarrow> LStr s
                                                               | None \<Rightarrow> LUndefined))
                                       selectorStrings))
                        False pool))
      else
        (case (if length selectors = 1 then token_identifier (hd selectors) else None) of
           Some r \<Rightarrow> Inr (ctx_importExpr r, pool)
         | None \<Rightarrow> Inl (Error ''Unexpected query form'')))"

text \<open>A \<^verbatim>\<open>CompileQueryMetadata\<close>, and \<^verbatim>\<open>queriesFromGlobalMetadata\<close>.\<close>

datatype 'ref CompileQueryMetadata =
  CompileQueryMetadata (query_selectors: "'ref CompileTokenMetadata list")
    (query_descendants: bool) (query_first: bool) (query_propertyName: string)
    (query_read: "'ref CompileTokenMetadata option")

definition queryFromGlobalMetadata ::
  "('ref \<Rightarrow> expr) \<Rightarrow> (expr \<Rightarrow> bool \<Rightarrow> 'p \<Rightarrow> expr \<times> 'p) \<Rightarrow> 'ref CompileQueryMetadata \<Rightarrow> 'p
     \<Rightarrow> error + (R3QueryMetadata \<times> 'p)" where
  "queryFromGlobalMetadata ctx_importExpr ctx_getConstLiteral query pool =
     (let rd = (case query_read query of
                  None \<Rightarrow> None
                | Some tok \<Rightarrow>
                    (case token_identifier tok of
                       None \<Rightarrow> None
                     | Some r \<Rightarrow> Some (ctx_importExpr r)))
      in case selectorsFromGlobalMetadata ctx_importExpr ctx_getConstLiteral
                (query_selectors query) pool of
           Inl e \<Rightarrow> Inl e
         | Inr (pred, pool') \<Rightarrow>
             Inr (\<lparr>propertyName = query_propertyName query, first = query_first query,
                   predicate = Inl pred, descendants = query_descendants query, read = rd\<rparr>,
                  pool'))"

fun queriesFromGlobalMetadata ::
  "('ref \<Rightarrow> expr) \<Rightarrow> (expr \<Rightarrow> bool \<Rightarrow> 'p \<Rightarrow> expr \<times> 'p) \<Rightarrow> 'ref CompileQueryMetadata list \<Rightarrow> 'p
     \<Rightarrow> error + (R3QueryMetadata list \<times> 'p)" where
  "queriesFromGlobalMetadata ctx_importExpr ctx_getConstLiteral [] pool = Inr ([], pool)"
| "queriesFromGlobalMetadata ctx_importExpr ctx_getConstLiteral (query # qs) pool =
     (case queryFromGlobalMetadata ctx_importExpr ctx_getConstLiteral query pool of
        Inl e \<Rightarrow> Inl e
      | Inr (q, pool1) \<Rightarrow>
          (case queriesFromGlobalMetadata ctx_importExpr ctx_getConstLiteral qs pool1 of
             Inl e \<Rightarrow> Inl e
           | Inr (rest, pool2) \<Rightarrow> Inr (q # rest, pool2)))"

section \<open>Reading the results\<close>

text \<open>The class of a host binding key: the output of \<^verbatim>\<open>parseHostBindings\<close> that the key
  goes to, with the name it gets there.\<close>

datatype host_class =
    StaticAttribute string | PropertyBinding string | EventListener string
  | AnimationTrigger string | Unclassified

definition classify :: "string \<Rightarrow> host_class" where
  "classify key =
     (case HOST_REG_EXP key of
        None \<Rightarrow> StaticAttribute key
      | Some matches \<Rightarrow>
          (case Binding matches of
             Some b \<Rightarrow> PropertyBinding b
           | None \<Rightarrow>
               (case Event matches of
                  Some e \<Rightarrow> EventListener e
                | None \<Rightarrow>
                    (case Animation matches of
                       Some a \<Rightarrow> AnimationTrigger a
                     | None \<Rightarrow> Unclassified))))"

text \<open>A host attribute that is neither \<^verbatim>\<open>style\<close> nor \<^verbatim>\<open>class\<close>.\<close>

definition plain_attribute :: "string \<times> string \<Rightarrow> bool" where
  "plain_attribute kv = (fst kv \<noteq> ''style'' \<and> fst kv \<noteq> ''class'')"

text \<open>The fields of a definition: the entries of the object literal that is the argument
  of \<^verbatim>\<open>defineDirective\<close> or \<^verbatim>\<open>defineComponent\<close>.\<close>

definition definition_fields :: "expr \<Rightarrow> (string \<times> expr) list" where
  "definition_fields e =
     (case e of
        InvokeFunctionExpr f args \<Rightarrow>
          (case args of
             [LiteralMapExpr entries] \<Rightarrow> map (\<lambda>(k, v, q). (k, v)) entries
           | _ \<Rightarrow> [])
      | _ \<Rightarrow> [])"

definition definition_field :: "R3Def \<Rightarrow> string \<Rightarrow> expr option" where
  "definition_field d key = map_of (definition_fields (expression d)) key"

text \<open>The definition map that \<^verbatim>\<open>baseDirectiveFields\<close> builds, as a function of the
  fields it has computed: the content queries function, the host attributes array and the
  host bindings function.\<close>

definition base_fields ::
  "('ast, 'dep, 'span, 'node, 'p) externals \<Rightarrow> ('dep, 'span, 'more) R3DirectiveMetadata_scheme
     \<Rightarrow> expr option \<Rightarrow> expr option \<Rightarrow> expr option \<Rightarrow> DefinitionMap" where
  "base_fields ext meta cq attrs hb =
     (case exportAs meta of
        None \<Rightarrow> (\<lambda>d. d)
      | Some e \<Rightarrow> dm_set ''exportAs'' (Some (literal (LStr e))))
       (dm_set ''outputs''
          (conditionallyCreateMapObjectLiteral (plain_names (outputs meta)) False)
       (dm_set ''inputs'' (conditionallyCreateMapObjectLiteral (inputs meta) True)
       (dm_set ''hostBindings'' hb
       (dm_set ''attributes'' attrs
       (dm_set ''contentQueriesRefresh'' (createContentQueriesRefreshFunction meta)
       (dm_set ''contentQueries'' cq
       (dm_set ''factory''
          (Some (fst (compileFactoryFunction ext (name meta) (type meta) (deps meta)
                        R3_directiveInject)))
       (dm_set ''selectors'' (Some (createDirectiveSelector ext (selector meta)))
       (dm_set ''type'' (Some (type meta)) [])))))))))"

text \<open>The host attributes and the styling builder after the loop of
  \<^verbatim>\<open>baseDirectiveFields\<close> over the host attributes.\<close>

definition hostAttributes_loop ::
  "('dep, 'span, 'more) R3DirectiveMetadata_scheme \<Rightarrow> string obj \<times> ('ast, 'span) StylingBuilder" where
  "hostAttributes_loop meta =
     fold hostAttribute_step (attributes (host meta))
       ([], new_StylingBuilder (variable ''elIndex'') (variable CONTEXT_NAME))"

text \<open>The create block of a generated \<^verbatim>\<open>hostBindings\<close> function: the statements under
  the check of the create flag, when that check is its first statement.\<close>

definition create_block :: "expr option \<Rightarrow> stmt list" where
  "create_block f =
     (case f of
        Some (FunctionExpr ps (IfStmt (BinaryOperatorExpr BitwiseAnd v (LiteralExpr (LRenderFlags Create))) body # rest) t n) \<Rightarrow> body
      | _ \<Rightarrow> [])"

text \<open>The slot-allocation instruction for a number of host variables.\<close>

definition allocHostVars_stmt :: "nat \<Rightarrow> stmt" where
  "allocHostVars_stmt n =
     ExpressionStatement
       (InvokeFunctionExpr (ExternalExpr R3_allocHostVars None) [LiteralExpr (LNum (int n))])"

text \<open>The number of host variables that a generated \<^verbatim>\<open>hostBindings\<close> function
  allocates: the argument of a slot-allocation instruction in its create block, and none
  without one.\<close>

definition allocated_by :: "stmt \<Rightarrow> nat" where
  "allocated_by s =
     (case s of
        ExpressionStatement (InvokeFunctionExpr (ExternalExpr R3_allocHostVars t) [LiteralExpr (LNum n)]) \<Rightarrow> nat n
      | _ \<Rightarrow> 0)"

definition emitted_hostVars :: "expr option \<Rightarrow> nat" where
  "emitted_hostVars f = sum_list (map allocated_by (create_block f))"

text \<open>The number that an index expression over \<^verbatim>\<open>queryStartIndex\<close> denotes, for a value
  of that parameter.\<close>

fun index_value :: "int \<Rightarrow> expr \<Rightarrow> int option" where
  "index_value s (ReadVarExpr v) = (if v = ''queryStartIndex'' then Some s else None)"
| "index_value s (LiteralExpr l) = (case l of LNum n \<Rightarrow> Some n | _ \<Rightarrow> None)"
| "index_value s (BinaryOperatorExpr opr a b) =
     (case opr of
        Plus \<Rightarrow> (case index_value s a of
                   None \<Rightarrow> None
                 | Some x \<Rightarrow> (case index_value s b of None \<Rightarrow> None | Some y \<Rightarrow> Some (x + y)))
      | _ \<Rightarrow> None)"
| "index_value s _ = None"

text \<open>The index of the query list of the query at a position: \<^verbatim>\<open>queryStartIndex\<close> for
  the first query, \<^verbatim>\<open>queryStartIndex + k\<close> for the query at position \<open>k\<close> after it.\<close>

definition query_index_expr :: "nat \<Rightarrow> expr" where
  "query_index_expr k =
     (if k > 0 then BinaryOperatorExpr Plus (ReadVarExpr ''queryStartIndex'')
                      (LiteralExpr (LNum (int k)))
      else ReadVarExpr ''queryStartIndex'')"

text \<open>The statements of a generated function.\<close>

definition function_body :: "expr option \<Rightarrow> stmt list" where
  "function_body f = (case f of Some (FunctionExpr ps body t n) \<Rightarrow> body | _ \<Rightarrow> [])"

text \<open>The statement that refreshes a content query and updates the directive: it loads
  the query list at an index, refreshes it, and assigns the first element or the whole
  list to a property of the instance.\<close>

definition refresh_stmt :: "expr \<Rightarrow> string \<Rightarrow> bool \<Rightarrow> stmt" where
  "refresh_stmt idx pname fst_only =
     ExpressionStatement
       (BinaryOperatorExpr And
          (InvokeFunctionExpr (ExternalExpr R3_queryRefresh None)
             [WriteVarExpr TEMPORARY_NAME
                (InvokeFunctionExpr (ExternalExpr R3_loadQueryList None) [idx])])
          (WritePropExpr (ReadVarExpr ''instance'') pname
             (if fst_only then ReadPropExpr (ReadVarExpr TEMPORARY_NAME) ''first''
              else ReadVarExpr TEMPORARY_NAME)))"

text \<open>The default resolution of the encapsulation, in the words of the specification: a
  mode that is not set defaults to \<^verbatim>\<open>Emulated\<close>; \<^verbatim>\<open>Emulated\<close> without styles is
  downgraded to \<^verbatim>\<open>None\<close>.\<close>

definition resolveEncapsulation :: "ViewEncapsulation option \<Rightarrow> string list \<Rightarrow> ViewEncapsulation" where
  "resolveEncapsulation enc sts =
     (let enc1 = (case enc of None \<Rightarrow> Emulated | Some e \<Rightarrow> e)
      in if length sts \<noteq> 0 then enc1
         else if enc1 = Emulated then None_ViewEncapsulation
         else enc1)"

text \<open>The binding expressions that the value converter visits for a list of bound host
  properties, in the order of the visits: those of the bindings that are not styling
  bindings, in the loop over the bindings; then those of the styling bindings, when the
  styling builder builds its update instructions.\<close>

definition visited_expressions :: "('ast, 'span) ParsedProperty list \<Rightarrow> 'ast list" where
  "visited_expressions bs =
     map binding_expression (filter (\<lambda>b. \<not> is_styling_name (binding_name b)) bs)
     @ map binding_expression (filter (\<lambda>b. is_styling_name (binding_name b)) bs)"

definition host_expressions ::
  "('ast, 'dep, 'span, 'node, 'p) externals \<Rightarrow> ('dep, 'span, 'more) R3DirectiveMetadata_scheme
     \<Rightarrow> 'ast list" where
  "host_expressions ext meta =
     (case createBoundHostProperties ext (metadataAsSummary meta) (typeSourceSpan meta) of
        None \<Rightarrow> []
      | Some bs \<Rightarrow> visited_expressions bs)"

text \<open>The visits of a list of expressions, one after the other, from a count of host
  variables and a pool: the number of slots that the value converter asks for in all of
  them, and the pool after the last; none when a visit fails.\<close>

fun visit_all ::
  "('ast, 'dep, 'span, 'node, 'p) externals \<Rightarrow> 'ast list \<Rightarrow> nat \<Rightarrow> 'p \<Rightarrow> (nat \<times> 'p) option" where
  "visit_all ext [] t p = Some (0, p)"
| "visit_all ext (a # as) t p =
     (case visit ext a t p of
        Visited (a', ns, p') \<Rightarrow>
          (case visit_all ext as (t + sum_list ns) p' of
             None \<Rightarrow> None
           | Some (r, p'') \<Rightarrow> Some (sum_list ns + r, p''))
      | _ \<Rightarrow> None)"

definition requested_slots ::
  "('ast, 'dep, 'span, 'node, 'p) externals \<Rightarrow> 'ast list \<Rightarrow> nat \<Rightarrow> 'p \<Rightarrow> nat" where
  "requested_slots ext es t p = (case visit_all ext es t p of None \<Rightarrow> 0 | Some (r, p') \<Rightarrow> r)"

text \<open>The expression of an input of the styling builder.\<close>

fun input_value :: "('ast, 'span) styling_input \<Rightarrow> 'ast" where
  "input_value (StyleInput propName val unit span) = val"
| "input_value (ClassInput className val span) = val"

text \<open>The features of a definition, for the providers, the view providers and the two
  flags: the providers feature first, when there are providers or view providers, called
  with the providers, or with an empty array in their place, and then with the view
  providers, when there are any; the inheritance feature next; the on-changes feature
  last.  The field is omitted for an empty list.\<close>

definition features_list :: "expr option \<Rightarrow> expr option \<Rightarrow> bool \<Rightarrow> bool \<Rightarrow> expr list" where
  "features_list provs viewProvs inherits onChanges =
     (case (provs, viewProvs) of
        (None, None) \<Rightarrow> []
      | (Some p, None) \<Rightarrow> [callFn (importExpr R3_ProvidersFeature) [p]]
      | (None, Some v) \<Rightarrow> [callFn (importExpr R3_ProvidersFeature) [LiteralArrayExpr [], v]]
      | (Some p, Some v) \<Rightarrow> [callFn (importExpr R3_ProvidersFeature) [p, v]])
     @ (if inherits then [importExpr R3_InheritDefinitionFeature] else [])
     @ (if onChanges then [importExpr R3_NgOnChangesFeature] else [])"

definition features_field :: "expr option \<Rightarrow> expr option \<Rightarrow> bool \<Rightarrow> bool \<Rightarrow> expr option" where
  "features_field provs viewProvs inherits onChanges =
     (if features_list provs viewProvs inherits onChanges = [] then None
      else Some (literalArr (features_list provs viewProvs inherits onChanges)))"


section \<open>Sample collaborators and metadata\<close>

text \<open>
  A simple instance of the collaborators, to run the model on concrete metadata.  A
  binding expression is the name of a property of the context; it needs no slot.  The
  constant pool is the list of the literals it was given.
\<close>

definition sample_externals :: "(string, unit, unit, unit, expr list) externals" where
  "sample_externals =
     \<lparr>compileFactoryFunction = (\<lambda>n t d inj. (fn [] [ReturnStatement (callFn t [])] (Some INFERRED_TYPE)
                        (named n ''_Factory''), [])),
      parseSelectorToR3Selector =
        (\<lambda>s. literalArr [literal (case s of None \<Rightarrow> LNull | Some x \<Rightarrow> LStr x)]),
      getQueryPredicate =
        (\<lambda>q p. case predicate q of
                  Inl e \<Rightarrow> (e, p)
                | Inr strs \<Rightarrow> (literalArr (map (\<lambda>x. literal (LStr x)) strs),
                               p @ [literalArr (map (\<lambda>x. literal (LStr x)) strs)])),
      createDirectiveHostEventAsts = (\<lambda>h sp. Some (map (\<lambda>(k, v). ParsedEvent k v) (listeners h))),
      createBoundHostProperties =
        (\<lambda>h sp. Some (map (\<lambda>(k, v). ParsedProperty k v sp) (properties h))),
      convertActionBinding = (\<lambda>ctx a. Converted [toStmt (callFn (prop_expr ctx a) [])]),
      convertPropertyBinding = (\<lambda>ctx a. Converted ([], prop_expr ctx a)),
      visit = (\<lambda>a t p. Visited (a, [], p)),
      sanitizeIdentifier = (\<lambda>s. s),
      getConstLiteral = (\<lambda>e shared p. (e, p @ [e])),
      CssSelector_parse = (\<lambda>s. [[]]),
      buildTemplateFunction =
        (\<lambda>tn n vq dm ps path ids nodes p.
           (\<lparr>templateFunctionExpression =
                fn [(RENDER_FLAGS, Some NUMBER_TYPE), (CONTEXT_NAME, None)] [] (Some INFERRED_TYPE) n,
              constCount = 0, varCount = 0, directivesUsed = [], pipesUsed = []\<rparr>, p)),
      shimCssText = (\<lambda>s. s),
      typeWithParameters = (\<lambda>t n. ExpressionType t)\<rparr>"

text \<open>The same collaborators with a value converter that asks for one slot in every
  visit.\<close>

definition slot_externals :: "(string, unit, unit, unit, expr list) externals" where
  "slot_externals = sample_externals\<lparr>visit := (\<lambda>a t p. Visited (a, [1], p))\<rparr>"

definition sample_directive :: "(unit, unit) R3DirectiveMetadata" where
  "sample_directive =
     \<lparr>name = ''MyDir'', type = variable ''MyDir'', typeArgumentCount = 0, typeSourceSpan = (),
      deps = None, selector = Some ''[my-dir]'', queries = [],
      host = \<lparr>attributes = [], listeners = [], properties = []\<rparr>,
      lifecycle = \<lparr>usesOnChanges = False\<rparr>, inputs = [], outputs = [],
      usesInheritance = False, exportAs = None, providers = None\<rparr>"

definition sample_component :: "(unit, unit, unit) R3ComponentMetadata" where
  "sample_component =
     \<lparr>name = ''MyCmp'', type = variable ''MyCmp'', typeArgumentCount = 0, typeSourceSpan = (),
      deps = None, selector = Some ''my-cmp'', queries = [],
      host = \<lparr>attributes = [], listeners = [], properties = []\<rparr>,
      lifecycle = \<lparr>usesOnChanges = False\<rparr>, inputs = [], outputs = [],
      usesInheritance = False, exportAs = None, providers = None,
      template = [], viewQueries = [], directives = [], pipes = [],
      wrapDirectivesAndPipesInClosure = False, styles = [], encapsulation = Some Emulated,
      interpolation = (''{{'', ''}}''), animations = None, viewProviders = None,
      relativeContextFilePath = '''', i18nUseExternalIds = True, changeDetection = None\<rparr>"

section \<open>Evaluation\<close>

text \<open>The defining equations, collected for the evaluation of the model on concrete
  inputs.\<close>

lemmas string_defs =
  code_unit_def toLowerCase_char_def toLowerCase_def clamp_index_def substring_def
  lastIndexOf_def getStylingPrefix_def parseNamedProperty_def is_styling_name_def

lemmas object_defs =
  is_digit_def digits_value_def array_index_def obj_keys_def obj_get_def obj_set_def

lemmas host_syntax_defs =
  is_word_char_def is_trigger_char_def match_delimited_def HOST_REG_EXP_def Binding_def
  Event_def Animation_def parseHostBindings_step_def parseHostBindings_def

lemmas ast_defs =
  DYNAMIC_TYPE_def NUMBER_TYPE_def INFERRED_TYPE_def NONE_TYPE_def literal_def variable_def
  importExpr_def literalArr_def literalMap_def callFn_def prop_expr_def toStmt_def fn_def
  CONTEXT_NAME_def RENDER_FLAGS_def TEMPORARY_NAME_def renderFlagCheckIfStmt_def temporary_def
  dm_set_def toLiteralMap_def dm_get_def named_def

lemmas styling_defs =
  new_StylingBuilder_def registerStyleAttr_def registerClassAttr_def registerStyleInput_def
  registerClassInput_def hasBindingsOrInitialValues_def string_or_null_def
  buildCreateLevelInstruction_def buildUpdateLevelInstructions_def buildParam_def
  createStylingStmt_def convertValue_def bindingFn_def

lemmas host_defs =
  getBindingNameAndInstruction_def createHostListener_def createHostListeners_def
  metadataAsSummary_def hostProperty_step_def hostStyling_def hostBindingsFn_def
  createHostBindingsFunction_def

lemmas query_defs =
  createQueryDefinition_def registerContentQuery_stmt_def createContentQueriesFunction_def
  contentQueryRefresh_step_def createContentQueriesRefreshFunction_def viewQuery_step_def
  createViewQueriesFunction_def

lemmas definition_defs =
  input_literal_def mapToExpression_def conditionallyCreateMapObjectLiteral_def plain_names_def
  initialHostVarsCount_def hostAttribute_step_def createHostAttributesArray_def
  createDirectiveSelector_def baseDirectiveFields_def addFeatures_def stringAsType_def
  stringMapAsType_def stringArrayAsType_def createTypeForDef_def compileDirectiveFromMetadata_def
  compileStyles_def componentTemplateFields_def
  componentStyleFields_def compileComponentFromMetadata_def

lemmas sample_defs =
  sample_externals_def slot_externals_def sample_directive_def sample_component_def

lemmas reading_defs =
  definition_fields_def definition_field_def create_block_def allocHostVars_stmt_def
  allocated_by_def emitted_hostVars_def refresh_stmt_def query_index_expr_def function_body_def
  resolveEncapsulation_def visited_expressions_def host_expressions_def requested_slots_def
  features_list_def features_field_def


section \<open>Named properties\<close>

lemma indexOf_notin: "c \<notin> set s \<Longrightarrow> indexOf s c = - 1"
  by (induction s) auto

lemma indexOf_append: "c \<notin> set a \<Longrightarrow> indexOf (a @ c # r) c = int (length a)"
  by (induction a) (auto simp: Let_def)

lemma lastIndexOf_append: "c \<notin> set r \<Longrightarrow> lastIndexOf (a @ c # r) c = int (length a)"
  by (simp add: lastIndexOf_def indexOf_append Let_def)

lemma substring_mid:
  "substring (a @ b @ c) (int (length a)) (int (length a + length b)) = b"
  by (simp add: substring_def clamp_index_def Let_def flip: of_nat_add)

lemma substring_tail:
  "substring (a @ b) (int (length a)) (int (length (a @ b))) = b"
  by (simp add: substring_def clamp_index_def Let_def flip: of_nat_add)

lemma parseNamedProperty_three:
  assumes "a \<noteq> []" "CHR ''.'' \<notin> set a" "CHR ''.'' \<notin> set c"
  shows "parseNamedProperty (a @ ''.'' @ b @ ''.'' @ c) = (b, c)"
proof -
  let ?n = "a @ ''.'' @ b @ ''.'' @ c"
  have i: "indexOf ?n CHR ''.'' = int (length a)"
    using assms(2) indexOf_append[of "CHR ''.''" a "b @ ''.'' @ c"] by simp
  have l: "lastIndexOf ?n CHR ''.'' = int (length a + 1 + length b)"
    using assms(3) lastIndexOf_append[of "CHR ''.''" c "a @ ''.'' @ b"] by simp
  have s1: "substring ?n (int (length a) + 1) (int (length a + 1 + length b)) = b"
    using substring_mid[of "a @ ''.''" b "''.'' @ c"] by (simp add: add.commute)
  have s2: "substring ?n (int (length a + 1 + length b) + 1) (int (length ?n)) = c"
    using substring_tail[of "a @ ''.'' @ b @ ''.''" c] by (simp add: add.commute add.left_commute)
  show ?thesis
    unfolding parseNamedProperty_def Let_def i l using assms(1) s1 s2 by simp
qed

lemma parseNamedProperty_two:
  assumes "a \<noteq> []" "CHR ''.'' \<notin> set a" "CHR ''.'' \<notin> set b"
  shows "parseNamedProperty (a @ ''.'' @ b) = (b, '''')"
proof -
  let ?n = "a @ ''.'' @ b"
  have i: "indexOf ?n CHR ''.'' = int (length a)"
    using assms(2) indexOf_append[of "CHR ''.''" a b] by simp
  have l: "lastIndexOf ?n CHR ''.'' = int (length a)"
    using assms(3) lastIndexOf_append[of "CHR ''.''" b a] by simp
  have s1: "substring ?n (int (length a) + 1) (int (length ?n)) = b"
    using substring_tail[of "a @ ''.''" b] by (simp add: add.commute)
  show ?thesis
    unfolding parseNamedProperty_def Let_def i l using assms(1) s1 by simp
qed

lemma parseNamedProperty_none:
  "CHR ''.'' \<notin> set a \<Longrightarrow> parseNamedProperty a = ('''', '''')"
  by (simp add: parseNamedProperty_def indexOf_notin)

text \<open>The first segment of a styling name is not empty: its first five characters spell
  \<^verbatim>\<open>style\<close> or \<^verbatim>\<open>class\<close>.\<close>

lemma styling_first_segment: "is_styling_name (a @ ''.'' @ r) \<Longrightarrow> a \<noteq> []"
  by (auto simp: is_styling_name_def getStylingPrefix_def toLowerCase_def toLowerCase_char_def
       substring_def clamp_index_def code_unit_def)

lemma style_width_px_registered:
  "hostProperty_step ext elVarName ctx (ParsedProperty ''style.width.px'' v sp)
     (t, upd, sb, pool)
   = Inr (t, upd, registerStyleInput ''width'' v ''px'' sp sb, pool)"
  by (simp add: hostProperty_step_def string_defs)

lemma style_width_px_compiled:
  "createHostBindingsFunction sample_externals
     (sample_directive\<lparr>host :=
        \<lparr>attributes = [], listeners = [],
         properties = properties (parseHostBindings [(''[style.width.px]'', ''w'')])\<rparr>\<rparr>)
     ''elIndex'' (variable CONTEXT_NAME)
     (new_StylingBuilder (variable ''elIndex'') (variable CONTEXT_NAME)) [] 0
   = Inr (Some (fn [(RENDER_FLAGS, Some NUMBER_TYPE), (CONTEXT_NAME, None),
                    (''elIndex'', Some NUMBER_TYPE)]
                  [renderFlagCheckIfStmt Create
                     [toStmt (callFn (importExpr R3_elementStyling)
                                [literal LNull, literal LNull])],
                   renderFlagCheckIfStmt Update
                     [toStmt (callFn (importExpr R3_elementStyleProp)
                                [variable ''elIndex'', literal (LStr ''width''),
                                 prop_expr (variable CONTEXT_NAME) ''w'',
                                 literal (LStr ''px'')])]]
                  (Some INFERRED_TYPE) (Some ''MyDir_HostBindings'')), [])"
  by (simp add: string_defs object_defs host_syntax_defs ast_defs styling_defs host_defs
      sample_defs Let_def)

text \<open>
  C6.  A styling name with three dot-separated segments has the middle segment as the
  property and the last as the unit; with two segments the second is the property and the
  unit is empty; a name without a dot gives an empty property and an empty unit.  The
  first segment of a styling name is not empty (\<open>styling_first_segment\<close>), which is all
  the statement needs of it.  The host binding key \<^verbatim>\<open>[style.width.px]\<close> is the host
  property \<^verbatim>\<open>style.width.px\<close>, which the host bindings compiler registers as the style
  input \<^verbatim>\<open>width\<close> with the unit \<^verbatim>\<open>px\<close>, and which is compiled to the update
  instruction for the property \<^verbatim>\<open>width\<close> with the unit \<^verbatim>\<open>px\<close>.
\<close>

theorem parseNamedProperty_segments:
  assumes "a \<noteq> []" and "CHR ''.'' \<notin> set a" and "CHR ''.'' \<notin> set b" and "CHR ''.'' \<notin> set c"
  shows "parseNamedProperty (a @ ''.'' @ b @ ''.'' @ c) = (b, c)
       \<and> parseNamedProperty (a @ ''.'' @ b) = (b, '''')
       \<and> parseNamedProperty a = ('''', '''')
       \<and> properties (parseHostBindings [(''[style.width.px]'', e)]) = [(''style.width.px'', e)]
       \<and> hostProperty_step ext elVarName ctx (ParsedProperty ''style.width.px'' v sp)
            (t, upd, sb, pool)
          = Inr (t, upd, registerStyleInput ''width'' v ''px'' sp sb, pool)
       \<and> createHostBindingsFunction sample_externals
            (sample_directive\<lparr>host :=
               \<lparr>attributes = [], listeners = [],
                properties = properties (parseHostBindings [(''[style.width.px]'', ''w'')])\<rparr>\<rparr>)
            ''elIndex'' (variable CONTEXT_NAME)
            (new_StylingBuilder (variable ''elIndex'') (variable CONTEXT_NAME)) [] 0
          = Inr (Some (fn [(RENDER_FLAGS, Some NUMBER_TYPE), (CONTEXT_NAME, None),
                           (''elIndex'', Some NUMBER_TYPE)]
                         [renderFlagCheckIfStmt Create
                            [toStmt (callFn (importExpr R3_elementStyling)
                                       [literal LNull, literal LNull])],
                          renderFlagCheckIfStmt Update
                            [toStmt (callFn (importExpr R3_elementStyleProp)
                                       [variable ''elIndex'', literal (LStr ''width''),
                                        prop_expr (variable CONTEXT_NAME) ''w'',
                                        literal (LStr ''px'')])]]
                         (Some INFERRED_TYPE) (Some ''MyDir_HostBindings'')), [])"
proof -
  have "properties (parseHostBindings [(''[style.width.px]'', e)]) = [(''style.width.px'', e)]"
    by (simp add: host_syntax_defs object_defs)
  then show ?thesis
    using assms parseNamedProperty_three[of a c b] parseNamedProperty_two[of a b]
      parseNamedProperty_none[of a] style_width_px_registered style_width_px_compiled
    by simp
qed

theorem parseNamedProperty_segments_witness:
  "parseNamedProperty ''style.width.px'' = (''width'', ''px'')
   \<and> parseNamedProperty ''style.width'' = (''width'', '''')
   \<and> parseNamedProperty ''style'' = ('''', '''')"
proof -
  have h: "''style'' \<noteq> []" "CHR ''.'' \<notin> set ''style''" "CHR ''.'' \<notin> set ''width''"
    "CHR ''.'' \<notin> set ''px''"
    by simp_all
  note r = parseNamedProperty_segments[OF h]
  from r[THEN conjunct1] r[THEN conjunct2, THEN conjunct1]
    r[THEN conjunct2, THEN conjunct2, THEN conjunct1]
  show ?thesis by simp
qed

section \<open>Host binding keys\<close>

text \<open>The keys of an object after an assignment: the key is added, but for
  \<^verbatim>\<open>__proto__\<close>.\<close>

lemma map_fst_obj_insert: "set (map fst (obj_insert k v ob)) = insert k (set (map fst ob))"
  by (induction k v ob rule: obj_insert.induct) (auto split: option.splits)

lemma obj_set_proto: "obj_set ob ''__proto__'' v = ob"
  by (simp add: obj_set_def)

lemma obj_set_other:
  "k \<noteq> ''__proto__'' \<Longrightarrow>
   obj_set ob k v = (if k \<in> set (obj_keys ob)
                     then map (\<lambda>(k', v'). if k' = k then (k', v) else (k', v')) ob
                     else obj_insert k v ob)"
  by (simp add: obj_set_def)

lemma obj_keys_obj_set_other:
  assumes "k \<noteq> ''__proto__''"
  shows "set (obj_keys (obj_set ob k v)) = insert k (set (obj_keys ob))"
proof (cases "k \<in> set (obj_keys ob)")
  case True
  have "map fst (map (\<lambda>(k', v'). if k' = k then (k', v) else (k', v')) ob) = map fst ob"
    by (induction ob) auto
  with True show ?thesis
    unfolding obj_set_other[OF assms] by (auto simp: obj_keys_def)
next
  case False
  then show ?thesis
    unfolding obj_set_other[OF assms]
    by (simp add: obj_keys_def map_fst_obj_insert del: set_map)
qed

lemma obj_keys_obj_set:
  "set (obj_keys (obj_set ob k v)) = set (obj_keys ob) \<union> {m. m \<noteq> ''__proto__'' \<and> m = k}"
proof (cases "k = ''__proto__''")
  case True
  have "{m. m \<noteq> ''__proto__'' \<and> m = k} = {}"
    unfolding True by blast
  then show ?thesis
    unfolding True obj_set_proto by simp
next
  case False
  then have "{m. m \<noteq> ''__proto__'' \<and> m = k} = {k}"
    by blast
  then show ?thesis
    unfolding obj_keys_obj_set_other[OF False] by simp
qed

lemma obj_keys_Nil: "obj_keys [] = []"
  by (simp add: obj_keys_def)

text \<open>The class of a key, by the three parts of the pattern.\<close>

lemma classify_cases:
  "classify k =
     (case match_delimited CHR ''['' CHR '']'' k of
        Some b \<Rightarrow> PropertyBinding b
      | None \<Rightarrow>
          (case match_delimited CHR ''('' CHR '')'' k of
             Some e \<Rightarrow> EventListener e
           | None \<Rightarrow>
               (case match_trigger k of
                  Some t \<Rightarrow> AnimationTrigger t
                | None \<Rightarrow> StaticAttribute k)))"
  by (simp add: classify_def HOST_REG_EXP_def Binding_def Event_def Animation_def
      split: option.splits)

lemma classify_total: "classify key \<noteq> Unclassified"
  by (simp add: classify_cases split: option.splits)

lemma match_delimited_form:
  "n \<noteq> [] \<Longrightarrow> r \<notin> set n \<Longrightarrow> match_delimited l r (l # n @ r # rest) = Some n"
  by (simp add: match_delimited_def takeWhile_append dropWhile_append)

lemma match_delimited_Some:
  "match_delimited l r k = Some n
   \<longleftrightarrow> n \<noteq> [] \<and> r \<notin> set n \<and> (\<exists>rest. k = l # n @ r # rest)"
proof
  assume m: "match_delimited l r k = Some n"
  then obtain cs where k: "k = l # cs" and n: "n = takeWhile (\<lambda>x. x \<noteq> r) cs"
    and ne: "n \<noteq> []" and d: "dropWhile (\<lambda>x. x \<noteq> r) cs \<noteq> []"
    by (auto simp: match_delimited_def split: list.splits if_splits)
  have r: "r \<notin> set n"
    unfolding n using set_takeWhileD by fastforce
  from d have "hd (dropWhile (\<lambda>x. x \<noteq> r) cs) = r"
    using hd_dropWhile[of "\<lambda>x. x \<noteq> r" cs] by simp
  with d have "dropWhile (\<lambda>x. x \<noteq> r) cs = r # tl (dropWhile (\<lambda>x. x \<noteq> r) cs)"
    by (cases "dropWhile (\<lambda>x. x \<noteq> r) cs") auto
  then have "cs = n @ r # tl (dropWhile (\<lambda>x. x \<noteq> r) cs)"
    unfolding n using takeWhile_dropWhile_id[of "\<lambda>x. x \<noteq> r" cs] by simp
  with k ne r show "n \<noteq> [] \<and> r \<notin> set n \<and> (\<exists>rest. k = l # n @ r # rest)"
    by blast
next
  assume "n \<noteq> [] \<and> r \<notin> set n \<and> (\<exists>rest. k = l # n @ r # rest)"
  then show "match_delimited l r k = Some n"
    using match_delimited_form by blast
qed

lemma match_delimited_first:
  "match_delimited l r k = Some n \<Longrightarrow> l' \<noteq> l \<Longrightarrow> match_delimited l' r' k = None"
  by (auto simp: match_delimited_def split: list.splits if_splits)

lemma at_sign_no_trigger_char: "\<not> is_trigger_char CHR ''@''"
  by (simp add: is_trigger_char_def is_word_char_def code_unit_def)

lemma match_trigger_suffix:
  "n \<noteq> [] \<Longrightarrow> list_all is_trigger_char n
   \<Longrightarrow> match_trigger (pre @ CHR ''@'' # n) = Some (CHR ''@'' # n)"
  by (induction pre) (auto simp: at_sign_no_trigger_char)

lemma match_trigger_shape:
  "match_trigger k = Some t
   \<Longrightarrow> \<exists>pre n. k = pre @ t \<and> t = CHR ''@'' # n \<and> n \<noteq> [] \<and> list_all is_trigger_char n"
proof (induction k)
  case Nil
  then show ?case by simp
next
  case (Cons c cs)
  show ?case
  proof (cases "c = CHR ''@'' \<and> cs \<noteq> [] \<and> list_all is_trigger_char cs")
    case True
    with Cons.prems have "t = c # cs" by simp
    with True show ?thesis by (intro exI[of _ "[]"] exI[of _ cs]) simp
  next
    case False
    with Cons.prems have "match_trigger cs = Some t" by auto
    from Cons.IH[OF this] obtain pre n where
      "cs = pre @ t" "t = CHR ''@'' # n" "n \<noteq> []" "list_all is_trigger_char n"
      by blast
    then show ?thesis by (intro exI[of _ "c # pre"] exI[of _ n]) simp
  qed
qed

lemma match_trigger_Some:
  "match_trigger k = Some t
   \<longleftrightarrow> (\<exists>pre n. n \<noteq> [] \<and> list_all is_trigger_char n \<and> t = CHR ''@'' # n \<and> k = pre @ t)"
  using match_trigger_shape[of k t] match_trigger_suffix by blast

lemma classify_PropertyBinding:
  "classify k = PropertyBinding n
   \<longleftrightarrow> n \<noteq> [] \<and> CHR '']'' \<notin> set n \<and> (\<exists>rest. k = ''['' @ n @ '']'' @ rest)"
  using match_delimited_Some[of "CHR ''[''" "CHR '']''" k n]
  by (auto simp: classify_cases split: option.splits)

lemma classify_EventListener:
  "classify k = EventListener n
   \<longleftrightarrow> n \<noteq> [] \<and> CHR '')'' \<notin> set n \<and> (\<exists>rest. k = ''('' @ n @ '')'' @ rest)"
proof -
  have "classify k = EventListener n \<longleftrightarrow> match_delimited CHR ''('' CHR '')'' k = Some n"
    using match_delimited_first[of "CHR ''(''" "CHR '')''" k n "CHR ''[''" "CHR '']''"]
    by (auto simp: classify_cases split: option.splits)
  then show ?thesis
    using match_delimited_Some[of "CHR ''(''" "CHR '')''" k n] by simp
qed

lemma no_property_iff:
  "(\<forall>m. classify k \<noteq> PropertyBinding m) \<longleftrightarrow> match_delimited CHR ''['' CHR '']'' k = None"
  by (auto simp: classify_cases split: option.splits)

lemma no_listener_iff:
  "(\<forall>m. classify k \<noteq> EventListener m)
   \<longleftrightarrow> match_delimited CHR ''('' CHR '')'' k = None"
proof -
  have "match_delimited CHR ''('' CHR '')'' k = Some e
        \<Longrightarrow> match_delimited CHR ''['' CHR '']'' k = None" for e
    using match_delimited_first[of "CHR ''(''" "CHR '')''" k e "CHR ''[''" "CHR '']''"] by simp
  then show ?thesis
    by (cases "match_delimited CHR ''('' CHR '')'' k")
       (auto simp: classify_cases split: option.splits)
qed

lemma classify_AnimationTrigger:
  "classify k = AnimationTrigger t
   \<longleftrightarrow> (\<forall>m. classify k \<noteq> PropertyBinding m) \<and> (\<forall>m. classify k \<noteq> EventListener m)
       \<and> (\<exists>pre n. n \<noteq> [] \<and> list_all is_trigger_char n \<and> t = ''@'' @ n \<and> k = pre @ t)"
proof -
  have "classify k = AnimationTrigger t
        \<longleftrightarrow> match_delimited CHR ''['' CHR '']'' k = None
            \<and> match_delimited CHR ''('' CHR '')'' k = None \<and> match_trigger k = Some t"
    by (auto simp: classify_cases split: option.splits)
  then show ?thesis
    unfolding no_property_iff no_listener_iff match_trigger_Some by simp
qed

lemma classify_StaticAttribute:
  "classify k = StaticAttribute a
   \<longleftrightarrow> a = k \<and> (\<forall>m. classify k \<noteq> PropertyBinding m) \<and> (\<forall>m. classify k \<noteq> EventListener m)
       \<and> (\<forall>m. classify k \<noteq> AnimationTrigger m)"
  by (auto simp: classify_cases split: option.splits)

text \<open>The keys of the four outputs, one step and all steps.\<close>

lemma parseHostBindings_step_classify:
  "parseHostBindings_step (k, v) acc =
     (case classify k of
        StaticAttribute n \<Rightarrow> acc\<lparr>attributes := obj_set (attributes acc) n v\<rparr>
      | PropertyBinding n \<Rightarrow> acc\<lparr>properties := obj_set (properties acc) n v\<rparr>
      | EventListener n \<Rightarrow> acc\<lparr>listeners := obj_set (listeners acc) n v\<rparr>
      | AnimationTrigger n \<Rightarrow>
          acc\<lparr>host_bindings.animations := obj_set (host_bindings.animations acc) n v\<rparr>
      | Unclassified \<Rightarrow> acc)"
  by (simp add: parseHostBindings_step_def classify_def split: option.splits)


lemma step_attributes:
  "set (obj_keys (attributes (parseHostBindings_step (k, v) acc))) =
     set (obj_keys (attributes acc))
     \<union> {n. n \<noteq> ''__proto__'' \<and> classify k = StaticAttribute n}"
  by (cases "classify k")
     (auto simp: parseHostBindings_step_classify obj_keys_obj_set)

lemma step_properties:
  "set (obj_keys (properties (parseHostBindings_step (k, v) acc))) =
     set (obj_keys (properties acc))
     \<union> {n. n \<noteq> ''__proto__'' \<and> classify k = PropertyBinding n}"
  by (cases "classify k")
     (auto simp: parseHostBindings_step_classify obj_keys_obj_set)

lemma step_listeners:
  "set (obj_keys (listeners (parseHostBindings_step (k, v) acc))) =
     set (obj_keys (listeners acc))
     \<union> {n. n \<noteq> ''__proto__'' \<and> classify k = EventListener n}"
  by (cases "classify k")
     (auto simp: parseHostBindings_step_classify obj_keys_obj_set)

lemma step_animations:
  "set (obj_keys (host_bindings.animations (parseHostBindings_step (k, v) acc))) =
     set (obj_keys (host_bindings.animations acc))
     \<union> {n. n \<noteq> ''__proto__'' \<and> classify k = AnimationTrigger n}"
  by (cases "classify k")
     (auto simp: parseHostBindings_step_classify obj_keys_obj_set)

lemma fold_attributes:
  "set (obj_keys (attributes (fold parseHostBindings_step h acc))) =
     set (obj_keys (attributes acc))
     \<union> {n. n \<noteq> ''__proto__'' \<and> (\<exists>k \<in> set (obj_keys h). classify k = StaticAttribute n)}"
proof (induction h arbitrary: acc)
  case Nil
  then show ?case by (simp add: obj_keys_def)
next
  case (Cons kv h)
  obtain k v where kv: "kv = (k, v)" by (cases kv)
  show ?case unfolding kv
    by (simp add: Cons.IH step_attributes) (auto simp: obj_keys_def)
qed

lemma fold_properties:
  "set (obj_keys (properties (fold parseHostBindings_step h acc))) =
     set (obj_keys (properties acc))
     \<union> {n. n \<noteq> ''__proto__'' \<and> (\<exists>k \<in> set (obj_keys h). classify k = PropertyBinding n)}"
proof (induction h arbitrary: acc)
  case Nil
  then show ?case by (simp add: obj_keys_def)
next
  case (Cons kv h)
  obtain k v where kv: "kv = (k, v)" by (cases kv)
  show ?case unfolding kv
    by (simp add: Cons.IH step_properties) (auto simp: obj_keys_def)
qed

lemma fold_listeners:
  "set (obj_keys (listeners (fold parseHostBindings_step h acc))) =
     set (obj_keys (listeners acc))
     \<union> {n. n \<noteq> ''__proto__'' \<and> (\<exists>k \<in> set (obj_keys h). classify k = EventListener n)}"
proof (induction h arbitrary: acc)
  case Nil
  then show ?case by (simp add: obj_keys_def)
next
  case (Cons kv h)
  obtain k v where kv: "kv = (k, v)" by (cases kv)
  show ?case unfolding kv
    by (simp add: Cons.IH step_listeners) (auto simp: obj_keys_def)
qed

lemma fold_animations:
  "set (obj_keys (host_bindings.animations (fold parseHostBindings_step h acc))) =
     set (obj_keys (host_bindings.animations acc))
     \<union> {n. n \<noteq> ''__proto__'' \<and> (\<exists>k \<in> set (obj_keys h). classify k = AnimationTrigger n)}"
proof (induction h arbitrary: acc)
  case Nil
  then show ?case by (simp add: obj_keys_def)
next
  case (Cons kv h)
  obtain k v where kv: "kv = (k, v)" by (cases kv)
  show ?case unfolding kv
    by (simp add: Cons.IH step_animations) (auto simp: obj_keys_def)
qed

text \<open>A trigger name is itself a key that the pattern matches, so it is never the name of
  a static attribute.\<close>

lemma trigger_not_attribute:
  "classify k = AnimationTrigger t \<Longrightarrow> classify k' = StaticAttribute t \<Longrightarrow> False"
proof -
  assume a: "classify k = AnimationTrigger t" and b: "classify k' = StaticAttribute t"
  from a obtain n where t: "t = CHR ''@'' # n" "n \<noteq> []" "list_all is_trigger_char n"
    unfolding classify_AnimationTrigger by auto
  from b have k': "k' = t" and n: "\<forall>m. classify t \<noteq> AnimationTrigger m"
    unfolding classify_StaticAttribute by auto
  have "match_delimited CHR ''['' CHR '']'' t = None" "match_delimited CHR ''('' CHR '')'' t = None"
    unfolding t by (simp_all add: match_delimited_def)
  moreover have "match_trigger t = Some t"
    unfolding t using t(2,3) by simp
  ultimately have "classify t = AnimationTrigger t"
    by (simp add: classify_cases)
  with n show False by blast
qed

text \<open>
  C2, as stated, fails.  The host \<^verbatim>\<open>{'[a]': 'x', 'a': 'y'}\<close> has the property \<^verbatim>\<open>a\<close>
  and the static attribute \<^verbatim>\<open>a\<close>: the key sets of two of the four outputs meet, and
  the key \<^verbatim>\<open>[a]\<close> of the input is a key of none of them.
\<close>

theorem parseHostBindings_disjoint_counterexample:
  "set (obj_keys (properties (parseHostBindings [(''[a]'', ''x''), (''a'', ''y'')])))
     \<inter> set (obj_keys (attributes (parseHostBindings [(''[a]'', ''x''), (''a'', ''y'')]))) \<noteq> {}
   \<and> \<not> set (obj_keys [(''[a]'', ''x''), (''a'', ''y'')])
         \<subseteq> set (obj_keys (attributes (parseHostBindings [(''[a]'', ''x''), (''a'', ''y'')])))
           \<union> set (obj_keys (listeners (parseHostBindings [(''[a]'', ''x''), (''a'', ''y'')])))
           \<union> set (obj_keys (properties (parseHostBindings [(''[a]'', ''x''), (''a'', ''y'')])))
           \<union> set (obj_keys (host_bindings.animations
                               (parseHostBindings [(''[a]'', ''x''), (''a'', ''y'')])))"
  by (simp add: host_syntax_defs object_defs Let_def)

text \<open>
  C2, amended.  \<^verbatim>\<open>parseHostBindings\<close> is a function of the host map, and
  \<open>classify\<close> gives every key one class, by the precedence of the pattern: a key that
  begins with \<^verbatim>\<open>[name]\<close>, for a name that is not empty and has no \<^verbatim>\<open>]\<close>, is the
  property \<^verbatim>\<open>name\<close>; a key that begins with \<^verbatim>\<open>(name)\<close>, for a name that is not empty
  and has no \<^verbatim>\<open>)\<close>, is the event listener \<^verbatim>\<open>name\<close>; a key that is neither and ends
  with \<^verbatim>\<open>@name\<close>, for a name of one or more word characters and hyphens, is the
  animation trigger \<^verbatim>\<open>@name\<close>; every other key is a static attribute under the key
  itself.  So \<^verbatim>\<open>[a]@b\<close> is the property \<^verbatim>\<open>a\<close>, and \<^verbatim>\<open>x@t\<close> the trigger \<^verbatim>\<open>@t\<close>.
  The classes of the input keys are disjoint and cover the input.  The outputs are keyed
  by the names: a name other than \<^verbatim>\<open>__proto__\<close> is a key of an output exactly when
  a key of the input has that class with that name.  The key sets of two outputs may meet;
  those of the static attributes and of the animation triggers do not.
\<close>

theorem parseHostBindings_classes:
  "(classify k = PropertyBinding n
      \<longleftrightarrow> n \<noteq> [] \<and> CHR '']'' \<notin> set n \<and> (\<exists>rest. k = ''['' @ n @ '']'' @ rest))
   \<and> (classify k = EventListener n
      \<longleftrightarrow> n \<noteq> [] \<and> CHR '')'' \<notin> set n \<and> (\<exists>rest. k = ''('' @ n @ '')'' @ rest))
   \<and> (classify k = AnimationTrigger t
      \<longleftrightarrow> (\<forall>m. classify k \<noteq> PropertyBinding m) \<and> (\<forall>m. classify k \<noteq> EventListener m)
          \<and> (\<exists>pre n. n \<noteq> [] \<and> list_all is_trigger_char n \<and> t = ''@'' @ n \<and> k = pre @ t))
   \<and> (classify k = StaticAttribute a
      \<longleftrightarrow> a = k \<and> (\<forall>m. classify k \<noteq> PropertyBinding m) \<and> (\<forall>m. classify k \<noteq> EventListener m)
          \<and> (\<forall>m. classify k \<noteq> AnimationTrigger m))
   \<and> classify k \<noteq> Unclassified
   \<and> (c \<noteq> ''__proto__'' \<longrightarrow>
        (c \<in> set (obj_keys (attributes (parseHostBindings h)))
           \<longleftrightarrow> (\<exists>x \<in> set (obj_keys h). classify x = StaticAttribute c))
      \<and> (c \<in> set (obj_keys (properties (parseHostBindings h)))
           \<longleftrightarrow> (\<exists>x \<in> set (obj_keys h). classify x = PropertyBinding c))
      \<and> (c \<in> set (obj_keys (listeners (parseHostBindings h)))
           \<longleftrightarrow> (\<exists>x \<in> set (obj_keys h). classify x = EventListener c))
      \<and> (c \<in> set (obj_keys (host_bindings.animations (parseHostBindings h)))
           \<longleftrightarrow> (\<exists>x \<in> set (obj_keys h). classify x = AnimationTrigger c)))
   \<and> set (obj_keys (attributes (parseHostBindings h)))
       \<inter> set (obj_keys (host_bindings.animations (parseHostBindings h))) = {}"
proof -
  have a: "set (obj_keys (attributes (parseHostBindings h)))
     = {n. n \<noteq> ''__proto__'' \<and> (\<exists>k \<in> set (obj_keys h). classify k = StaticAttribute n)}"
    by (simp add: parseHostBindings_def fold_attributes obj_keys_Nil)
  have p: "set (obj_keys (properties (parseHostBindings h)))
     = {n. n \<noteq> ''__proto__'' \<and> (\<exists>k \<in> set (obj_keys h). classify k = PropertyBinding n)}"
    by (simp add: parseHostBindings_def fold_properties obj_keys_Nil)
  have l: "set (obj_keys (listeners (parseHostBindings h)))
     = {n. n \<noteq> ''__proto__'' \<and> (\<exists>k \<in> set (obj_keys h). classify k = EventListener n)}"
    by (simp add: parseHostBindings_def fold_listeners obj_keys_Nil)
  have t: "set (obj_keys (host_bindings.animations (parseHostBindings h)))
     = {n. n \<noteq> ''__proto__'' \<and> (\<exists>k \<in> set (obj_keys h). classify k = AnimationTrigger n)}"
    by (simp add: parseHostBindings_def fold_animations obj_keys_Nil)
  have d: "set (obj_keys (attributes (parseHostBindings h)))
       \<inter> set (obj_keys (host_bindings.animations (parseHostBindings h))) = {}"
    unfolding a t using trigger_not_attribute by blast
  have o: "c \<noteq> ''__proto__'' \<longrightarrow>
        (c \<in> set (obj_keys (attributes (parseHostBindings h)))
           \<longleftrightarrow> (\<exists>x \<in> set (obj_keys h). classify x = StaticAttribute c))
      \<and> (c \<in> set (obj_keys (properties (parseHostBindings h)))
           \<longleftrightarrow> (\<exists>x \<in> set (obj_keys h). classify x = PropertyBinding c))
      \<and> (c \<in> set (obj_keys (listeners (parseHostBindings h)))
           \<longleftrightarrow> (\<exists>x \<in> set (obj_keys h). classify x = EventListener c))
      \<and> (c \<in> set (obj_keys (host_bindings.animations (parseHostBindings h)))
           \<longleftrightarrow> (\<exists>x \<in> set (obj_keys h). classify x = AnimationTrigger c))"
    unfolding a p l t by simp
  show ?thesis
    by (rule conjI[OF classify_PropertyBinding conjI[OF classify_EventListener
          conjI[OF classify_AnimationTrigger conjI[OF classify_StaticAttribute
          conjI[OF classify_total conjI[OF o d]]]]]])
qed

theorem parseHostBindings_classes_witness:
  "classify ''[id]'' = PropertyBinding ''id''
   \<and> classify ''(click)'' = EventListener ''click''
   \<and> classify ''@fade'' = AnimationTrigger ''@fade''
   \<and> classify ''role'' = StaticAttribute ''role''
   \<and> classify ''[a]@b'' = PropertyBinding ''a''
   \<and> classify ''x@t'' = AnimationTrigger ''@t''
   \<and> ''id'' \<in> set (obj_keys (properties (parseHostBindings
        [(''[id]'', ''ident''), (''(click)'', ''onClick()''), (''@fade'', ''state''),
         (''role'', ''listbox'')])))
   \<and> ''role'' \<notin> set (obj_keys (properties (parseHostBindings
        [(''[id]'', ''ident''), (''(click)'', ''onClick()''), (''@fade'', ''state''),
         (''role'', ''listbox'')])))
   \<and> ''role'' \<in> set (obj_keys (attributes (parseHostBindings
        [(''[id]'', ''ident''), (''(click)'', ''onClick()''), (''@fade'', ''state''),
         (''role'', ''listbox'')])))"
proof -
  note r = parseHostBindings_classes
  note P = r[THEN conjunct1]
  note E = r[THEN conjunct2, THEN conjunct1]
  note T = r[THEN conjunct2, THEN conjunct2, THEN conjunct1]
  note A = r[THEN conjunct2, THEN conjunct2, THEN conjunct2, THEN conjunct1]
  note O = r[THEN conjunct2, THEN conjunct2, THEN conjunct2, THEN conjunct2, THEN conjunct2,
             THEN conjunct1]
  have c: "list_all is_trigger_char ''fade''" "list_all is_trigger_char ''t''"
    by (simp_all add: is_trigger_char_def is_word_char_def code_unit_def)
  have 1: "classify ''[id]'' = PropertyBinding ''id''"
    unfolding P by simp
  have 2: "classify ''(click)'' = EventListener ''click''"
    unfolding E by simp
  have 3: "classify ''@fade'' = AnimationTrigger ''@fade''"
    unfolding T unfolding P E using c(1) by (auto intro!: exI[of _ "[]"] exI[of _ "''fade''"])
  have 5: "classify ''[a]@b'' = PropertyBinding ''a''"
    unfolding P by simp
  have 6: "classify ''x@t'' = AnimationTrigger ''@t''"
    unfolding T unfolding P E using c(2) by (auto intro!: exI[of _ "''x''"] exI[of _ "''t''"])
  have n: "CHR ''@'' \<notin> set ''role''" by simp
  have "\<forall>m. classify ''role'' \<noteq> AnimationTrigger m"
  proof (intro allI notI)
    fix m assume "classify ''role'' = AnimationTrigger m"
    then obtain pre x where "''role'' = pre @ ''@'' @ x"
      unfolding T by auto
    then have "CHR ''@'' \<in> set ''role''"
      by (metis append_Cons in_set_conv_decomp)
    with n show False by blast
  qed
  then have 4: "classify ''role'' = StaticAttribute ''role''"
    unfolding A unfolding P E by simp
  have i: "''id'' \<noteq> ''__proto__''" and ro: "''role'' \<noteq> ''__proto__''"
    by simp_all
  have 7: "''id'' \<in> set (obj_keys (properties (parseHostBindings
        [(''[id]'', ''ident''), (''(click)'', ''onClick()''), (''@fade'', ''state''),
         (''role'', ''listbox'')])))"
    unfolding O[rule_format, OF i, THEN conjunct2, THEN conjunct1]
    by (simp add: obj_keys_def 1)
  have 8: "''role'' \<notin> set (obj_keys (properties (parseHostBindings
        [(''[id]'', ''ident''), (''(click)'', ''onClick()''), (''@fade'', ''state''),
         (''role'', ''listbox'')])))"
    unfolding O[rule_format, OF ro, THEN conjunct2, THEN conjunct1]
    by (simp add: obj_keys_def 1 2 3 4)
  have 9: "''role'' \<in> set (obj_keys (attributes (parseHostBindings
        [(''[id]'', ''ident''), (''(click)'', ''onClick()''), (''@fade'', ''state''),
         (''role'', ''listbox'')])))"
    unfolding O[rule_format, OF ro, THEN conjunct1]
    by (simp add: obj_keys_def 4)
  show ?thesis using 1 2 3 4 5 6 7 8 9 by simp
qed

section \<open>Definition maps\<close>

lemma dm_get_dm_set_other: "k \<noteq> key \<Longrightarrow> dm_get (dm_set key v dm) k = dm_get dm k"
  by (auto simp: dm_get_def dm_set_def map_add_def split: option.splits)

lemma dm_get_dm_set_same: "dm_get dm key = None \<Longrightarrow> dm_get (dm_set key v dm) key = v"
  by (auto simp: dm_get_def dm_set_def map_add_def split: option.splits)

lemma dm_get_Nil: "dm_get [] k = None"
  by (simp add: dm_get_def)

lemma dm_get_if: "dm_get (if c then a else b) k = (if c then dm_get a k else dm_get b k)"
  by simp

lemma fst_if: "fst (if c then a else b) = (if c then fst a else fst b)"
  by simp

lemma dm_get_case_option:
  "dm_get (case x of None \<Rightarrow> a | Some y \<Rightarrow> b y) k
   = (case x of None \<Rightarrow> dm_get a k | Some y \<Rightarrow> dm_get (b y) k)"
  by (simp split: option.splits)

lemma case_option_same: "(case x of None \<Rightarrow> t | Some y \<Rightarrow> t) = t"
  by (cases x) auto

lemma definition_fields_toLiteralMap: "definition_fields (callFn f [toLiteralMap dm]) = dm"
  by (simp add: definition_fields_def callFn_def toLiteralMap_def literalMap_def case_prod_beta
      comp_def)

lemma definition_field_dm_get:
  "definition_field d k = dm_get (definition_fields (expression d)) k"
  by (simp add: definition_field_def dm_get_def)

lemma dm_get_addFeatures_other:
  "k \<noteq> ''features'' \<Longrightarrow> dm_get (addFeatures dm meta vp) k = dm_get dm k"
  by (simp add: addFeatures_def Let_def dm_get_dm_set_other)

lemmas dm_lookup =
  dm_get_dm_set_other dm_get_dm_set_same dm_get_Nil dm_get_if fst_if dm_get_case_option
  case_option_same dm_get_addFeatures_other definition_fields_toLiteralMap

text \<open>The shared base: a successful \<^verbatim>\<open>baseDirectiveFields\<close> returns the map of
  \<open>base_fields\<close>, and each of its fields is read off that map.\<close>

lemma baseDirectiveFields_Inr:
  fixes ext :: "('ast, 'dep, 'span, 'node, 'p) externals"
  assumes "baseDirectiveFields ext meta pool = Inr ((dm, stmts), pool')"
  shows "\<exists>hb.
    createHostBindingsFunction ext meta ''elIndex'' (variable CONTEXT_NAME)
       (snd (hostAttributes_loop meta))
       (snd (createContentQueriesFunction ext meta pool)) (initialHostVarsCount meta)
      = Inr (hb, pool')
    \<and> dm = base_fields ext meta (fst (createContentQueriesFunction ext meta pool))
             (createHostAttributesArray
                (fst (hostAttributes_loop meta :: string obj \<times> ('ast, 'span) StylingBuilder))) hb
    \<and> stmts = snd (compileFactoryFunction ext (name meta) (type meta) (deps meta)
                    R3_directiveInject)"
  using assms
  by (auto simp add: baseDirectiveFields_def base_fields_def hostAttributes_loop_def Let_def
      case_prod_beta split: sum.splits option.splits)

lemma base_fields_attributes:
  "dm_get (base_fields ext meta cq attrs hb) ''attributes'' = attrs"
  by (cases "exportAs meta") (simp_all add: base_fields_def dm_lookup)

lemma base_fields_inputs:
  "dm_get (base_fields ext meta cq attrs hb) ''inputs''
   = conditionallyCreateMapObjectLiteral (inputs meta) True"
  by (cases "exportAs meta") (simp_all add: base_fields_def dm_lookup)

lemma base_fields_outputs:
  "dm_get (base_fields ext meta cq attrs hb) ''outputs''
   = conditionallyCreateMapObjectLiteral (plain_names (outputs meta)) False"
  by (cases "exportAs meta") (simp_all add: base_fields_def dm_lookup)

lemma base_fields_hostBindings:
  "dm_get (base_fields ext meta cq attrs hb) ''hostBindings'' = hb"
  by (cases "exportAs meta") (simp_all add: base_fields_def dm_lookup)

lemma base_fields_other:
  "k \<notin> {''type'', ''selectors'', ''factory'', ''contentQueries'', ''contentQueriesRefresh'',
         ''attributes'', ''hostBindings'', ''inputs'', ''outputs'', ''exportAs''}
   \<Longrightarrow> dm_get (base_fields ext meta cq attrs hb) k = None"
  by (cases "exportAs meta") (simp_all add: base_fields_def dm_lookup)

text \<open>The definition of a directive and of a component.\<close>

lemma compileDirectiveFromMetadata_Inr:
  assumes "compileDirectiveFromMetadata ext meta pool = Inr (d, meta', pool')"
  shows "\<exists>dm stmts.
           baseDirectiveFields ext meta pool = Inr ((dm, stmts), pool')
         \<and> d = \<lparr>expression = callFn (importExpr R3_defineDirective)
                    [toLiteralMap (addFeatures dm meta None)],
                 type_R3Def = createTypeForDef ext meta R3_DirectiveDefWithMeta,
                 statements = stmts\<rparr>
         \<and> meta' = meta"
  using assms
  by (auto simp: compileDirectiveFromMetadata_def Let_def split: sum.splits)

text \<open>The two assignments to \<^verbatim>\<open>meta.encapsulation\<close> leave the metadata with the
  encapsulation of the default resolution, and with its other fields.\<close>

lemma componentStyleFields_meta:
  "snd (componentStyleFields ext meta dm8)
   = meta\<lparr>encapsulation := Some (resolveEncapsulation (encapsulation meta) (styles meta))\<rparr>"
proof (cases "encapsulation meta")
  case None
  then show ?thesis
    by (simp add: componentStyleFields_def resolveEncapsulation_def Let_def)
next
  case (Some e)
  then have m: "meta\<lparr>encapsulation := Some e\<rparr> = meta"
    by simp
  show ?thesis
  proof (cases "styles meta = [] \<and> e = Emulated")
    case True
    with Some show ?thesis
      by (simp add: componentStyleFields_def resolveEncapsulation_def Let_def)
  next
    case False
    with Some m show ?thesis
      by (auto simp: componentStyleFields_def resolveEncapsulation_def Let_def)
  qed
qed

lemma componentStyleFields_fst:
  "fst (componentStyleFields ext meta dm8)
   = (case changeDetection meta of
        None \<Rightarrow> (\<lambda>d. d)
      | Some cd \<Rightarrow> if cd \<noteq> Default
                   then dm_set ''changeDetection'' (Some (literal (LChangeDetection cd)))
                   else (\<lambda>d. d))
       ((case animations meta of
           None \<Rightarrow> (\<lambda>d. d)
         | Some a \<Rightarrow> dm_set ''data'' (Some (literalMap [(''animation'', a, False)])))
        ((if resolveEncapsulation (encapsulation meta) (styles meta) \<noteq> Emulated
          then dm_set ''encapsulation''
                 (Some (literal (LViewEncapsulation
                    (resolveEncapsulation (encapsulation meta) (styles meta)))))
          else (\<lambda>d. d))
         (if styles meta \<noteq> [] then
            dm_set ''styles''
              (Some (literalArr (map (\<lambda>str. literal (LStr str))
                 (if encapsulation meta = None \<or> encapsulation meta = Some Emulated
                  then compileStyles ext (styles meta) else styles meta)))) dm8
          else dm8)))"
proof (cases "encapsulation meta")
  case None
  then show ?thesis
    by (cases "changeDetection meta"; cases "animations meta"; cases "styles meta = []")
       (simp_all add: componentStyleFields_def resolveEncapsulation_def Let_def)
next
  case (Some e)
  then show ?thesis
    by (cases "changeDetection meta"; cases "animations meta"; cases "styles meta = []";
        cases "e = Emulated")
       (simp_all add: componentStyleFields_def resolveEncapsulation_def Let_def)
qed

lemma componentStyleFields_encapsulation:
  "dm_get dm8 ''encapsulation'' = None \<Longrightarrow>
   dm_get (fst (componentStyleFields ext meta dm8)) ''encapsulation''
   = (if resolveEncapsulation (encapsulation meta) (styles meta) = Emulated then None
      else Some (literal (LViewEncapsulation
             (resolveEncapsulation (encapsulation meta) (styles meta)))))"
  unfolding componentStyleFields_fst
  by (cases "changeDetection meta"; cases "animations meta")
     (simp_all add: dm_lookup)

lemma componentStyleFields_other:
  "k \<notin> {''styles'', ''encapsulation'', ''data'', ''changeDetection''} \<Longrightarrow>
   dm_get (fst (componentStyleFields ext meta dm8)) k = dm_get dm8 k"
  unfolding componentStyleFields_fst
  by (cases "changeDetection meta"; cases "animations meta")
     (simp_all add: dm_lookup)

lemma componentTemplateFields_other:
  "k \<notin> {''features'', ''attrs'', ''viewQuery'', ''consts'', ''vars'', ''template'',
         ''directives'', ''pipes''} \<Longrightarrow>
   dm_get (fst (componentTemplateFields ext meta dm0 pool1)) k = dm_get dm0 k"
  by (simp add: componentTemplateFields_def Let_def case_prod_beta dm_lookup)

lemma compileComponentFromMetadata_Inr:
  assumes "compileComponentFromMetadata ext meta pool = Inr (d, meta', pool')"
  shows "\<exists>dm stmts pool1.
           baseDirectiveFields ext meta pool = Inr ((dm, stmts), pool1)
         \<and> d = \<lparr>expression = callFn (importExpr R3_defineComponent)
                    [toLiteralMap (fst (componentStyleFields ext meta
                       (fst (componentTemplateFields ext meta dm pool1))))],
                 type_R3Def = createTypeForDef ext meta R3_ComponentDefWithMeta,
                 statements = stmts\<rparr>
         \<and> meta' = meta\<lparr>encapsulation :=
                      Some (resolveEncapsulation (encapsulation meta) (styles meta))\<rparr>
         \<and> pool' = snd (componentTemplateFields ext meta dm pool1)"
  using assms
  by (auto simp: compileComponentFromMetadata_def Let_def case_prod_beta componentStyleFields_meta
      split: sum.splits)

text \<open>A field of the shared base is the same field of the definition of the directive and
  of the component.\<close>

lemma directive_field:
  assumes "compileDirectiveFromMetadata ext meta pool = Inr (d, meta', pool')"
    and "k \<noteq> ''features''"
  shows "\<exists>dm stmts. baseDirectiveFields ext meta pool = Inr ((dm, stmts), pool')
           \<and> definition_field d k = dm_get dm k"
  using compileDirectiveFromMetadata_Inr[OF assms(1)] assms(2)
  by (auto simp: definition_field_dm_get dm_lookup)

lemma component_field:
  assumes "compileComponentFromMetadata ext meta pool = Inr (d, meta', pool')"
    and "k \<notin> {''features'', ''attrs'', ''viewQuery'', ''consts'', ''vars'', ''template'',
                ''directives'', ''pipes'', ''styles'', ''encapsulation'', ''data'',
                ''changeDetection''}"
  shows "\<exists>dm stmts pool1. baseDirectiveFields ext meta pool = Inr ((dm, stmts), pool1)
           \<and> definition_field d k = dm_get dm k"
  using compileComponentFromMetadata_Inr[OF assms(1)] assms(2)
  by (auto simp: definition_field_dm_get definition_fields_toLiteralMap
      componentStyleFields_other componentTemplateFields_other)

section \<open>Inputs and outputs\<close>

lemma mapObjectLiteral_always:
  "conditionallyCreateMapObjectLiteral ob True = Some (mapToExpression ob)"
  by (simp add: conditionallyCreateMapObjectLiteral_def)

lemma mapObjectLiteral_nonempty:
  "conditionallyCreateMapObjectLiteral (plain_names ob) False
   = (if ob = [] then None else Some (mapToExpression (plain_names ob)))"
  by (simp add: conditionallyCreateMapObjectLiteral_def plain_names_def obj_keys_def)

lemma base_inputs_outputs:
  fixes ext :: "('ast, 'dep, 'span, 'node, 'p) externals"
  assumes "baseDirectiveFields ext meta pool = Inr ((dm, stmts), pool')"
  shows "dm_get dm ''inputs'' = Some (mapToExpression (inputs meta))"
    and "dm_get dm ''outputs''
         = (if outputs meta = [] then None else Some (mapToExpression (plain_names (outputs meta))))"
  using baseDirectiveFields_Inr[OF assms]
  by (auto simp: base_fields_inputs base_fields_outputs mapObjectLiteral_always
      mapObjectLiteral_nonempty)

text \<open>
  C7.  The \<^verbatim>\<open>inputs\<close> field of the definition of a directive and of a component is always
  emitted, also for an empty inputs map; the \<^verbatim>\<open>outputs\<close> field is emitted only when the
  outputs map is not empty.  \<^verbatim>\<open>baseDirectiveFields\<close> sets the two fields with
  \<^verbatim>\<open>conditionallyCreateMapObjectLiteral\<close>, with the second argument \<^verbatim>\<open>true\<close> for the
  inputs only; what that helper does with it is modelled from the spec.
\<close>

theorem inputs_always_outputs_nonempty:
  fixes ext :: "('ast, 'dep, 'span, 'node, 'p) externals"
  shows "(compileDirectiveFromMetadata ext meta pool = Inr (d, meta', pool') \<longrightarrow>
            definition_field d ''inputs'' = Some (mapToExpression (inputs meta))
          \<and> definition_field d ''outputs''
              = (if outputs meta = [] then None
                 else Some (mapToExpression (plain_names (outputs meta)))))
       \<and> (compileComponentFromMetadata ext cmeta cpool = Inr (cd, cmeta', cpool') \<longrightarrow>
            definition_field cd ''inputs'' = Some (mapToExpression (inputs cmeta))
          \<and> definition_field cd ''outputs''
              = (if outputs cmeta = [] then None
                 else Some (mapToExpression (plain_names (outputs cmeta)))))"
proof (intro conjI impI)
  assume a: "compileDirectiveFromMetadata ext meta pool = Inr (d, meta', pool')"
  show "definition_field d ''inputs'' = Some (mapToExpression (inputs meta))"
    using directive_field[OF a, of "''inputs''"] base_inputs_outputs(1) by fastforce
  show "definition_field d ''outputs''
        = (if outputs meta = [] then None else Some (mapToExpression (plain_names (outputs meta))))"
    using directive_field[OF a, of "''outputs''"] base_inputs_outputs(2) by fastforce
next
  assume a: "compileComponentFromMetadata ext cmeta cpool = Inr (cd, cmeta', cpool')"
  show "definition_field cd ''inputs'' = Some (mapToExpression (inputs cmeta))"
    using component_field[OF a, of "''inputs''"] base_inputs_outputs(1) by fastforce
  show "definition_field cd ''outputs''
        = (if outputs cmeta = [] then None
           else Some (mapToExpression (plain_names (outputs cmeta))))"
    using component_field[OF a, of "''outputs''"] base_inputs_outputs(2) by fastforce
qed

text \<open>The directive with the inputs \<^verbatim>\<open>{foo: 'foo'}\<close> and no outputs, and the component
  with no inputs and the outputs \<^verbatim>\<open>{change: 'change'}\<close>.\<close>

theorem inputs_always_outputs_nonempty_witness:
  "\<not> isl (compileDirectiveFromMetadata sample_externals
            (sample_directive\<lparr>inputs := [(''foo'', Inl ''foo'')], outputs := []\<rparr>) [])
   \<and> definition_field
        (fst (projr (compileDirectiveFromMetadata sample_externals
           (sample_directive\<lparr>inputs := [(''foo'', Inl ''foo'')], outputs := []\<rparr>) [])))
        ''inputs''
      = Some (literalMap [(''foo'', literal (LStr ''foo''), False)])
   \<and> definition_field
        (fst (projr (compileDirectiveFromMetadata sample_externals
           (sample_directive\<lparr>inputs := [(''foo'', Inl ''foo'')], outputs := []\<rparr>) [])))
        ''outputs''
      = None
   \<and> \<not> isl (compileComponentFromMetadata sample_externals
            (sample_component\<lparr>inputs := [], outputs := [(''change'', ''change'')]\<rparr>) [])
   \<and> definition_field
        (fst (projr (compileComponentFromMetadata sample_externals
           (sample_component\<lparr>inputs := [], outputs := [(''change'', ''change'')]\<rparr>) [])))
        ''inputs''
      = Some (literalMap [])
   \<and> definition_field
        (fst (projr (compileComponentFromMetadata sample_externals
           (sample_component\<lparr>inputs := [], outputs := [(''change'', ''change'')]\<rparr>) [])))
        ''outputs''
      = Some (literalMap [(''change'', literal (LStr ''change''), False)])"
proof -
  let ?m = "sample_directive\<lparr>inputs := [(''foo'', Inl ''foo'')], outputs := []\<rparr>"
  let ?c = "sample_component\<lparr>inputs := [], outputs := [(''change'', ''change'')]\<rparr>"
  have ok: "\<not> isl (compileDirectiveFromMetadata sample_externals ?m [])"
    by (simp add: string_defs object_defs ast_defs styling_defs host_defs query_defs
        definition_defs sample_defs Let_def)
  then obtain d m p where e: "compileDirectiveFromMetadata sample_externals ?m [] = Inr (d, m, p)"
    by (cases "compileDirectiveFromMetadata sample_externals ?m []") auto
  have okc: "\<not> isl (compileComponentFromMetadata sample_externals ?c [])"
    by (simp add: string_defs object_defs ast_defs styling_defs host_defs query_defs
        definition_defs sample_defs Let_def)
  then obtain cd cm cp
    where ec: "compileComponentFromMetadata sample_externals ?c [] = Inr (cd, cm, cp)"
    by (cases "compileComponentFromMetadata sample_externals ?c []") auto
  from inputs_always_outputs_nonempty[THEN conjunct1, rule_format, OF e]
  have 1: "definition_field d ''inputs''
           = Some (literalMap [(''foo'', literal (LStr ''foo''), False)])"
    and 2: "definition_field d ''outputs'' = None"
    by (simp_all add: sample_defs mapToExpression_def input_literal_def)
  from inputs_always_outputs_nonempty[THEN conjunct2, rule_format, OF ec]
  have 3: "definition_field cd ''inputs'' = Some (literalMap [])"
    and 4: "definition_field cd ''outputs''
            = Some (literalMap [(''change'', literal (LStr ''change''), False)])"
    by (simp_all add: sample_defs mapToExpression_def input_literal_def plain_names_def)
  from ok okc 1 2 3 4 show ?thesis
    unfolding e ec by simp
qed

section \<open>Host attributes\<close>

lemma obj_insert_last:
  "\<forall>k' \<in> set (map fst ob). key_before k' k \<Longrightarrow> obj_insert k v ob = ob @ [(k, v)]"
  by (induction k v ob rule: obj_insert.induct) (auto simp: key_before_def split: option.splits)

lemma obj_set_last:
  assumes "wf_obj (ob @ [(k, v)])" and "k \<noteq> ''__proto__''"
  shows "obj_set ob k v = ob @ [(k, v)]"
proof -
  from assms(1) have d: "k \<notin> set (obj_keys ob)"
    and b: "\<forall>k' \<in> set (map fst ob). key_before k' k"
    by (auto simp: wf_obj_def obj_keys_def keys_ordered_def sorted_wrt_append)
  show ?thesis using d obj_insert_last[OF b] by (simp add: obj_set_other[OF assms(2)])
qed

lemma wf_obj_prefix: "wf_obj (xs @ ys) \<Longrightarrow> wf_obj xs"
  by (auto simp: wf_obj_def obj_keys_def keys_ordered_def sorted_wrt_append)

lemma wf_obj_filter: "wf_obj ob \<Longrightarrow> wf_obj (filter P ob)"
  unfolding wf_obj_def obj_keys_def keys_ordered_def
  by (auto simp: distinct_map_filter sorted_wrt_map sorted_wrt_filter)

text \<open>The loop keeps the plain attributes in their order, when none is named
  \<^verbatim>\<open>__proto__\<close>, and hands the values of \<^verbatim>\<open>style\<close> and \<^verbatim>\<open>class\<close> to the styling
  builder.\<close>

lemma fold_hostAttribute_fst:
  "wf_obj (acc @ filter plain_attribute attrs) \<Longrightarrow> ''__proto__'' \<notin> fst ` set attrs \<Longrightarrow>
   fst (fold hostAttribute_step attrs (acc, sb)) = acc @ filter plain_attribute attrs"
proof (induction attrs arbitrary: acc sb)
  case Nil
  then show ?case by simp
next
  case (Cons kv attrs)
  obtain k v where kv: "kv = (k, v)" by (cases kv)
  from Cons.prems(2) have np: "k \<noteq> ''__proto__''" and rest: "''__proto__'' \<notin> fst ` set attrs"
    unfolding kv by auto
  show ?case
  proof (cases "plain_attribute kv")
    case True
    with Cons.prems(1) have w: "wf_obj ((acc @ [(k, v)]) @ filter plain_attribute attrs)"
      by (simp add: kv)
    have s: "obj_set acc k v = acc @ [(k, v)]"
      by (rule obj_set_last[OF wf_obj_prefix[OF w] np])
    from True have "hostAttribute_step kv (acc, sb) = (acc @ [(k, v)], sb)"
      by (simp add: hostAttribute_step_def plain_attribute_def kv s)
    then show ?thesis using Cons.IH[OF w rest] True by (simp add: kv)
  next
    case False
    then obtain sb' where "hostAttribute_step kv (acc, sb) = (acc, sb')"
      by (auto simp: hostAttribute_step_def plain_attribute_def Let_def)
    then show ?thesis using Cons.IH[of acc sb', OF _ rest] Cons.prems(1) False by simp
  qed
qed

lemma hostAttribute_step_snd:
  "snd (hostAttribute_step (k, v) (acc, sb))
   = (if k = ''style'' then sb\<lparr>styleAttr := Some v\<rparr>
      else if k = ''class'' then sb\<lparr>classAttr := Some v\<rparr> else sb)"
  by (simp add: hostAttribute_step_def registerStyleAttr_def registerClassAttr_def)

lemma fold_hostAttribute_snd:
  "distinct (map fst attrs) \<Longrightarrow>
   snd (fold hostAttribute_step attrs (acc, sb))
   = sb\<lparr>styleAttr := (case map_of attrs ''style'' of Some v \<Rightarrow> Some v | None \<Rightarrow> styleAttr sb),
         classAttr := (case map_of attrs ''class'' of Some v \<Rightarrow> Some v | None \<Rightarrow> classAttr sb)\<rparr>"
proof (induction attrs arbitrary: acc sb)
  case Nil
  then show ?case by simp
next
  case (Cons kv attrs)
  obtain k v where kv: "kv = (k, v)" by (cases kv)
  obtain acc' sb' where st: "hostAttribute_step (k, v) (acc, sb) = (acc', sb')"
    by (cases "hostAttribute_step (k, v) (acc, sb)")
  from Cons.prems have d: "distinct (map fst attrs)" and n: "k \<notin> fst ` set attrs"
    by (auto simp: kv)
  from n have m: "map_of attrs k = None" by (simp add: map_of_eq_None_iff)
  have sb': "sb' = (if k = ''style'' then sb\<lparr>styleAttr := Some v\<rparr>
      else if k = ''class'' then sb\<lparr>classAttr := Some v\<rparr> else sb)"
    using hostAttribute_step_snd[of k v acc sb] st by simp
  have "snd (fold hostAttribute_step (kv # attrs) (acc, sb))
        = snd (fold hostAttribute_step attrs (acc', sb'))"
    by (simp add: kv st)
  also have "\<dots> = sb'\<lparr>styleAttr := (case map_of attrs ''style'' of Some v \<Rightarrow> Some v
                                      | None \<Rightarrow> styleAttr sb'),
              classAttr := (case map_of attrs ''class'' of Some v \<Rightarrow> Some v
                            | None \<Rightarrow> classAttr sb')\<rparr>"
    by (rule Cons.IH[OF d])
  also have "\<dots> = sb\<lparr>styleAttr := (case map_of ((k, v) # attrs) ''style'' of Some v \<Rightarrow> Some v
                                      | None \<Rightarrow> styleAttr sb),
              classAttr := (case map_of ((k, v) # attrs) ''class'' of Some v \<Rightarrow> Some v
                            | None \<Rightarrow> classAttr sb)\<rparr>"
  proof (cases "k = ''style''")
    case True
    with m show ?thesis by (simp add: sb' cong: option.case_cong)
  next
    case False
    note ns = this
    show ?thesis
    proof (cases "k = ''class''")
      case True
      with m ns show ?thesis by (simp add: sb' cong: option.case_cong)
    next
      case False
      with ns show ?thesis by (simp add: sb' cong: option.case_cong)
    qed
  qed
  finally show ?case by (simp add: kv)
qed

lemma hostAttributes_loop_wf:
  assumes "wf_obj (attributes (host meta))"
  shows "''__proto__'' \<notin> set (obj_keys (attributes (host meta)))
         \<Longrightarrow> fst (hostAttributes_loop meta) = filter plain_attribute (attributes (host meta))"
    and "snd (hostAttributes_loop meta)
         = (new_StylingBuilder (variable ''elIndex'') (variable CONTEXT_NAME))
             \<lparr>styleAttr := obj_get (attributes (host meta)) ''style'',
              classAttr := obj_get (attributes (host meta)) ''class''\<rparr>"
proof -
  from assms have w: "wf_obj ([] @ filter plain_attribute (attributes (host meta)))"
    by (simp add: wf_obj_filter)
  show "fst (hostAttributes_loop meta) = filter plain_attribute (attributes (host meta))"
    if "''__proto__'' \<notin> set (obj_keys (attributes (host meta)))"
    unfolding hostAttributes_loop_def using fold_hostAttribute_fst[OF w] that
    by (simp add: obj_keys_def)
  from assms have d: "distinct (map fst (attributes (host meta)))"
    by (simp add: wf_obj_def obj_keys_def)
  show "snd (hostAttributes_loop meta)
         = (new_StylingBuilder (variable ''elIndex'') (variable CONTEXT_NAME))
             \<lparr>styleAttr := obj_get (attributes (host meta)) ''style'',
              classAttr := obj_get (attributes (host meta)) ''class''\<rparr>"
    unfolding hostAttributes_loop_def fold_hostAttribute_snd[OF d]
    by (simp add: new_StylingBuilder_def obj_get_def split: option.splits)
qed

text \<open>
  For a host attribute object without a property named \<^verbatim>\<open>__proto__\<close>, the static host
  attributes other than \<^verbatim>\<open>style\<close> and \<^verbatim>\<open>class\<close> are the \<^verbatim>\<open>attributes\<close> field of the
  definition map: a flat literal array of the names and values, alternating, in the
  property order of the input; the field is omitted when there is no such attribute.  The
  values of \<^verbatim>\<open>style\<close> and \<^verbatim>\<open>class\<close> are not in the array: they are the static style and
  class of the styling builder that the host bindings function is compiled with.
\<close>

lemma host_attributes_array:
  fixes ext :: "('ast, 'dep, 'span, 'node, 'p) externals"
  assumes "baseDirectiveFields ext meta pool = Inr ((dm, stmts), pool')"
    and "wf_obj (attributes (host meta))"
    and "''__proto__'' \<notin> set (obj_keys (attributes (host meta)))"
  shows "dm_get dm ''attributes''
         = (if filter plain_attribute (attributes (host meta)) = [] then None
            else Some (literalArr (concat (map (\<lambda>(key, v). [literal (LStr key), literal (LStr v)])
                         (filter plain_attribute (attributes (host meta)))))))
       \<and> (\<exists>pool1. createHostBindingsFunction ext meta ''elIndex'' (variable CONTEXT_NAME)
              ((new_StylingBuilder (variable ''elIndex'') (variable CONTEXT_NAME))
                 \<lparr>styleAttr := obj_get (attributes (host meta)) ''style'',
                  classAttr := obj_get (attributes (host meta)) ''class''\<rparr>)
              pool1 (initialHostVarsCount meta)
            = Inr (dm_get dm ''hostBindings'', pool'))"
proof -
  from baseDirectiveFields_Inr[OF assms(1)] obtain hb where
    h: "createHostBindingsFunction ext meta ''elIndex'' (variable CONTEXT_NAME)
          (snd (hostAttributes_loop meta))
          (snd (createContentQueriesFunction ext meta pool)) (initialHostVarsCount meta)
        = Inr (hb, pool')"
    and d: "dm = base_fields ext meta (fst (createContentQueriesFunction ext meta pool))
             (createHostAttributesArray
                (fst (hostAttributes_loop meta :: string obj \<times> ('ast, 'span) StylingBuilder))) hb"
    by blast
  have a: "dm_get dm ''attributes''
         = (if filter plain_attribute (attributes (host meta)) = [] then None
            else Some (literalArr (concat (map (\<lambda>(key, v). [literal (LStr key), literal (LStr v)])
                         (filter plain_attribute (attributes (host meta)))))))"
    unfolding d base_fields_attributes hostAttributes_loop_wf(1)[OF assms(2,3)]
    by (cases "filter plain_attribute (attributes (host meta))")
       (auto simp: createHostAttributesArray_def Let_def)
  have b: "dm_get dm ''hostBindings'' = hb"
    unfolding d by (rule base_fields_hostBindings)
  show ?thesis
    using a h unfolding b hostAttributes_loop_wf(2)[OF assms(2)] by blast
qed

lemma host_attributes_array_example:
  "dm_get (fst (fst (projr (baseDirectiveFields sample_externals
              (sample_directive\<lparr>host :=
                 \<lparr>attributes = [(''role'', ''listbox''), (''style'', ''color: red''),
                                (''class'', ''big''), (''tabindex'', ''0'')],
                  listeners = [], properties = []\<rparr>\<rparr>) [])))) ''attributes''
     = Some (literalArr [literal (LStr ''role''), literal (LStr ''listbox''),
                         literal (LStr ''tabindex''), literal (LStr ''0'')])"
proof -
  let ?a = "[(''role'', ''listbox''), (''style'', ''color: red''), (''class'', ''big''),
             (''tabindex'', ''0'')]"
  let ?m = "sample_directive\<lparr>host := \<lparr>attributes = ?a, listeners = [], properties = []\<rparr>\<rparr>"
  have w: "wf_obj (attributes (host ?m))"
    by (simp add: sample_defs wf_obj_def keys_ordered_def key_before_def object_defs string_defs)
  have n: "''__proto__'' \<notin> set (obj_keys (attributes (host ?m)))"
    by (simp add: sample_defs obj_keys_def)
  have ok: "\<not> isl (baseDirectiveFields sample_externals ?m [])"
    by (simp add: string_defs object_defs ast_defs styling_defs host_defs query_defs
        definition_defs sample_defs Let_def)
  then obtain dm st p where e: "baseDirectiveFields sample_externals ?m [] = Inr ((dm, st), p)"
    by (cases "baseDirectiveFields sample_externals ?m []") auto
  from host_attributes_array[OF e w n, THEN conjunct1]
  have "dm_get dm ''attributes''
     = Some (literalArr [literal (LStr ''role''), literal (LStr ''listbox''),
                         literal (LStr ''tabindex''), literal (LStr ''0'')])"
    by (simp add: sample_defs plain_attribute_def)
  then show ?thesis unfolding e by simp
qed

text \<open>
  C10.  The claim fails for a static host attribute that is named \<^verbatim>\<open>__proto__\<close>.  The
  loop of \<^verbatim>\<open>baseDirectiveFields\<close> copies every attribute other than \<^verbatim>\<open>style\<close> and
  \<^verbatim>\<open>class\<close> with \<^verbatim>\<open>allOtherAttributes[attr] = value\<close>, and for this name the
  assignment creates no property.  The host attributes \<^verbatim>\<open>__proto__\<close> and \<^verbatim>\<open>role\<close>, both
  neither \<^verbatim>\<open>style\<close> nor \<^verbatim>\<open>class\<close>, give the array of \<^verbatim>\<open>role\<close> alone; the host
  attribute \<^verbatim>\<open>__proto__\<close> alone gives no \<^verbatim>\<open>attributes\<close> field.
\<close>

theorem host_attribute_proto_dropped:
  "wf_obj [(''__proto__'', ''x''), (''role'', ''listbox'')]
   \<and> plain_attribute (''__proto__'', ''x'')
   \<and> \<not> isl (baseDirectiveFields sample_externals
              (sample_directive\<lparr>host :=
                 \<lparr>attributes = [(''__proto__'', ''x''), (''role'', ''listbox'')],
                  listeners = [], properties = []\<rparr>\<rparr>) [])
   \<and> dm_get (fst (fst (projr (baseDirectiveFields sample_externals
              (sample_directive\<lparr>host :=
                 \<lparr>attributes = [(''__proto__'', ''x''), (''role'', ''listbox'')],
                  listeners = [], properties = []\<rparr>\<rparr>) [])))) ''attributes''
     = Some (literalArr [literal (LStr ''role''), literal (LStr ''listbox'')])
   \<and> \<not> isl (baseDirectiveFields sample_externals
              (sample_directive\<lparr>host :=
                 \<lparr>attributes = [(''__proto__'', ''x'')], listeners = [], properties = []\<rparr>\<rparr>) [])
   \<and> dm_get (fst (fst (projr (baseDirectiveFields sample_externals
              (sample_directive\<lparr>host :=
                 \<lparr>attributes = [(''__proto__'', ''x'')], listeners = [], properties = []\<rparr>\<rparr>) []))))
        ''attributes''
     = None"
  by (simp add: string_defs object_defs ast_defs styling_defs host_defs query_defs
      definition_defs sample_defs wf_obj_def keys_ordered_def key_before_def
      plain_attribute_def Let_def)

section \<open>Encapsulation\<close>

text \<open>The shared base and the template fields do not read the encapsulation.\<close>

lemma createHostListener_encapsulation:
  "createHostListener ex ctx (meta\<lparr>encapsulation := e\<rparr>) = createHostListener ex ctx meta"
  by (rule ext) (simp add: createHostListener_def cong: converted.case_cong)

lemma createHostBindingsFunction_encapsulation:
  "createHostBindingsFunction ext (meta\<lparr>encapsulation := e\<rparr>) el ctx sb pool n
   = createHostBindingsFunction ext meta el ctx sb pool n"
  by (simp add: createHostBindingsFunction_def metadataAsSummary_def createHostListeners_def
      createHostListener_encapsulation
      cong: option.case_cong sum.case_cong prod.case_cong converted.case_cong if_cong)

lemma baseDirectiveFields_encapsulation:
  "baseDirectiveFields ext (meta\<lparr>encapsulation := e\<rparr>) pool = baseDirectiveFields ext meta pool"
  by (simp add: baseDirectiveFields_def createContentQueriesFunction_def
      createContentQueriesRefreshFunction_def initialHostVarsCount_def
      createHostBindingsFunction_encapsulation
      cong: option.case_cong sum.case_cong prod.case_cong if_cong)

lemma componentTemplateFields_encapsulation:
  "componentTemplateFields ext (meta\<lparr>encapsulation := e\<rparr>) dm pool
   = componentTemplateFields ext meta dm pool"
  by (simp add: componentTemplateFields_def addFeatures_def createViewQueriesFunction_def
      cong: option.case_cong sum.case_cong prod.case_cong list.case_cong if_cong)

lemma createTypeForDef_encapsulation:
  "createTypeForDef ext (meta\<lparr>encapsulation := e\<rparr>) b = createTypeForDef ext meta b"
  by (simp add: createTypeForDef_def cong: option.case_cong)

lemma componentStyleFields_no_styles:
  "styles meta = [] \<Longrightarrow>
   componentStyleFields ext (meta\<lparr>encapsulation := Some None_ViewEncapsulation\<rparr>) dm
   = componentStyleFields ext (meta\<lparr>encapsulation := Some Emulated\<rparr>) dm"
  by (simp add: componentStyleFields_def resolveEncapsulation_def Let_def
      cong: option.case_cong if_cong)

lemma compileComponent_no_styles:
  "styles meta = [] \<Longrightarrow>
   compileComponentFromMetadata ext (meta\<lparr>encapsulation := Some None_ViewEncapsulation\<rparr>) pool
   = compileComponentFromMetadata ext (meta\<lparr>encapsulation := Some Emulated\<rparr>) pool"
  by (simp add: compileComponentFromMetadata_def baseDirectiveFields_encapsulation
      componentTemplateFields_encapsulation createTypeForDef_encapsulation
      componentStyleFields_no_styles cong: sum.case_cong prod.case_cong)

lemma component_encapsulation_field:
  fixes ext :: "('ast, 'dep, 'span, 'node, 'p) externals"
  assumes "compileComponentFromMetadata ext meta pool = Inr (d, meta', pool')"
  shows "definition_field d ''encapsulation''
         = (if resolveEncapsulation (encapsulation meta) (styles meta) = Emulated then None
            else Some (literal (LViewEncapsulation
                   (resolveEncapsulation (encapsulation meta) (styles meta)))))"
proof -
  from compileComponentFromMetadata_Inr[OF assms] obtain dm stmts pool1 where
    b: "baseDirectiveFields ext meta pool = Inr ((dm, stmts), pool1)"
    and d: "d = \<lparr>expression = callFn (importExpr R3_defineComponent)
                    [toLiteralMap (fst (componentStyleFields ext meta
                       (fst (componentTemplateFields ext meta dm pool1))))],
                 type_R3Def = createTypeForDef ext meta R3_ComponentDefWithMeta,
                 statements = stmts\<rparr>"
    by blast
  from baseDirectiveFields_Inr[OF b] have "dm_get dm ''encapsulation'' = None"
    by (auto simp: base_fields_other)
  then have "dm_get (fst (componentTemplateFields ext meta dm pool1)) ''encapsulation'' = None"
    by (simp add: componentTemplateFields_other)
  then show ?thesis
    unfolding d
    by (simp add: definition_field_dm_get definition_fields_toLiteralMap
        componentStyleFields_encapsulation)
qed

text \<open>
  C3, as stated, fails.  The component with the encapsulation \<^verbatim>\<open>Emulated\<close> and no styles
  compiles to a definition in which the field \<^verbatim>\<open>encapsulation\<close> is present, with the
  value \<^verbatim>\<open>None\<close>; it is not omitted.
\<close>

theorem encapsulation_omitted_counterexample:
  "encapsulation sample_component = Some Emulated
   \<and> styles sample_component = []
   \<and> \<not> isl (compileComponentFromMetadata sample_externals sample_component [])
   \<and> definition_field
        (fst (projr (compileComponentFromMetadata sample_externals sample_component [])))
        ''encapsulation''
      = Some (literal (LViewEncapsulation None_ViewEncapsulation))"
  by (simp add: string_defs object_defs ast_defs styling_defs host_defs query_defs
      definition_defs sample_defs reading_defs Let_def)

text \<open>
  C3, amended.  Compiling a component with the encapsulation \<^verbatim>\<open>Emulated\<close> and an empty
  style list resolves the encapsulation to \<^verbatim>\<open>None\<close> and emits the field
  \<^verbatim>\<open>encapsulation\<close> with that value (the field is omitted only for \<^verbatim>\<open>Emulated\<close>); the
  result is the one obtained by passing the encapsulation \<^verbatim>\<open>None\<close> with no styles.
\<close>

theorem encapsulation_default_resolution:
  fixes ext :: "('ast, 'dep, 'span, 'node, 'p) externals"
  assumes "compileComponentFromMetadata ext meta pool = Inr (d, meta', pool')"
    and "styles meta = []"
    and "encapsulation meta = Some Emulated"
  shows "encapsulation meta' = Some None_ViewEncapsulation
       \<and> definition_field d ''encapsulation''
           = Some (literal (LViewEncapsulation None_ViewEncapsulation))
       \<and> compileComponentFromMetadata ext
            (meta\<lparr>encapsulation := Some None_ViewEncapsulation\<rparr>) pool
           = Inr (d, meta', pool')"
proof -
  have r: "resolveEncapsulation (encapsulation meta) (styles meta) = None_ViewEncapsulation"
    using assms(2,3) by (simp add: resolveEncapsulation_def)
  from compileComponentFromMetadata_Inr[OF assms(1)]
  have 1: "encapsulation meta' = Some None_ViewEncapsulation"
    using r by auto
  have 2: "definition_field d ''encapsulation''
           = Some (literal (LViewEncapsulation None_ViewEncapsulation))"
    using component_encapsulation_field[OF assms(1)] r by simp
  have "meta\<lparr>encapsulation := Some Emulated\<rparr> = meta"
    using assms(3) by simp
  then have 3: "compileComponentFromMetadata ext
            (meta\<lparr>encapsulation := Some None_ViewEncapsulation\<rparr>) pool
           = Inr (d, meta', pool')"
    using compileComponent_no_styles[OF assms(2), of ext pool] assms(1) by simp
  from 1 2 3 show ?thesis by simp
qed

theorem encapsulation_default_resolution_witness:
  "styles sample_component = []
   \<and> encapsulation sample_component = Some Emulated
   \<and> \<not> isl (compileComponentFromMetadata sample_externals sample_component [])
   \<and> compileComponentFromMetadata sample_externals
        (sample_component\<lparr>encapsulation := Some None_ViewEncapsulation\<rparr>) []
      = compileComponentFromMetadata sample_externals sample_component []
   \<and> encapsulation
        (fst (snd (projr (compileComponentFromMetadata sample_externals sample_component []))))
      = Some None_ViewEncapsulation"
proof -
  have s: "styles sample_component = []" and n: "encapsulation sample_component = Some Emulated"
    by (simp_all add: sample_defs)
  have ok: "\<not> isl (compileComponentFromMetadata sample_externals sample_component [])"
    by (simp add: string_defs object_defs ast_defs styling_defs host_defs query_defs
        definition_defs sample_defs Let_def)
  then obtain d m p
    where e: "compileComponentFromMetadata sample_externals sample_component [] = Inr (d, m, p)"
    by (cases "compileComponentFromMetadata sample_externals sample_component []") auto
  from encapsulation_default_resolution[OF e s n] s n ok e show ?thesis by simp
qed

section \<open>The input metadata\<close>

text \<open>
  The state that a compilation can write is the caller's metadata object and constant
  pool; both are part of the result, as they are after the call, next to the definition
  with its statement list.
\<close>

lemma encapsulation_restored:
  "(meta\<lparr>encapsulation := e\<rparr>)\<lparr>encapsulation := encapsulation meta\<rparr> = meta"
  by simp

text \<open>
  C9, as stated, fails.  After the compilation of the component with the encapsulation
  \<^verbatim>\<open>Emulated\<close> and no styles, the encapsulation of the metadata is \<^verbatim>\<open>None\<close>: the
  metadata is not what it was before the call.
\<close>

theorem metadata_unchanged_counterexample:
  "\<not> isl (compileComponentFromMetadata sample_externals sample_component [])
   \<and> encapsulation sample_component = Some Emulated
   \<and> encapsulation
        (fst (snd (projr (compileComponentFromMetadata sample_externals sample_component []))))
      = Some None_ViewEncapsulation
   \<and> fst (snd (projr (compileComponentFromMetadata sample_externals sample_component [])))
      \<noteq> sample_component"
proof -
  have ok: "\<not> isl (compileComponentFromMetadata sample_externals sample_component [])"
    by (simp add: string_defs object_defs ast_defs styling_defs host_defs query_defs
        definition_defs sample_defs Let_def)
  then obtain d m p
    where e: "compileComponentFromMetadata sample_externals sample_component [] = Inr (d, m, p)"
    by (cases "compileComponentFromMetadata sample_externals sample_component []") auto
  have n: "encapsulation sample_component = Some Emulated"
    by (simp add: sample_defs)
  from compileComponentFromMetadata_Inr[OF e]
  have m: "encapsulation m = Some None_ViewEncapsulation"
    by (auto simp: sample_defs resolveEncapsulation_def)
  with n have "m \<noteq> sample_component" by auto
  with ok e n m show ?thesis by simp
qed

text \<open>
  C9, amended.  The one field of the input metadata that a compilation writes is the
  encapsulation of a component.  \<^verbatim>\<open>compileComponentFromMetadata\<close> leaves in it
  \<^verbatim>\<open>Emulated\<close> when it was not set and the component has styles, and \<^verbatim>\<open>None\<close> when it
  was not set, or was \<^verbatim>\<open>Emulated\<close>, and the component has no styles; when it was set and
  is not \<^verbatim>\<open>Emulated\<close>, or the component has styles, the metadata after the call is the
  metadata before.  Every other field is unchanged: with the encapsulation put back, the
  metadata after the call is the metadata before.  \<^verbatim>\<open>compileDirectiveFromMetadata\<close>
  changes no field.  The statement list of the result is the one of the factory function,
  and the other writes go to the constant pool.
\<close>

theorem metadata_frame:
  fixes ext :: "('ast, 'dep, 'span, 'node, 'p) externals"
  shows "(compileDirectiveFromMetadata ext dmeta dpool = Inr (dd, dmeta', dpool') \<longrightarrow>
            dmeta' = dmeta
          \<and> statements dd = snd (compileFactoryFunction ext (name dmeta) (type dmeta)
                                  (deps dmeta) R3_directiveInject))
       \<and> (compileComponentFromMetadata ext meta pool = Inr (d, meta', pool') \<longrightarrow>
            meta'\<lparr>encapsulation := encapsulation meta\<rparr> = meta
          \<and> (encapsulation meta = None \<and> styles meta \<noteq> []
               \<longrightarrow> encapsulation meta' = Some Emulated)
          \<and> ((encapsulation meta = None \<or> encapsulation meta = Some Emulated)
               \<and> styles meta = []
               \<longrightarrow> encapsulation meta' = Some None_ViewEncapsulation)
          \<and> (encapsulation meta = Some e \<and> (e \<noteq> Emulated \<or> styles meta \<noteq> [])
               \<longrightarrow> meta' = meta)
          \<and> statements d = snd (compileFactoryFunction ext (name meta) (type meta)
                                 (deps meta) R3_directiveInject))"
proof (intro conjI impI)
  assume a: "compileDirectiveFromMetadata ext dmeta dpool = Inr (dd, dmeta', dpool')"
  from compileDirectiveFromMetadata_Inr[OF a] obtain dm stmts where
    b: "baseDirectiveFields ext dmeta dpool = Inr ((dm, stmts), dpool')"
    and s: "statements dd = stmts" and m: "dmeta' = dmeta"
    by auto
  show "dmeta' = dmeta" by (rule m)
  show "statements dd = snd (compileFactoryFunction ext (name dmeta) (type dmeta)
                               (deps dmeta) R3_directiveInject)"
    using baseDirectiveFields_Inr[OF b] s by auto
next
  assume a: "compileComponentFromMetadata ext meta pool = Inr (d, meta', pool')"
  from compileComponentFromMetadata_Inr[OF a] obtain dm stmts pool1 where
    b: "baseDirectiveFields ext meta pool = Inr ((dm, stmts), pool1)"
    and s: "statements d = stmts"
    and m: "meta' = meta\<lparr>encapsulation :=
                      Some (resolveEncapsulation (encapsulation meta) (styles meta))\<rparr>"
    by auto
  show "meta'\<lparr>encapsulation := encapsulation meta\<rparr> = meta"
    unfolding m by (rule encapsulation_restored)
  show "encapsulation meta' = Some Emulated"
    if "encapsulation meta = None \<and> styles meta \<noteq> []"
    using that unfolding m by (simp add: resolveEncapsulation_def)
  show "encapsulation meta' = Some None_ViewEncapsulation"
    if "(encapsulation meta = None \<or> encapsulation meta = Some Emulated) \<and> styles meta = []"
    using that unfolding m by (auto simp: resolveEncapsulation_def)
  show "meta' = meta"
    if h: "encapsulation meta = Some e \<and> (e \<noteq> Emulated \<or> styles meta \<noteq> [])"
  proof -
    from h have "resolveEncapsulation (encapsulation meta) (styles meta) = e"
      by (auto simp: resolveEncapsulation_def)
    with h show ?thesis unfolding m by simp
  qed
  show "statements d = snd (compileFactoryFunction ext (name meta) (type meta)
                              (deps meta) R3_directiveInject)"
    using baseDirectiveFields_Inr[OF b] s by auto
qed

text \<open>A directive with a content query, whose predicate the sample collaborators put
  into the pool; a component without an encapsulation and with a style; the component
  without styles; a component with the encapsulation \<^verbatim>\<open>Native\<close>.\<close>

theorem metadata_frame_witness:
  "\<not> isl (compileDirectiveFromMetadata sample_externals
            (sample_directive\<lparr>queries :=
               [\<lparr>propertyName = ''items'', first = False, predicate = Inr [''app-item''],
                 descendants = True, read = None\<rparr>]\<rparr>) [])
   \<and> fst (snd (projr (compileDirectiveFromMetadata sample_externals
            (sample_directive\<lparr>queries :=
               [\<lparr>propertyName = ''items'', first = False, predicate = Inr [''app-item''],
                 descendants = True, read = None\<rparr>]\<rparr>) [])))
      = sample_directive\<lparr>queries :=
               [\<lparr>propertyName = ''items'', first = False, predicate = Inr [''app-item''],
                 descendants = True, read = None\<rparr>]\<rparr>
   \<and> snd (snd (projr (compileDirectiveFromMetadata sample_externals
            (sample_directive\<lparr>queries :=
               [\<lparr>propertyName = ''items'', first = False, predicate = Inr [''app-item''],
                 descendants = True, read = None\<rparr>]\<rparr>) [])))
      = [literalArr [literal (LStr ''app-item'')]]
   \<and> \<not> isl (compileComponentFromMetadata sample_externals
            (sample_component\<lparr>encapsulation := None, styles := [''p {}'']\<rparr>) [])
   \<and> fst (snd (projr (compileComponentFromMetadata sample_externals
            (sample_component\<lparr>encapsulation := None, styles := [''p {}'']\<rparr>) [])))
      = sample_component\<lparr>encapsulation := Some Emulated, styles := [''p {}'']\<rparr>
   \<and> \<not> isl (compileComponentFromMetadata sample_externals sample_component [])
   \<and> fst (snd (projr (compileComponentFromMetadata sample_externals sample_component [])))
      = sample_component\<lparr>encapsulation := Some None_ViewEncapsulation\<rparr>
   \<and> \<not> isl (compileComponentFromMetadata sample_externals
            (sample_component\<lparr>encapsulation := Some Native\<rparr>) [])
   \<and> fst (snd (projr (compileComponentFromMetadata sample_externals
            (sample_component\<lparr>encapsulation := Some Native\<rparr>) [])))
      = sample_component\<lparr>encapsulation := Some Native\<rparr>"
proof -
  let ?q = "sample_directive\<lparr>queries :=
               [\<lparr>propertyName = ''items'', first = False, predicate = Inr [''app-item''],
                 descendants = True, read = None\<rparr>]\<rparr>"
  let ?s = "sample_component\<lparr>encapsulation := None, styles := [''p {}'']\<rparr>"
  let ?n = "sample_component\<lparr>encapsulation := Some Native\<rparr>"
  have ok1: "\<not> isl (compileDirectiveFromMetadata sample_externals ?q [])"
    and p1: "snd (snd (projr (compileDirectiveFromMetadata sample_externals ?q [])))
             = [literalArr [literal (LStr ''app-item'')]]"
    by (simp_all add: string_defs object_defs ast_defs styling_defs host_defs query_defs
        definition_defs sample_defs Let_def)
  from ok1 obtain d1 m1 q1
    where e1: "compileDirectiveFromMetadata sample_externals ?q [] = Inr (d1, m1, q1)"
    by (cases "compileDirectiveFromMetadata sample_externals ?q []") auto
  have 1: "m1 = ?q"
    using metadata_frame[THEN conjunct1, rule_format, OF e1] by simp
  have ok2: "\<not> isl (compileComponentFromMetadata sample_externals ?s [])"
    by (simp add: string_defs object_defs ast_defs styling_defs host_defs query_defs
        definition_defs sample_defs Let_def)
  then obtain d2 m2 q2
    where e2: "compileComponentFromMetadata sample_externals ?s [] = Inr (d2, m2, q2)"
    by (cases "compileComponentFromMetadata sample_externals ?s []") auto
  note r2 = metadata_frame[THEN conjunct2, rule_format, OF e2]
  have "m2\<lparr>encapsulation := encapsulation ?s\<rparr> = ?s" and "encapsulation m2 = Some Emulated"
    using r2 by (simp_all add: sample_defs)
  then have 2: "m2 = sample_component\<lparr>encapsulation := Some Emulated, styles := [''p {}'']\<rparr>"
    by (cases m2) (auto simp: sample_defs)
  have ok3: "\<not> isl (compileComponentFromMetadata sample_externals sample_component [])"
    by (simp add: string_defs object_defs ast_defs styling_defs host_defs query_defs
        definition_defs sample_defs Let_def)
  then obtain d3 m3 q3
    where e3: "compileComponentFromMetadata sample_externals sample_component [] = Inr (d3, m3, q3)"
    by (cases "compileComponentFromMetadata sample_externals sample_component []") auto
  note r3 = metadata_frame[THEN conjunct2, rule_format, OF e3]
  have "m3\<lparr>encapsulation := encapsulation sample_component\<rparr> = sample_component"
    and "encapsulation m3 = Some None_ViewEncapsulation"
    using r3 by (simp_all add: sample_defs)
  then have 3: "m3 = sample_component\<lparr>encapsulation := Some None_ViewEncapsulation\<rparr>"
    by (cases m3) (auto simp: sample_defs)
  have ok4: "\<not> isl (compileComponentFromMetadata sample_externals ?n [])"
    by (simp add: string_defs object_defs ast_defs styling_defs host_defs query_defs
        definition_defs sample_defs Let_def)
  then obtain d4 m4 q4
    where e4: "compileComponentFromMetadata sample_externals ?n [] = Inr (d4, m4, q4)"
    by (cases "compileComponentFromMetadata sample_externals ?n []") auto
  have 4: "m4 = ?n"
    using metadata_frame[THEN conjunct2, rule_format, OF e4, of Native]
    by (simp add: sample_defs)
  from ok1 p1 1 show ?thesis
    unfolding e1 e2 e3 e4 using 2 3 4 by simp
qed

section \<open>Features\<close>

text \<open>\<^verbatim>\<open>addFeatures\<close> sets the field to the list of \<open>features_list\<close>, and the functions
  that build the rest of a definition leave the field as it is.\<close>

lemma addFeatures_features_list:
  "addFeatures dm meta vp
   = dm_set ''features''
       (features_field (providers meta) vp (usesInheritance meta) (usesOnChanges (lifecycle meta)))
       dm"
  by (cases "providers meta"; cases vp)
     (simp_all add: addFeatures_def features_field_def features_list_def dm_set_def Let_def)

lemma dm_get_addFeatures:
  "dm_get dm ''features'' = None \<Longrightarrow>
   dm_get (addFeatures dm meta vp) ''features''
   = features_field (providers meta) vp (usesInheritance meta) (usesOnChanges (lifecycle meta))"
  unfolding addFeatures_features_list by (rule dm_get_dm_set_same)

lemma componentTemplateFields_features:
  "dm_get (fst (componentTemplateFields ext meta dm0 pool1)) ''features''
   = dm_get (addFeatures dm0 meta (viewProviders meta)) ''features''"
  by (simp add: componentTemplateFields_def Let_def case_prod_beta dm_get_dm_set_other dm_get_if
      fst_if)

text \<open>
  C4, as stated, fails.  The component with view providers and without providers has the
  providers feature, and the view providers are its second argument, after an empty array:
  the view providers are attached, the providers of the metadata are not.
\<close>

theorem viewProviders_without_providers_counterexample:
  "providers (sample_component\<lparr>viewProviders := Some (variable ''viewProviders'')\<rparr>) = None
   \<and> \<not> isl (compileComponentFromMetadata sample_externals
              (sample_component\<lparr>viewProviders := Some (variable ''viewProviders'')\<rparr>) [])
   \<and> definition_field
        (fst (projr (compileComponentFromMetadata sample_externals
           (sample_component\<lparr>viewProviders := Some (variable ''viewProviders'')\<rparr>) [])))
        ''features''
      = Some (literalArr [callFn (importExpr R3_ProvidersFeature)
                            [LiteralArrayExpr [], variable ''viewProviders'']])"
  by (simp add: string_defs object_defs ast_defs styling_defs host_defs query_defs
      definition_defs sample_defs reading_defs Let_def)

text \<open>
  C4, amended.  The \<^verbatim>\<open>features\<close> field of the definition of a directive and of a
  component is the composition, in this order, of: the providers feature, present when
  providers or view providers are present, called with the providers, or with an empty
  array literal when there are none, and with the view providers, when present, as the
  second argument; the inheritance feature, when the metadata uses inheritance; the
  on-changes feature, when the lifecycle flag is set.  The field is omitted when the list
  is empty.  A directive has no view providers.
\<close>

theorem features_composition:
  fixes ext :: "('ast, 'dep, 'span, 'node, 'p) externals"
  shows "(compileDirectiveFromMetadata ext meta pool = Inr (d, meta', pool') \<longrightarrow>
            definition_field d ''features''
            = features_field (providers meta) None (usesInheritance meta)
                (usesOnChanges (lifecycle meta)))
       \<and> (compileComponentFromMetadata ext cmeta cpool = Inr (cd, cmeta', cpool') \<longrightarrow>
            definition_field cd ''features''
            = features_field (providers cmeta) (viewProviders cmeta) (usesInheritance cmeta)
                (usesOnChanges (lifecycle cmeta)))"
proof (intro conjI impI)
  assume a: "compileDirectiveFromMetadata ext meta pool = Inr (d, meta', pool')"
  from compileDirectiveFromMetadata_Inr[OF a] obtain dm stmts where
    b: "baseDirectiveFields ext meta pool = Inr ((dm, stmts), pool')"
    and d: "definition_fields (expression d) = addFeatures dm meta None"
    by (auto simp: definition_fields_toLiteralMap)
  from baseDirectiveFields_Inr[OF b] have "dm_get dm ''features'' = None"
    by (auto simp: base_fields_other)
  then show "definition_field d ''features''
             = features_field (providers meta) None (usesInheritance meta)
                 (usesOnChanges (lifecycle meta))"
    unfolding definition_field_dm_get d by (rule dm_get_addFeatures)
next
  assume a: "compileComponentFromMetadata ext cmeta cpool = Inr (cd, cmeta', cpool')"
  from compileComponentFromMetadata_Inr[OF a] obtain dm stmts pool1 where
    b: "baseDirectiveFields ext cmeta cpool = Inr ((dm, stmts), pool1)"
    and d: "definition_fields (expression cd)
            = fst (componentStyleFields ext cmeta (fst (componentTemplateFields ext cmeta dm pool1)))"
    by (auto simp: definition_fields_toLiteralMap)
  from baseDirectiveFields_Inr[OF b] have n: "dm_get dm ''features'' = None"
    by (auto simp: base_fields_other)
  have "definition_field cd ''features''
        = dm_get (addFeatures dm cmeta (viewProviders cmeta)) ''features''"
    unfolding definition_field_dm_get d
    by (simp add: componentStyleFields_other componentTemplateFields_features)
  then show "definition_field cd ''features''
             = features_field (providers cmeta) (viewProviders cmeta) (usesInheritance cmeta)
                 (usesOnChanges (lifecycle cmeta))"
    using dm_get_addFeatures[OF n] by simp
qed

text \<open>A directive that uses inheritance and the on-changes hook, and a component with
  providers, view providers and both flags.\<close>

theorem features_composition_witness:
  "\<not> isl (compileDirectiveFromMetadata sample_externals
            (sample_directive\<lparr>usesInheritance := True,
                               lifecycle := \<lparr>usesOnChanges = True\<rparr>\<rparr>) [])
   \<and> definition_field
        (fst (projr (compileDirectiveFromMetadata sample_externals
            (sample_directive\<lparr>usesInheritance := True,
                               lifecycle := \<lparr>usesOnChanges = True\<rparr>\<rparr>) [])))
        ''features''
      = Some (literalArr [importExpr R3_InheritDefinitionFeature,
                          importExpr R3_NgOnChangesFeature])
   \<and> \<not> isl (compileComponentFromMetadata sample_externals
            (sample_component\<lparr>usesInheritance := True, lifecycle := \<lparr>usesOnChanges = True\<rparr>,
                               providers := Some (variable ''providers''),
                               viewProviders := Some (variable ''viewProviders'')\<rparr>) [])
   \<and> definition_field
        (fst (projr (compileComponentFromMetadata sample_externals
            (sample_component\<lparr>usesInheritance := True, lifecycle := \<lparr>usesOnChanges = True\<rparr>,
                               providers := Some (variable ''providers''),
                               viewProviders := Some (variable ''viewProviders'')\<rparr>) [])))
        ''features''
      = Some (literalArr [callFn (importExpr R3_ProvidersFeature)
                            [variable ''providers'', variable ''viewProviders''],
                          importExpr R3_InheritDefinitionFeature,
                          importExpr R3_NgOnChangesFeature])
   \<and> \<not> isl (compileComponentFromMetadata sample_externals sample_component [])
   \<and> definition_field
        (fst (projr (compileComponentFromMetadata sample_externals sample_component [])))
        ''features''
      = None"
proof -
  let ?m = "sample_directive\<lparr>usesInheritance := True, lifecycle := \<lparr>usesOnChanges = True\<rparr>\<rparr>"
  let ?c = "sample_component\<lparr>usesInheritance := True, lifecycle := \<lparr>usesOnChanges = True\<rparr>,
                               providers := Some (variable ''providers''),
                               viewProviders := Some (variable ''viewProviders'')\<rparr>"
  have ok1: "\<not> isl (compileDirectiveFromMetadata sample_externals ?m [])"
    by (simp add: string_defs object_defs ast_defs styling_defs host_defs query_defs
        definition_defs sample_defs Let_def)
  then obtain d1 m1 p1
    where e1: "compileDirectiveFromMetadata sample_externals ?m [] = Inr (d1, m1, p1)"
    by (cases "compileDirectiveFromMetadata sample_externals ?m []") auto
  have 1: "definition_field d1 ''features''
           = Some (literalArr [importExpr R3_InheritDefinitionFeature,
                               importExpr R3_NgOnChangesFeature])"
    using features_composition[THEN conjunct1, rule_format, OF e1]
    by (simp add: sample_defs features_field_def features_list_def)
  have ok2: "\<not> isl (compileComponentFromMetadata sample_externals ?c [])"
    by (simp add: string_defs object_defs ast_defs styling_defs host_defs query_defs
        definition_defs sample_defs Let_def)
  then obtain d2 m2 p2
    where e2: "compileComponentFromMetadata sample_externals ?c [] = Inr (d2, m2, p2)"
    by (cases "compileComponentFromMetadata sample_externals ?c []") auto
  have 2: "definition_field d2 ''features''
           = Some (literalArr [callFn (importExpr R3_ProvidersFeature)
                                 [variable ''providers'', variable ''viewProviders''],
                               importExpr R3_InheritDefinitionFeature,
                               importExpr R3_NgOnChangesFeature])"
    using features_composition[THEN conjunct2, rule_format, OF e2]
    by (simp add: sample_defs features_field_def features_list_def)
  have ok3: "\<not> isl (compileComponentFromMetadata sample_externals sample_component [])"
    by (simp add: string_defs object_defs ast_defs styling_defs host_defs query_defs
        definition_defs sample_defs Let_def)
  then obtain d3 m3 p3
    where e3: "compileComponentFromMetadata sample_externals sample_component [] = Inr (d3, m3, p3)"
    by (cases "compileComponentFromMetadata sample_externals sample_component []") auto
  have 3: "definition_field d3 ''features'' = None"
    using features_composition[THEN conjunct2, rule_format, OF e3]
    by (simp add: sample_defs features_field_def features_list_def)
  from ok1 ok2 ok3 1 2 3 show ?thesis
    unfolding e1 e2 e3 by simp
qed

section \<open>Query selectors\<close>

text \<open>
  C8.  Two or more selectors that all carry a string, or one selector that carries a
  non-empty string, give the array of the strings, interned in the constant pool; one
  selector without a string that carries a type reference gives the expression of that
  type; no selector, or one selector that carries neither, is the failure
  \<^verbatim>\<open>Unexpected query form\<close>; two or more selectors of which one carries no string is the
  failure \<^verbatim>\<open>Found a type among the string selectors expected\<close>.
\<close>

theorem selectorsFromGlobalMetadata_forms:
  "(2 \<le> length sels \<and> list_all (\<lambda>t. truthy (token_value t)) sels \<longrightarrow>
      selectorsFromGlobalMetadata imp gcl sels pool
      = Inr (gcl (literalArr (map (\<lambda>t. literal (LStr (the (token_value t)))) sels)) False pool))
   \<and> (truthy (token_value t) \<longrightarrow>
      selectorsFromGlobalMetadata imp gcl [t] pool
      = Inr (gcl (literalArr [literal (LStr (the (token_value t)))]) False pool))
   \<and> (\<not> truthy (token_value t) \<and> token_identifier t = Some r \<longrightarrow>
      selectorsFromGlobalMetadata imp gcl [t] pool = Inr (imp r, pool))
   \<and> (\<not> truthy (token_value t) \<and> token_identifier t = None \<longrightarrow>
      selectorsFromGlobalMetadata imp gcl [t] pool = Inl (Error ''Unexpected query form''))
   \<and> selectorsFromGlobalMetadata imp gcl [] pool = Inl (Error ''Unexpected query form'')
   \<and> (2 \<le> length sels \<and> \<not> list_all (\<lambda>t. truthy (token_value t)) sels \<longrightarrow>
      selectorsFromGlobalMetadata imp gcl sels pool
      = Inl (Error ''Found a type among the string selectors expected''))"
proof -
  have m: "list_all (\<lambda>t. truthy (token_value t)) xs \<Longrightarrow>
           map ((\<lambda>v. literal (case v of Some s \<Rightarrow> LStr s | None \<Rightarrow> LUndefined)) \<circ> token_value) xs
           = map (\<lambda>t. literal (LStr (the (token_value t)))) xs" for xs :: "'a CompileTokenMetadata list"
    by (induction xs) (auto simp: truthy_def split: option.splits)
  have e: "list_ex (\<lambda>v. \<not> truthy v) (map token_value xs)
           = (\<not> list_all (\<lambda>t. truthy (token_value t)) xs)" for xs :: "'a CompileTokenMetadata list"
    by (induction xs) auto
  have 1: "2 \<le> length sels \<and> list_all (\<lambda>t. truthy (token_value t)) sels \<longrightarrow>
      selectorsFromGlobalMetadata imp gcl sels pool
      = Inr (gcl (literalArr (map (\<lambda>t. literal (LStr (the (token_value t)))) sels)) False pool)"
    by (auto simp: selectorsFromGlobalMetadata_def Let_def m e)
  have 2: "truthy (token_value t) \<longrightarrow>
      selectorsFromGlobalMetadata imp gcl [t] pool
      = Inr (gcl (literalArr [literal (LStr (the (token_value t)))]) False pool)"
    by (auto simp: selectorsFromGlobalMetadata_def Let_def truthy_def split: option.splits)
  have 3: "\<not> truthy (token_value t) \<and> token_identifier t = Some r \<longrightarrow>
      selectorsFromGlobalMetadata imp gcl [t] pool = Inr (imp r, pool)"
    by (simp add: selectorsFromGlobalMetadata_def)
  have 4: "\<not> truthy (token_value t) \<and> token_identifier t = None \<longrightarrow>
      selectorsFromGlobalMetadata imp gcl [t] pool = Inl (Error ''Unexpected query form'')"
    by (simp add: selectorsFromGlobalMetadata_def)
  have 5: "selectorsFromGlobalMetadata imp gcl [] pool = Inl (Error ''Unexpected query form'')"
    by (simp add: selectorsFromGlobalMetadata_def)
  have 6: "2 \<le> length sels \<and> \<not> list_all (\<lambda>t. truthy (token_value t)) sels \<longrightarrow>
      selectorsFromGlobalMetadata imp gcl sels pool
      = Inl (Error ''Found a type among the string selectors expected'')"
    using e[of sels] by (auto simp: selectorsFromGlobalMetadata_def Let_def)
  from 1 2 3 4 5 6 show ?thesis by (intro conjI)
qed

theorem selectorsFromGlobalMetadata_forms_witness:
  "selectorsFromGlobalMetadata (\<lambda>r. variable r) (getConstLiteral sample_externals)
     [CompileTokenMetadata (Some ''a'') None, CompileTokenMetadata (Some ''b'') None] []
   = Inr (literalArr [literal (LStr ''a''), literal (LStr ''b'')],
          [literalArr [literal (LStr ''a''), literal (LStr ''b'')]])
   \<and> selectorsFromGlobalMetadata (\<lambda>r. variable r) (getConstLiteral sample_externals)
       [CompileTokenMetadata None (Some ''MyType'')] []
     = Inr (variable ''MyType'', [])
   \<and> selectorsFromGlobalMetadata (\<lambda>r. variable r) (getConstLiteral sample_externals)
       [CompileTokenMetadata (Some ''a'') None, CompileTokenMetadata None (Some ''MyType'')] []
     = Inl (Error ''Found a type among the string selectors expected'')"
proof -
  note r = selectorsFromGlobalMetadata_forms
  have 1: "selectorsFromGlobalMetadata (\<lambda>r. variable r) (getConstLiteral sample_externals)
     [CompileTokenMetadata (Some ''a'') None, CompileTokenMetadata (Some ''b'') None] []
   = Inr (literalArr [literal (LStr ''a''), literal (LStr ''b'')],
          [literalArr [literal (LStr ''a''), literal (LStr ''b'')]])"
    using r[of "[CompileTokenMetadata (Some ''a'') None, CompileTokenMetadata (Some ''b'') None]"
        "\<lambda>r. variable r" "getConstLiteral sample_externals" "[]", THEN conjunct1]
    by (simp add: truthy_def sample_defs)
  have 2: "selectorsFromGlobalMetadata (\<lambda>r. variable r) (getConstLiteral sample_externals)
       [CompileTokenMetadata None (Some ''MyType'')] []
     = Inr (variable ''MyType'', [])"
    using r[of _ "\<lambda>r. variable r" "getConstLiteral sample_externals" "[]"
        "CompileTokenMetadata None (Some ''MyType'')" "''MyType''",
        THEN conjunct2, THEN conjunct2, THEN conjunct1]
    by (simp add: truthy_def)
  have 3: "selectorsFromGlobalMetadata (\<lambda>r. variable r) (getConstLiteral sample_externals)
       [CompileTokenMetadata (Some ''a'') None, CompileTokenMetadata None (Some ''MyType'')] []
     = Inl (Error ''Found a type among the string selectors expected'')"
    using r[of "[CompileTokenMetadata (Some ''a'') None,
                 CompileTokenMetadata None (Some ''MyType'')]"
        "\<lambda>r. variable r" "getConstLiteral sample_externals" "[]",
        THEN conjunct2, THEN conjunct2, THEN conjunct2, THEN conjunct2, THEN conjunct2]
    by (simp add: truthy_def)
  from 1 2 3 show ?thesis by simp
qed

section \<open>Content queries\<close>

lemma contentQueryRefresh_step_eq:
  "contentQueryRefresh_step (q, k) (stmts, declared)
   = (stmts @ (if declared then [] else [DeclareVarStmt TEMPORARY_NAME None (Some DYNAMIC_TYPE) []])
        @ [refresh_stmt (query_index_expr k) (propertyName q) (first q)], True)"
  by (simp add: contentQueryRefresh_step_def temporary_def Let_def refresh_stmt_def
      query_index_expr_def callFn_def importExpr_def variable_def literal_def prop_expr_def
      toStmt_def)

lemma fold_contentQueryRefresh_declared:
  "fold contentQueryRefresh_step (zip qs [i ..< i + length qs]) (stmts, True)
   = (stmts @ map (\<lambda>(q, k). refresh_stmt (query_index_expr k) (propertyName q) (first q))
                (zip qs [i ..< i + length qs]), True)"
proof (induction qs arbitrary: i stmts)
  case Nil
  then show ?case by simp
next
  case (Cons q qs)
  have u: "[i ..< i + length (q # qs)] = i # [Suc i ..< Suc i + length qs]"
    by (simp add: upt_rec)
  show ?case
    unfolding u using Cons.IH[of "Suc i"] by (simp add: contentQueryRefresh_step_eq)
qed

lemma fold_contentQueryRefresh:
  "qs \<noteq> [] \<Longrightarrow>
   fold contentQueryRefresh_step (zip qs [0 ..< length qs]) (stmts, False)
   = (stmts @ DeclareVarStmt TEMPORARY_NAME None (Some DYNAMIC_TYPE) []
        # map (\<lambda>(q, k). refresh_stmt (query_index_expr k) (propertyName q) (first q))
            (zip qs [0 ..< length qs]), True)"
proof (cases qs)
  case Nil
  then show "qs \<noteq> [] \<Longrightarrow> ?thesis" by simp
next
  case (Cons q qs')
  have u: "[0 ..< length (q # qs')] = 0 # [Suc 0 ..< Suc 0 + length qs']"
    by (simp add: upt_rec)
  show ?thesis
    unfolding Cons u using fold_contentQueryRefresh_declared[of qs' "Suc 0"]
    by (simp add: contentQueryRefresh_step_eq)
qed

lemma refresh_function_body:
  assumes "queries meta \<noteq> []"
  shows "createContentQueriesRefreshFunction meta
         = Some (fn [(''dirIndex'', Some NUMBER_TYPE), (''queryStartIndex'', Some NUMBER_TYPE)]
                   (DeclareVarStmt ''instance''
                      (Some (callFn (importExpr R3_load) [variable ''dirIndex'']))
                      (Some INFERRED_TYPE) [Final]
                    # DeclareVarStmt TEMPORARY_NAME None (Some DYNAMIC_TYPE) []
                    # map (\<lambda>(q, k). refresh_stmt (query_index_expr k) (propertyName q) (first q))
                        (zip (queries meta) [0 ..< length (queries meta)]))
                   (Some INFERRED_TYPE) (named (name meta) ''_ContentQueriesRefresh''))"
  using assms
  by (simp add: createContentQueriesRefreshFunction_def Let_def fold_contentQueryRefresh)

lemma index_value_query_index: "index_value s (query_index_expr k) = Some (s + int k)"
  by (simp add: query_index_expr_def)

text \<open>
  C5.  For metadata with queries, the content queries refresh function has, after the two
  declarations of the instance and of the temporary, one statement for each query, in
  declaration order.  The statement for the query at position \<open>k\<close> loads the query list
  at an index that denotes \<^verbatim>\<open>queryStartIndex + k\<close>, calls the refresh primitive on it, and
  assigns to the property of the instance that the query names the first element, when
  \<^verbatim>\<open>first\<close> is set, and the whole list otherwise.
\<close>

theorem contentQueriesRefresh_statement:
  assumes "queries meta \<noteq> []" and "k < length (queries meta)"
  shows "createContentQueriesRefreshFunction meta \<noteq> None
       \<and> length (function_body (createContentQueriesRefreshFunction meta))
           = length (queries meta) + 2
       \<and> function_body (createContentQueriesRefreshFunction meta) ! (k + 2)
           = refresh_stmt (query_index_expr k) (propertyName (queries meta ! k))
               (first (queries meta ! k))
       \<and> index_value s (query_index_expr k) = Some (s + int k)"
proof -
  let ?body = "map (\<lambda>(q, k). refresh_stmt (query_index_expr k) (propertyName q) (first q))
                 (zip (queries meta) [0 ..< length (queries meta)])"
  have b: "function_body (createContentQueriesRefreshFunction meta)
           = DeclareVarStmt ''instance''
               (Some (callFn (importExpr R3_load) [variable ''dirIndex'']))
               (Some INFERRED_TYPE) [Final]
             # DeclareVarStmt TEMPORARY_NAME None (Some DYNAMIC_TYPE) [] # ?body"
    unfolding refresh_function_body[OF assms(1)] by (simp add: function_body_def fn_def)
  have n: "?body ! k = refresh_stmt (query_index_expr k) (propertyName (queries meta ! k))
               (first (queries meta ! k))"
    using assms(2) by simp
  show ?thesis
    using refresh_function_body[OF assms(1)] n index_value_query_index[of s k]
    unfolding b by simp
qed

theorem contentQueriesRefresh_statement_witness:
  "function_body (createContentQueriesRefreshFunction
      (sample_directive\<lparr>queries :=
         [\<lparr>propertyName = ''items'', first = False, predicate = Inr [''app-item''],
           descendants = True, read = None\<rparr>]\<rparr>)) ! 2
   = refresh_stmt (ReadVarExpr ''queryStartIndex'') ''items'' False
   \<and> index_value 7 (ReadVarExpr ''queryStartIndex'') = Some 7"
  using contentQueriesRefresh_statement[of
      "sample_directive\<lparr>queries :=
         [\<lparr>propertyName = ''items'', first = False, predicate = Inr [''app-item''],
           descendants = True, read = None\<rparr>]\<rparr>" 0 7]
  by (simp add: query_index_expr_def numeral_2_eq_2)

section \<open>Host variables\<close>

text \<open>The visits of a list of expressions, in two parts.\<close>

lemma visit_all_append:
  "visit_all ext xs t p = Some (r1, p1) \<Longrightarrow> visit_all ext ys (t + r1) p1 = Some (r2, p2)
   \<Longrightarrow> visit_all ext (xs @ ys) t p = Some (r1 + r2, p2)"
proof (induction xs arbitrary: t p r1)
  case Nil
  then show ?case by simp
next
  case (Cons a xs)
  from Cons.prems(1) obtain a' sl p' r where
    v: "visit ext a t p = Visited (a', sl, p')"
    and x: "visit_all ext xs (t + sum_list sl) p' = Some (r, p1)"
    and r1: "r1 = sum_list sl + r"
    by (auto split: visited.splits option.splits)
  from Cons.prems(2) have "visit_all ext ys (t + sum_list sl + r) p1 = Some (r2, p2)"
    by (simp add: r1 add.assoc)
  from Cons.IH[OF x this] v show ?case
    by (simp add: r1 add.assoc)
qed

lemma visit_all_uniform:
  "visit_all ext es t p = Some (r, p') \<Longrightarrow>
   (\<forall>a \<in> set es. \<forall>t p a' sl p'. visit ext a t p = Visited (a', sl, p') \<longrightarrow> sum_list sl = slots a)
   \<Longrightarrow> r = sum_list (map slots es)"
proof (induction es arbitrary: t p r)
  case Nil
  then show ?case by simp
next
  case (Cons a es)
  from Cons.prems(1) obtain a' sl p1 r0 where
    v: "visit ext a t p = Visited (a', sl, p1)"
    and x: "visit_all ext es (t + sum_list sl) p1 = Some (r0, p')"
    and r: "r = sum_list sl + r0"
    by (auto split: visited.splits option.splits)
  have "a \<in> set (a # es)" by simp
  from Cons.prems(2)[rule_format, OF this v] have 1: "sum_list sl = slots a" .
  have "\<forall>a \<in> set es. \<forall>t p a' sl p'.
          visit ext a t p = Visited (a', sl, p') \<longrightarrow> sum_list sl = slots a"
    using Cons.prems(2) by simp
  from Cons.IH[OF x this] have "r0 = sum_list (map slots es)" .
  with 1 show ?case by (simp add: r)
qed

text \<open>The total grows by the slots that the value converter asks for, in the loop over
  the bindings and in the styling builder; a styling binding is registered with the
  builder and adds nothing by itself.\<close>

lemma convertValue_visit:
  assumes "convertValue ext v t pool = Inr (v', t', pool')"
  shows "\<exists>r. visit_all ext [v] t pool = Some (r, pool') \<and> t' = t + r"
  using assms by (auto simp: convertValue_def split: visited.splits)

lemma hostProperty_step_visit:
  assumes "hostProperty_step ext el ctx b (t, upd, sb, pool) = Inr (t', upd', sb', pool')"
  shows "\<exists>r. visit_all ext (if is_styling_name (binding_name b) then []
                               else [binding_expression b]) t pool = Some (r, pool')
             \<and> t' = t + r"
    and "map input_value (stylingInputs sb')
         = map input_value (stylingInputs sb)
           @ (if is_styling_name (binding_name b) then [binding_expression b] else [])"
proof -
  show "\<exists>r. visit_all ext (if is_styling_name (binding_name b) then []
                               else [binding_expression b]) t pool = Some (r, pool')
             \<and> t' = t + r"
  proof (cases "is_styling_name (binding_name b)")
    case True
    with assms show ?thesis
      by (auto simp: hostProperty_step_def is_styling_name_def Let_def split: if_splits)
  next
    case False
    with assms obtain v p where
      "convertValue ext (binding_expression b) t pool = Inr (v, t', p)" and "p = pool'"
      by (auto simp: hostProperty_step_def is_styling_name_def Let_def
          split: sum.splits prod.splits)
    with convertValue_visit False show ?thesis by fastforce
  qed
  show "map input_value (stylingInputs sb')
         = map input_value (stylingInputs sb)
           @ (if is_styling_name (binding_name b) then [binding_expression b] else [])"
  proof (cases "getStylingPrefix (binding_name b) = ''style''")
    case True
    with assms show ?thesis
      by (auto simp: hostProperty_step_def is_styling_name_def registerStyleInput_def Let_def)
  next
    case False
    note ns = this
    show ?thesis
    proof (cases "getStylingPrefix (binding_name b) = ''class''")
      case True
      with ns assms show ?thesis
        by (auto simp: hostProperty_step_def is_styling_name_def registerClassInput_def Let_def)
    next
      case False
      with ns assms show ?thesis
        by (auto simp: hostProperty_step_def is_styling_name_def Let_def
            split: sum.splits prod.splits)
    qed
  qed
qed

lemma hostProperties_loop_visit:
  "hostProperties_loop ext el ctx bs (t, upd, sb, pool) = Inr (t', upd', sb', pool')
   \<Longrightarrow> (\<exists>r. visit_all ext
                 (map binding_expression (filter (\<lambda>b. \<not> is_styling_name (binding_name b)) bs))
                 t pool = Some (r, pool')
             \<and> t' = t + r)
       \<and> map input_value (stylingInputs sb')
           = map input_value (stylingInputs sb)
             @ map binding_expression (filter (\<lambda>b. is_styling_name (binding_name b)) bs)"
proof (induction bs arbitrary: t upd sb pool)
  case Nil
  then show ?case by simp
next
  case (Cons b bs)
  from Cons.prems obtain t1 upd1 sb1 pool1 where
    s: "hostProperty_step ext el ctx b (t, upd, sb, pool) = Inr (t1, upd1, sb1, pool1)"
    and l: "hostProperties_loop ext el ctx bs (t1, upd1, sb1, pool1) = Inr (t', upd', sb', pool')"
    by (auto split: sum.splits)
  from hostProperty_step_visit(1)[OF s] obtain r1 where
    v1: "visit_all ext (if is_styling_name (binding_name b) then []
                        else [binding_expression b]) t pool = Some (r1, pool1)"
    and t1: "t1 = t + r1"
    by blast
  note i1 = hostProperty_step_visit(2)[OF s]
  from Cons.IH[OF l] obtain r2 where
    v2: "visit_all ext
           (map binding_expression (filter (\<lambda>b. \<not> is_styling_name (binding_name b)) bs))
           (t + r1) pool1 = Some (r2, pool')"
    and t': "t' = t1 + r2"
    and i2: "map input_value (stylingInputs sb')
             = map input_value (stylingInputs sb1)
               @ map binding_expression (filter (\<lambda>b. is_styling_name (binding_name b)) bs)"
    unfolding t1 by blast
  from visit_all_append[OF v1 v2]
  have "visit_all ext
          (map binding_expression (filter (\<lambda>b. \<not> is_styling_name (binding_name b)) (b # bs)))
          t pool = Some (r1 + r2, pool')"
    by (cases "is_styling_name (binding_name b)") simp_all
  moreover have "t' = t + (r1 + r2)"
    by (simp add: t' t1)
  moreover have "map input_value (stylingInputs sb')
           = map input_value (stylingInputs sb)
             @ map binding_expression (filter (\<lambda>b. is_styling_name (binding_name b)) (b # bs))"
    unfolding i2 i1 by simp
  ultimately show ?case by blast
qed

lemma buildUpdateLevelInstruction_visit:
  assumes "buildUpdateLevelInstruction ext el i t pool = Inr (instr, t', pool')"
  shows "(\<exists>r. visit_all ext [input_value i] t pool = Some (r, pool') \<and> t' = t + r)
       \<and> reference instr \<noteq> R3_allocHostVars"
proof (cases i)
  case (StyleInput n v u sp)
  with assms obtain v' where "convertValue ext v t pool = Inr (v', t', pool')"
    and "reference instr = R3_elementStyleProp"
    by (auto split: sum.splits)
  with convertValue_visit StyleInput show ?thesis by fastforce
next
  case (ClassInput n v sp)
  with assms obtain v' where "convertValue ext v t pool = Inr (v', t', pool')"
    and "reference instr = R3_elementClassProp"
    by (auto split: sum.splits)
  with convertValue_visit ClassInput show ?thesis by fastforce
qed

lemma buildUpdateLevelInstructions_loop_visit:
  "buildUpdateLevelInstructions_loop ext el is t pool = Inr (instrs, t', pool')
   \<Longrightarrow> \<exists>r. visit_all ext (map input_value is) t pool = Some (r, pool') \<and> t' = t + r"
proof (induction "is" arbitrary: t pool instrs)
  case Nil
  then show ?case by simp
next
  case (Cons i "is")
  from Cons.prems obtain instr t1 pool1 rest where
    s: "buildUpdateLevelInstruction ext el i t pool = Inr (instr, t1, pool1)"
    and l: "buildUpdateLevelInstructions_loop ext el is t1 pool1 = Inr (rest, t', pool')"
    by (auto split: sum.splits)
  from buildUpdateLevelInstruction_visit[OF s] obtain r1 where
    v1: "visit_all ext [input_value i] t pool = Some (r1, pool1)" and t1: "t1 = t + r1"
    by blast
  from Cons.IH[OF l] obtain r2 where
    v2: "visit_all ext (map input_value is) (t + r1) pool1 = Some (r2, pool')"
    and t': "t' = t1 + r2"
    unfolding t1 by blast
  from visit_all_append[OF v1 v2] t' t1 show ?case
    by (intro exI[of _ "r1 + r2"]) simp
qed

text \<open>The statements of the create block other than the allocation allocate nothing.\<close>

lemma mapM_err_all:
  "mapM_err f xs = Inr ys \<Longrightarrow> (\<And>x y. f x = Inr y \<Longrightarrow> P y) \<Longrightarrow> list_all P ys"
proof (induction xs arbitrary: ys)
  case Nil
  then show ?case by simp
next
  case (Cons x xs)
  from Cons.prems(1) obtain y rest where "f x = Inr y" "mapM_err f xs = Inr rest" "ys = y # rest"
    by (auto split: sum.splits)
  with Cons.IH[of rest] Cons.prems(2) show ?case by auto
qed

lemma allocated_by_other:
  "r \<noteq> R3_allocHostVars
   \<Longrightarrow> allocated_by (ExpressionStatement (InvokeFunctionExpr (ExternalExpr r t) args)) = 0"
  by (cases r) (auto simp: allocated_by_def split: list.splits expr.splits literal.splits)

lemma createHostListener_allocates:
  "createHostListener ext ctx meta b = Inr s \<Longrightarrow> allocated_by s = 0"
  by (auto simp: createHostListener_def allocated_by_other Let_def toStmt_def callFn_def
      importExpr_def split: converted.splits)

lemma createStylingStmt_allocates:
  "createStylingStmt ext instr ctx = Inr s \<Longrightarrow> reference instr \<noteq> R3_allocHostVars
   \<Longrightarrow> allocated_by s = 0"
  by (auto simp: createStylingStmt_def allocated_by_other toStmt_def callFn_def importExpr_def
      split: sum.splits)

lemma sum_list_allocated:
  "list_all (\<lambda>s. allocated_by s = 0) ss \<Longrightarrow> sum_list (map allocated_by ss) = 0"
  by (induction ss) auto

lemma hostStyling_visit:
  assumes "hostStyling ext ctx sb t pool = Inr (cs, us, t', pool')"
  shows "(\<exists>r. visit_all ext (map input_value (stylingInputs sb)) t pool = Some (r, pool')
              \<and> t' = t + r)
       \<and> list_all (\<lambda>s. allocated_by s = 0) cs"
proof -
  from assms obtain instrs where
    u: "buildUpdateLevelInstructions ext sb t pool = Inr (instrs, t', pool')"
    and c: "(case buildCreateLevelInstruction sb of
              None \<Rightarrow> Inr []
            | Some createInstruction \<Rightarrow>
                (case createStylingStmt ext createInstruction ctx of
                   Inl e \<Rightarrow> Inl e
                 | Inr createStmt \<Rightarrow> Inr [createStmt])) = Inr cs"
    by (auto simp: hostStyling_def split: sum.splits)
  from u have 1: "\<exists>r. visit_all ext (map input_value (stylingInputs sb)) t pool = Some (r, pool')
                      \<and> t' = t + r"
    unfolding buildUpdateLevelInstructions_def
    by (rule buildUpdateLevelInstructions_loop_visit)
  from c have 2: "list_all (\<lambda>s. allocated_by s = 0) cs"
    by (auto simp: buildCreateLevelInstruction_def createStylingStmt_allocates
        split: option.splits sum.splits if_splits)
  from 1 2 show ?thesis by simp
qed

text \<open>The generated function, by the total and the two blocks.\<close>

lemma hostBindingsFn_emitted:
  assumes "list_all (\<lambda>s. allocated_by s = 0) cs"
  shows "emitted_hostVars (hostBindingsFn nm el t cs us) = t
       \<and> (t \<noteq> 0 \<longrightarrow> create_block (hostBindingsFn nm el t cs us) = allocHostVars_stmt t # cs)"
proof (cases "t = 0")
  case True
  then show ?thesis
    using sum_list_allocated[OF assms]
    by (cases cs; cases us)
       (auto simp: hostBindingsFn_def emitted_hostVars_def create_block_def fn_def
          renderFlagCheckIfStmt_def variable_def literal_def)
next
  case False
  have a: "allocated_by (allocHostVars_stmt t) = t"
    by (simp add: allocated_by_def allocHostVars_stmt_def)
  have c: "create_block (hostBindingsFn nm el t cs us) = allocHostVars_stmt t # cs"
    using False
    by (simp add: hostBindingsFn_def create_block_def fn_def renderFlagCheckIfStmt_def
        variable_def literal_def allocHostVars_stmt_def toStmt_def callFn_def importExpr_def
        Let_def)
  show ?thesis
    using False sum_list_allocated[OF assms] a unfolding emitted_hostVars_def c by simp
qed

lemma createHostBindingsFunction_emitted:
  assumes "createHostBindingsFunction ext meta el ctx sb pool n = Inr (hb, pool')"
    and "stylingInputs sb = []"
  shows "(\<exists>r p. visit_all ext (host_expressions ext meta) n pool = Some (r, p)
                \<and> emitted_hostVars hb = n + r)
       \<and> (emitted_hostVars hb \<noteq> 0 \<longrightarrow>
            (\<exists>rest. create_block hb = allocHostVars_stmt (emitted_hostVars hb) # rest))"
proof -
  let ?summary = "metadataAsSummary meta"
  let ?span = "typeSourceSpan meta"
  obtain cs0 where
    c0: "(case createDirectiveHostEventAsts ext ?summary ?span of
            None \<Rightarrow> Inr []
          | Some evs \<Rightarrow> if evs \<noteq> [] then createHostListeners ext ctx evs meta else Inr [])
         = Inr cs0"
    using assms(1) by (auto simp: createHostBindingsFunction_def Let_def split: sum.splits)
  have a0: "list_all (\<lambda>s. allocated_by s = 0) cs0"
    using c0 mapM_err_all[where P="\<lambda>s. allocated_by s = 0", OF _ createHostListener_allocates]
    by (auto simp: createHostListeners_def split: option.splits if_splits)
  have "\<exists>r p cs us. hb = hostBindingsFn (name meta) el (n + r) cs us
          \<and> visit_all ext (host_expressions ext meta) n pool = Some (r, p)
          \<and> list_all (\<lambda>s. allocated_by s = 0) cs"
  proof (cases "createBoundHostProperties ext ?summary ?span")
    case None
    with assms(1) c0 have "hb = hostBindingsFn (name meta) el (n + 0) cs0 []"
      by (auto simp: createHostBindingsFunction_def Let_def)
    moreover from None have "visit_all ext (host_expressions ext meta) n pool = Some (0, pool)"
      by (simp add: host_expressions_def)
    ultimately show ?thesis using a0 by blast
  next
    case (Some bs)
    let ?plain = "map binding_expression (filter (\<lambda>b. \<not> is_styling_name (binding_name b)) bs)"
    let ?styling = "map binding_expression (filter (\<lambda>b. is_styling_name (binding_name b)) bs)"
    have he: "host_expressions ext meta = ?plain @ ?styling"
      using Some by (simp add: host_expressions_def visited_expressions_def)
    from assms(1) c0 Some obtain t1 upd sb1 pool1 where
      l: "hostProperties_loop ext el ctx bs (n, [], sb, pool) = Inr (t1, upd, sb1, pool1)"
      by (auto simp: createHostBindingsFunction_def Let_def split: sum.splits)
    from hostProperties_loop_visit[OF l] assms(2) obtain r1 where
      v1: "visit_all ext ?plain n pool = Some (r1, pool1)" and t1: "t1 = n + r1"
      and i1: "map input_value (stylingInputs sb1) = ?styling"
      by auto
    show ?thesis
    proof (cases "hasBindingsOrInitialValues sb1")
      case True
      with assms(1) c0 Some l obtain cs us t2 where
        h: "hostStyling ext ctx sb1 t1 pool1 = Inr (cs, us, t2, pool')"
        and r: "hb = hostBindingsFn (name meta) el t2 (cs0 @ cs) (upd @ us)"
        by (auto simp: createHostBindingsFunction_def Let_def split: sum.splits)
      from hostStyling_visit[OF h] obtain r2 where
        v2: "visit_all ext ?styling (n + r1) pool1 = Some (r2, pool')" and t2: "t2 = t1 + r2"
        and a: "list_all (\<lambda>s. allocated_by s = 0) cs"
        unfolding i1 t1 by blast
      from visit_all_append[OF v1 v2]
      have "visit_all ext (host_expressions ext meta) n pool = Some (r1 + r2, pool')"
        unfolding he .
      moreover have "hb = hostBindingsFn (name meta) el (n + (r1 + r2)) (cs0 @ cs) (upd @ us)"
        unfolding r t2 t1 by (simp add: add.assoc)
      moreover have "list_all (\<lambda>s. allocated_by s = 0) (cs0 @ cs)"
        using a0 a by simp
      ultimately show ?thesis by blast
    next
      case False
      with assms(1) c0 Some l have r: "hb = hostBindingsFn (name meta) el t1 cs0 upd"
        by (auto simp: createHostBindingsFunction_def Let_def)
      from False have "stylingInputs sb1 = []"
        by (simp add: hasBindingsOrInitialValues_def)
      with i1 have "?styling = []" by simp
      with v1 have "visit_all ext (host_expressions ext meta) n pool = Some (r1, pool1)"
        unfolding he by simp
      with r t1 a0 show ?thesis by blast
    qed
  qed
  then obtain r p cs us where hb: "hb = hostBindingsFn (name meta) el (n + r) cs us"
    and v: "visit_all ext (host_expressions ext meta) n pool = Some (r, p)"
    and a: "list_all (\<lambda>s. allocated_by s = 0) cs"
    by blast
  from hostBindingsFn_emitted[OF a, of "name meta" el "n + r" us] v show ?thesis
    unfolding hb by auto
qed

lemma fold_hostAttribute_inputs:
  "stylingInputs (snd (fold hostAttribute_step attrs st)) = stylingInputs (snd st)"
proof (induction attrs arbitrary: st)
  case Nil
  then show ?case by simp
next
  case (Cons kv attrs)
  have "stylingInputs (snd (hostAttribute_step kv st)) = stylingInputs (snd st)"
    by (simp add: hostAttribute_step_def registerStyleAttr_def registerClassAttr_def Let_def)
  with Cons.IH[of "hostAttribute_step kv st"] show ?case by simp
qed

lemma hostAttributes_loop_inputs: "stylingInputs (snd (hostAttributes_loop meta)) = []"
  by (simp add: hostAttributes_loop_def fold_hostAttribute_inputs new_StylingBuilder_def)

lemma initialHostVarsCount_split:
  assumes "obj_keys (properties (host meta)) = ns @ ms"
    and "list_all (\<lambda>n. \<not> is_styling_name n) ns" and "list_all is_styling_name ms"
  shows "initialHostVarsCount meta = length ns"
proof -
  have 1: "filter (\<lambda>nm. \<not> is_styling_name nm) ns = ns"
    using assms(2) by (simp add: list_all_iff)
  have 2: "filter (\<lambda>nm. \<not> is_styling_name nm) ms = []"
    using assms(3) by (simp add: list_all_iff)
  show ?thesis
    unfolding initialHostVarsCount_def assms(1) using 1 2
    by (simp add: is_styling_name_def Let_def)
qed

text \<open>
  C1, as stated, fails.  A directive with one non-styling host property binding (\<^verbatim>\<open>id\<close>)
  followed by one styling binding (\<^verbatim>\<open>class.active\<close>), so that \<open>N = 1\<close> and \<open>M = 1\<close>,
  compiles to a \<^verbatim>\<open>hostBindings\<close> function that allocates one host variable, not two: the
  styling binding gets no slot.
\<close>

theorem styling_binding_slot_counterexample:
  "\<not> is_styling_name ''id''
   \<and> is_styling_name ''class.active''
   \<and> \<not> isl (baseDirectiveFields sample_externals
              (sample_directive\<lparr>host :=
                 \<lparr>attributes = [], listeners = [],
                  properties = [(''id'', ''ident''), (''class.active'', ''on'')]\<rparr>\<rparr>) [])
   \<and> emitted_hostVars
        (dm_get (fst (fst (projr (baseDirectiveFields sample_externals
              (sample_directive\<lparr>host :=
                 \<lparr>attributes = [], listeners = [],
                  properties = [(''id'', ''ident''), (''class.active'', ''on'')]\<rparr>\<rparr>) []))))
           ''hostBindings'')
      = 1"
  by (simp add: string_defs object_defs ast_defs styling_defs host_defs query_defs
      definition_defs sample_defs reading_defs Let_def)

text \<open>
  C1, amended.  For host property bindings whose names are \<open>N\<close> non-styling names followed
  by \<open>M\<close> styling names, the number of host variables that the compiled \<^verbatim>\<open>hostBindings\<close>
  function allocates is \<open>N\<close> plus the number of slots that the value converter asks for
  when it visits the binding expressions, those of the non-styling bindings and then those
  of the styling bindings; a styling binding adds no slot of its own.  When the converter
  asks for a number of slots that depends on the expression only, the total is \<open>N\<close> plus
  the sum of these numbers.  When the total is not zero, the slot-allocation instruction is
  the first statement of the create block.
\<close>

theorem hostVars_nonstyling_count:
  fixes ext :: "('ast, 'dep, 'span, 'node, 'p) externals"
  assumes "baseDirectiveFields ext meta pool = Inr ((dm, stmts), pool')"
    and "obj_keys (properties (host meta)) = ns @ ms"
    and "list_all (\<lambda>n. \<not> is_styling_name n) ns"
    and "list_all is_styling_name ms"
  shows "emitted_hostVars (dm_get dm ''hostBindings'')
         = length ns
           + requested_slots ext (host_expressions ext meta) (length ns)
               (snd (createContentQueriesFunction ext meta pool))
       \<and> ((\<forall>a \<in> set (host_expressions ext meta). \<forall>t p a' sl p'.
              visit ext a t p = Visited (a', sl, p') \<longrightarrow> sum_list sl = slots a)
            \<longrightarrow> emitted_hostVars (dm_get dm ''hostBindings'')
                = length ns + sum_list (map slots (host_expressions ext meta)))
       \<and> (emitted_hostVars (dm_get dm ''hostBindings'') \<noteq> 0 \<longrightarrow>
            (\<exists>rest. create_block (dm_get dm ''hostBindings'')
                    = allocHostVars_stmt (emitted_hostVars (dm_get dm ''hostBindings'')) # rest))"
proof -
  from baseDirectiveFields_Inr[OF assms(1)] obtain hb where
    h: "createHostBindingsFunction ext meta ''elIndex'' (variable CONTEXT_NAME)
          (snd (hostAttributes_loop meta))
          (snd (createContentQueriesFunction ext meta pool)) (initialHostVarsCount meta)
        = Inr (hb, pool')"
    and d: "dm = base_fields ext meta (fst (createContentQueriesFunction ext meta pool))
             (createHostAttributesArray
                (fst (hostAttributes_loop meta :: string obj \<times> ('ast, 'span) StylingBuilder))) hb"
    by blast
  have g: "dm_get dm ''hostBindings'' = hb"
    unfolding d by (rule base_fields_hostBindings)
  have n: "initialHostVarsCount meta = length ns"
    by (rule initialHostVarsCount_split[OF assms(2-4)])
  note e = createHostBindingsFunction_emitted[OF h hostAttributes_loop_inputs, unfolded n]
  from e obtain r p where
    v: "visit_all ext (host_expressions ext meta) (length ns)
          (snd (createContentQueriesFunction ext meta pool)) = Some (r, p)"
    and t: "emitted_hostVars hb = length ns + r"
    by blast
  have 1: "emitted_hostVars hb
           = length ns
             + requested_slots ext (host_expressions ext meta) (length ns)
                 (snd (createContentQueriesFunction ext meta pool))"
    using v t by (simp add: requested_slots_def)
  have 2: "(\<forall>a \<in> set (host_expressions ext meta). \<forall>t p a' sl p'.
              visit ext a t p = Visited (a', sl, p') \<longrightarrow> sum_list sl = slots a)
            \<longrightarrow> emitted_hostVars hb = length ns + sum_list (map slots (host_expressions ext meta))"
    using visit_all_uniform[OF v, of slots] t by blast
  from 1 2 e[THEN conjunct2] show ?thesis
    unfolding g by blast
qed

text \<open>The bindings \<^verbatim>\<open>id\<close> and \<^verbatim>\<open>class.active\<close>, with a value converter that asks for
  one slot in every visit: one host variable for the binding that is not a styling
  binding, and two slots for the two visits.\<close>

theorem hostVars_nonstyling_count_witness:
  "\<not> isl (baseDirectiveFields slot_externals
              (sample_directive\<lparr>host :=
                 \<lparr>attributes = [], listeners = [],
                  properties = [(''id'', ''ident''), (''class.active'', ''on'')]\<rparr>\<rparr>) [])
   \<and> emitted_hostVars
        (dm_get (fst (fst (projr (baseDirectiveFields slot_externals
              (sample_directive\<lparr>host :=
                 \<lparr>attributes = [], listeners = [],
                  properties = [(''id'', ''ident''), (''class.active'', ''on'')]\<rparr>\<rparr>) []))))
           ''hostBindings'')
      = 3
   \<and> hd (create_block
        (dm_get (fst (fst (projr (baseDirectiveFields slot_externals
              (sample_directive\<lparr>host :=
                 \<lparr>attributes = [], listeners = [],
                  properties = [(''id'', ''ident''), (''class.active'', ''on'')]\<rparr>\<rparr>) []))))
           ''hostBindings''))
      = allocHostVars_stmt 3"
proof -
  let ?m = "sample_directive\<lparr>host :=
              \<lparr>attributes = [], listeners = [],
               properties = [(''id'', ''ident''), (''class.active'', ''on'')]\<rparr>\<rparr>"
  have ok: "\<not> isl (baseDirectiveFields slot_externals ?m [])"
    by (simp add: string_defs object_defs ast_defs styling_defs host_defs query_defs
        definition_defs sample_defs Let_def)
  then obtain dm st p where e: "baseDirectiveFields slot_externals ?m [] = Inr ((dm, st), p)"
    by (cases "baseDirectiveFields slot_externals ?m []") auto
  have k: "obj_keys (properties (host ?m)) = [''id''] @ [''class.active'']"
    by (simp add: sample_defs object_defs)
  have a: "list_all (\<lambda>n. \<not> is_styling_name n) [''id'']"
    by (simp add: is_styling_name_def string_defs)
  have b: "list_all is_styling_name [''class.active'']"
    by (simp add: is_styling_name_def string_defs)
  have x: "host_expressions slot_externals ?m = [''ident'', ''on'']"
    by (simp add: host_expressions_def visited_expressions_def metadataAsSummary_def
        sample_defs string_defs)
  have s: "\<forall>a \<in> set (host_expressions slot_externals ?m). \<forall>t p a' sl p'.
             visit slot_externals a t p = Visited (a', sl, p') \<longrightarrow> sum_list sl = (\<lambda>_. 1) a"
    by (auto simp: sample_defs)
  note r = hostVars_nonstyling_count[OF e k a b, of "\<lambda>_. 1"]
  from r[THEN conjunct2, THEN conjunct1, THEN mp, OF s]
  have c: "emitted_hostVars (dm_get dm ''hostBindings'') = 3"
    unfolding x by simp
  with r[THEN conjunct2, THEN conjunct2]
  have "hd (create_block (dm_get dm ''hostBindings'')) = allocHostVars_stmt 3"
    by auto
  with ok c show ?thesis
    unfolding e by simp
qed

end
